theory Spec2Isabelle
  imports Main "HOL-Library.Stream" "HOL-Library.Word"
begin

unbundle bit_operations_syntax

section \<open>socktest.c: data model\<close>

text \<open>
  The program is a single C file of global variables and command handlers. The model
  keeps the globals in one record, passed through every function and returned updated.
  What the program asks of the operating system and of the C library is answered by a
  \<open>world\<close>: one stream of answers per kind of call, consumed in call order. Every
  system call the program makes is written to a trace, every line it prints to an
  output list, both in chronological order.
\<close>

subsection \<open>Constants\<close>

definition MAXSOCKETS :: nat where "MAXSOCKETS = 10"
definition UNUSED_FD :: int where "UNUSED_FD = - 1"
definition BLOCK_THRESHOLD :: int where "BLOCK_THRESHOLD = 1000000"

text \<open>
  The constants of the system headers are not part of the repository. The values below
  are those of Linux; no theorem depends on the numbers.
\<close>

definition EWOULDBLOCK :: int where "EWOULDBLOCK = 11"
definition EINPROGRESS :: int where "EINPROGRESS = 115"
definition EALREADY :: int where "EALREADY = 114"
definition O_NONBLOCK :: int where "O_NONBLOCK = 2048"
definition O_ASYNC :: int where "O_ASYNC = 8192"

subsection \<open>Enumerations\<close>

datatype readyCondition = READ_READY | WRITE_READY | EXCEPT_READY

datatype model_t = BLOCKING_MODEL | NONBLOCKING_MODEL | SELECT_MODEL | SIGNAL_MODEL

datatype command_enum =
    CMD_QUIT | CMD_HELP | CMD_MODEL | CMD_USE | CMD_SOCKET | CMD_BIND | CMD_CONNECT
  | CMD_LISTEN | CMD_ACCEPT | CMD_RECVMSG | CMD_SENDMSG | CMD_READ | CMD_WRITE
  | CMD_SETSOCKOPT | CMD_GETSOCKOPT | CMD_MULTIJOIN | CMD_MULTILEAVE | CMD_SHUTDOWN
  | CMD_GETSOCKNAME | CMD_GETPEERNAME | CMD_CLOSE

subsection \<open>The environment\<close>

text \<open>
  A signal is taken to reach the process while it is suspended: in \<open>select\<close>, in
  \<open>sleep\<close> or in the socket operation under test. \<open>SIGINT\<close>, \<open>SIGTSTP\<close> and
  \<open>SIGPIPE\<close> have the handlers \<open>main\<close> installs; \<open>SIGIO\<close> has the handler last
  installed by \<open>signal(SIGIO, ...)\<close>. Results and descriptors, \<open>int\<close> in the source, are
  unbounded integers in the model; the code adds 1 to a descriptor and otherwise only
  compares them. Times, on which the code computes, are machine words.
\<close>

datatype signal = SIGINT | SIGTSTP | SIGPIPE | SIGIO

datatype sighandler = SIG_DFL | H_defaultSIGIOHandler | H_activeSIGIOHandler

text \<open>\<open>struct timeval\<close>: the fields have the types \<open>time_t\<close> and \<open>suseconds_t\<close>, both
  \<open>long\<close> and 64 bits wide on the LP64 systems (Linux on x86-64) the model takes.\<close>

record timeval =
  tv_sec :: "64 word"
  tv_usec :: "64 word"

text \<open>What one call of \<open>select\<close> returns: the count, the three bit sets as it leaves
  them, \<open>errno\<close> if it fails, and the signals delivered while it waited.\<close>

record select_ret =
  sel_result :: int
  sel_read :: "int set"
  sel_write :: "int set"
  sel_except :: "int set"
  sel_errno :: int
  sel_signals :: "signal list"

text \<open>What one call of the socket operation under test returns.\<close>

record api_ret =
  api_result :: int
  api_errno :: int
  api_signals :: "signal list"

text \<open>What the option loop of a handler (\<open>getopt\<close> with \<open>getNamedValue\<close>) ends in.
  The handlers branch on this outcome only; the loop itself is not modelled.\<close>

datatype optparse = OptUnknown char | OptTrailing | OptBadValue | OptOk

record world =
  w_clock :: "timeval stream"             \<comment> \<open>\<open>gettimeofday\<close>\<close>
  w_select :: "select_ret stream"         \<comment> \<open>\<open>select\<close>\<close>
  w_sleep :: "signal list stream"         \<comment> \<open>signals delivered during each \<open>sleep(1)\<close>\<close>
  w_api :: "api_ret stream"               \<comment> \<open>connect, accept, recvmsg, sendmsg, read, write\<close>
  w_sys :: "(int \<times> int) stream"           \<comment> \<open>result and \<open>errno\<close> of every other system call\<close>
  w_signal :: "bool stream"               \<comment> \<open>\<open>signal()\<close>: True when it returns \<open>SIG_ERR\<close>\<close>
  w_scan :: "string \<Rightarrow> int option"        \<comment> \<open>\<open>sscanf(param, "%i", ...)\<close>\<close>
  w_getopt :: "string list \<Rightarrow> optparse"   \<comment> \<open>the option loop on the command's tokens\<close>
  w_resolve :: "string option \<Rightarrow> int"     \<comment> \<open>\<open>getaddrinfo\<close> on a host name or NULL\<close>
  w_strtol :: "string \<Rightarrow> int option"      \<comment> \<open>\<open>strtol(token, &ptr, 0)\<close>; \<open>None\<close> when \<open>ptr == token\<close>\<close>
  w_atmark :: "bool stream"               \<comment> \<open>what \<open>SIOCATMARK\<close> stores in \<open>atMark\<close>\<close>
  w_pid :: int                            \<comment> \<open>\<open>getpid()\<close>\<close>

subsection \<open>Trace and output\<close>

datatype api = API_connect | API_accept | API_recvmsg | API_sendmsg | API_read | API_write

datatype fcntl_cmd = F_GETFL | F_SETFL | F_SETOWN

datatype event =
    EvGettimeofday
  | EvSelect int "int set" "int set" "int set" "int \<times> int" select_ret
      \<comment> \<open>nfds, read, write and exception bits passed in, timeout (sec, usec); what it returned\<close>
  | EvSleep int
  | EvSignal sighandler                   \<comment> \<open>\<open>signal(SIGIO, handler)\<close>\<close>
  | EvFcntl int fcntl_cmd int             \<comment> \<open>descriptor, command, argument\<close>
  | EvApi api int                         \<comment> \<open>the operation under test, on a descriptor\<close>
  | EvSocket
  | EvClose int
  | EvCall string int                     \<comment> \<open>any other socket call, by name, on a descriptor\<close>

datatype chan = Stdout | Stderr

text \<open>Arguments of a format string: \<open>%d\<close>, \<open>%s\<close>, \<open>%c\<close>, a \<open>%s\<close> that may be passed
  NULL, \<open>strerror\<close> and \<open>gai_strerror\<close> of an error number, and a value computed from
  data the model does not hold.\<close>

datatype arg = I int | S string | C char | Sopt "string option" | E int | Gai int | Unmodelled

text \<open>A printed line is kept as the channel, the format string (without its final
  newline) and the arguments, as \<open>fprintf\<close> receives them.\<close>

type_synonym line = "chan \<times> string \<times> arg list"

subsection \<open>The globals\<close>

record state =
  gVerbose :: bool
  gCurrent :: int
  gSockfd :: "int list"
  gTokens :: "string list"                \<comment> \<open>the tokens before the NULL; \<open>gTokenCount\<close> is the length\<close>
  model :: model_t
  gInterrupted :: bool
  callTime :: timeval
  shouldBlock :: bool
  sigioReceived :: bool
  errno :: int
  sigio_handler :: sighandler             \<comment> \<open>the disposition of \<open>SIGIO\<close>\<close>
  world :: world
  trace :: "event list"
  printed :: "line list"

text \<open>A state is well formed when the registry has its ten slots and the current
  selection indexes one of them.\<close>

definition wf_state :: "state \<Rightarrow> bool" where
  "wf_state s \<longleftrightarrow> length (gSockfd s) = MAXSOCKETS \<and> 0 \<le> gCurrent s \<and> gCurrent s < int MAXSOCKETS"

text \<open>\<open>gSockfd[gCurrent]\<close>.\<close>

definition cur_fd :: "state \<Rightarrow> int" where
  "cur_fd s = gSockfd s ! nat (gCurrent s)"

text \<open>\<open>gTokens[i]\<close> for \<open>i \<le> gTokenCount\<close>: the token, or NULL at \<open>gTokenCount\<close>.\<close>

definition token :: "nat \<Rightarrow> state \<Rightarrow> string option" where
  "token i s = (if i < length (gTokens s) then Some (gTokens s ! i) else None)"

definition gTokenCount :: "state \<Rightarrow> int" where
  "gTokenCount s = int (length (gTokens s))"

subsection \<open>Results\<close>

text \<open>
  Two places of the source have no defined behaviour: \<open>doUse\<close> reads \<open>gSockfd\<close> at an
  unchecked index, and \<open>signalPostAPISetup\<close> leaves through \<open>return;\<close> without a value
  that its caller then tests. The loops of the source need not end; the model gives each
  a number of iterations it may use and answers \<open>OutOfFuel\<close> beyond it.
\<close>

datatype fault = OutOfBoundsRead | NoReturnValue

datatype 'a outcome = Returns 'a | Undefined fault | OutOfFuel

section \<open>Primitive effects\<close>

definition fprintf :: "chan \<Rightarrow> string \<Rightarrow> arg list \<Rightarrow> state \<Rightarrow> state" where
  "fprintf ch fmt args s = s\<lparr>printed := printed s @ [(ch, fmt, args)]\<rparr>"

definition record_event :: "event \<Rightarrow> state \<Rightarrow> state" where
  "record_event ev s = s\<lparr>trace := trace s @ [ev]\<rparr>"

subsection \<open>Signal handlers\<close>

definition interruptSignalHandler :: "state \<Rightarrow> state" where
  "interruptSignalHandler s = (fprintf Stdout ''User interrupt received.'' [] s)\<lparr>gInterrupted := True\<rparr>"

definition pipeSignalHandler :: "state \<Rightarrow> state" where
  "pipeSignalHandler s = (fprintf Stdout ''Broken pipe signal received.'' [] s)\<lparr>gInterrupted := True\<rparr>"

definition defaultSIGIOHandler :: "state \<Rightarrow> state" where
  "defaultSIGIOHandler s = fprintf Stderr ''Error - Unexpected SIGIO signal.'' [] s"

definition activeSIGIOHandler :: "state \<Rightarrow> state" where
  "activeSIGIOHandler s =
     (let s1 = s\<lparr>sigioReceived := True\<rparr>
      in if gVerbose s1 then fprintf Stdout ''SIGIO handler called.'' [] s1 else s1)"

text \<open>
  \<open>main\<close> installs the interrupt handler for \<open>SIGINT\<close> and \<open>SIGTSTP\<close> and the pipe
  handler for \<open>SIGPIPE\<close> before the first command. The kernel raises \<open>SIGIO\<close> only for a
  descriptor with \<open>O_ASYNC\<close> set, which the program sets after it has installed a handler;
  with no handler installed no code of the program runs.
\<close>

fun handle_signal :: "signal \<Rightarrow> state \<Rightarrow> state" where
  "handle_signal SIGINT s = interruptSignalHandler s"
| "handle_signal SIGTSTP s = interruptSignalHandler s"
| "handle_signal SIGPIPE s = pipeSignalHandler s"
| "handle_signal SIGIO s =
     (case sigio_handler s of
        SIG_DFL \<Rightarrow> s
      | H_defaultSIGIOHandler \<Rightarrow> defaultSIGIOHandler s
      | H_activeSIGIOHandler \<Rightarrow> activeSIGIOHandler s)"

definition deliver :: "signal list \<Rightarrow> state \<Rightarrow> state" where
  "deliver sigs s = fold handle_signal sigs s"

subsection \<open>System calls\<close>

definition gettimeofday :: "state \<Rightarrow> timeval \<times> state" where
  "gettimeofday s =
     (shd (w_clock (world s)),
      record_event EvGettimeofday (s\<lparr>world := (world s)\<lparr>w_clock := stl (w_clock (world s))\<rparr>\<rparr>))"

text \<open>A call that does not suspend: its event is recorded, its result is the next answer
  of \<open>w_sys\<close>, and \<open>errno\<close> is set when the result is negative.\<close>

definition syscall :: "event \<Rightarrow> state \<Rightarrow> int \<times> state" where
  "syscall ev s =
     (let (r, e) = shd (w_sys (world s));
          s1 = record_event ev (s\<lparr>world := (world s)\<lparr>w_sys := stl (w_sys (world s))\<rparr>\<rparr>)
      in (r, if r < 0 then s1\<lparr>errno := e\<rparr> else s1))"

definition sleep :: "int \<Rightarrow> state \<Rightarrow> state" where
  "sleep secs s =
     deliver (shd (w_sleep (world s)))
       (record_event (EvSleep secs) (s\<lparr>world := (world s)\<lparr>w_sleep := stl (w_sleep (world s))\<rparr>\<rparr>))"

text \<open>\<open>signal(SIGIO, h)\<close>: the flag returned is True for \<open>SIG_ERR\<close>.\<close>

definition signal_SIGIO :: "sighandler \<Rightarrow> state \<Rightarrow> bool \<times> state" where
  "signal_SIGIO h s =
     (let failed = shd (w_signal (world s));
          s1 = record_event (EvSignal h) (s\<lparr>world := (world s)\<lparr>w_signal := stl (w_signal (world s))\<rparr>\<rparr>)
      in (failed, if failed then s1 else s1\<lparr>sigio_handler := h\<rparr>))"

definition select_call ::
    "int \<Rightarrow> int set \<Rightarrow> int set \<Rightarrow> int set \<Rightarrow> int \<times> int \<Rightarrow> state \<Rightarrow> select_ret \<times> state" where
  "select_call nfds rd wr ex tmo s =
     (let r = shd (w_select (world s));
          s1 = record_event (EvSelect nfds rd wr ex tmo r)
                 (s\<lparr>world := (world s)\<lparr>w_select := stl (w_select (world s))\<rparr>\<rparr>);
          s2 = deliver (sel_signals r) s1
      in (r, if sel_result r < 0 then s2\<lparr>errno := sel_errno r\<rparr> else s2))"

text \<open>The operation under test, on \<open>gSockfd[gCurrent]\<close>.\<close>

definition call_api :: "api \<Rightarrow> state \<Rightarrow> int \<times> state" where
  "call_api a s =
     (let r = shd (w_api (world s));
          s1 = record_event (EvApi a (cur_fd s))
                 (s\<lparr>world := (world s)\<lparr>w_api := stl (w_api (world s))\<rparr>\<rparr>);
          s2 = deliver (api_signals r) s1
      in (api_result r, if api_result r < 0 then s2\<lparr>errno := api_errno r\<rparr> else s2))"

subsection \<open>Argument helpers\<close>

text \<open>\<open>setIntegerArgument\<close>: \<open>None\<close> stands for the return value 1, \<open>Some v\<close> for 0 with
  \<open>*value = v\<close>.\<close>

definition setIntegerArgument :: "string \<Rightarrow> state \<Rightarrow> int option \<times> state" where
  "setIntegerArgument param s =
     (case w_scan (world s) param of
        None \<Rightarrow> (None, fprintf Stderr ''%s is not a valid value.'' [S param] s)
      | Some temp_value \<Rightarrow> (Some temp_value, s))"

fun gUsage :: "command_enum \<Rightarrow> string" where
  "gUsage CMD_QUIT = ''quit''"
| "gUsage CMD_HELP = ''help''"
| "gUsage CMD_MODEL = ''model *blocking | nonblocking | select | signal''"
| "gUsage CMD_USE = ''use number''"
| "gUsage CMD_SOCKET = ''socket [-d domain] [-t type] [-p protocol]''"
| "gUsage CMD_BIND = ''bind portnumber [ hostaddress ]''"
| "gUsage CMD_CONNECT = ''connect portnumber [ hostaddress ]''"
| "gUsage CMD_LISTEN = ''listen [backlogCount]''"
| "gUsage CMD_ACCEPT = ''accept''"
| "gUsage CMD_RECVMSG = ''recvmsg [-f OOB]''"
| "gUsage CMD_SENDMSG = ''sendmsg [-a hostaddress port] [-f OOB]''"
| "gUsage CMD_READ = ''read''"
| "gUsage CMD_WRITE = ''write''"
| "gUsage CMD_SETSOCKOPT = ''setsockopt level opt [-i value]''"
| "gUsage CMD_GETSOCKOPT = ''getsockopt level opt [-i]''"
| "gUsage CMD_MULTIJOIN = ''multijoin interfaceIndex hostaddress''"
| "gUsage CMD_MULTILEAVE = ''multileave interfaceIndex hostaddress''"
| "gUsage CMD_SHUTDOWN = ''shutdown [SHUT_RD | SHUT_WR | SHUT_RDWR]''"
| "gUsage CMD_GETSOCKNAME = ''getsockname''"
| "gUsage CMD_GETPEERNAME = ''getpeername''"
| "gUsage CMD_CLOSE = ''close''"

definition usage :: "command_enum \<Rightarrow> state \<Rightarrow> state" where
  "usage cmd s = fprintf Stderr ''gUsage:  %s.'' [S (gUsage cmd)] s"

definition api_error :: "int \<Rightarrow> state \<Rightarrow> state" where
  "api_error result s =
     fprintf Stderr ''API returned %d.  Error %d passed in errno - %s.''
       [I result, I (errno s), E (errno s)] s"

section \<open>The socket registry\<close>

text \<open>The scan of \<open>findFreeSocketSlot\<close>: \<open>for (i = 0; i < MAXSOCKETS; i++)\<close>, left by
  \<open>break\<close> at the first unused slot. The result is the value of \<open>i\<close> after the loop.\<close>

function findSlotLoop :: "nat \<Rightarrow> int list \<Rightarrow> nat" where
  "findSlotLoop i fds =
     (if i < MAXSOCKETS
      then (if fds ! i = UNUSED_FD then i else findSlotLoop (Suc i) fds)
      else i)"
  by pat_completeness auto
termination
  by (relation "measure (\<lambda>(i, fds). MAXSOCKETS - i)") auto

declare findSlotLoop.simps [simp del]

definition findFreeSocketSlot :: "state \<Rightarrow> int \<times> state" where
  "findFreeSocketSlot s =
     (let i = findSlotLoop 0 (gSockfd s)
      in if i \<ge> MAXSOCKETS
         then (- 1, fprintf Stderr ''All %d sockets are in use.'' [I (int MAXSOCKETS)] s)
         else (int i, s))"

definition setFctlFlag :: "int \<Rightarrow> state \<Rightarrow> state" where
  "setFctlFlag flag s =
     (let (flags, s1) = syscall (EvFcntl (cur_fd s) F_GETFL 0) s
      in if flags < 0 then fprintf Stderr ''Error on F_GETFL - %s.'' [E (errno s1)] s1
         else
           (let (result, s2) = syscall (EvFcntl (cur_fd s1) F_SETFL (flags OR flag)) s1
            in if result < 0 then fprintf Stderr ''Error on F_SETFL - %s.'' [E (errno s2)] s2
               else s2))"

definition clearFctlFlag :: "int \<Rightarrow> state \<Rightarrow> state" where
  "clearFctlFlag flag s =
     (let (flags, s1) = syscall (EvFcntl (cur_fd s) F_GETFL 0) s
      in if flags < 0 then fprintf Stderr ''Error on F_GETFL - %s.'' [E (errno s1)] s1
         else
           (let (result, s2) = syscall (EvFcntl (cur_fd s1) F_SETFL (flags AND NOT flag)) s1
            in if result < 0 then fprintf Stderr ''Error on F_SETFL - %s.'' [E (errno s2)] s2
               else s2))"

section \<open>The blocking test\<close>

definition doBlockingSetup :: "state \<Rightarrow> state" where
  "doBlockingSetup s = (let (t, s1) = gettimeofday s in s1\<lparr>callTime := t\<rparr>)"

text \<open>The value of \<open>long delta\<close> in \<open>verifyBlocking\<close>: the time from \<open>callTime\<close> to
  \<open>returnTime\<close> in microseconds, computed in 64-bit two's complement arithmetic and read
  as a signed number. Where the product or a sum leaves the range of \<open>long\<close> the result
  wraps, as the arithmetic of the machine does.\<close>

definition delta :: "timeval \<Rightarrow> timeval \<Rightarrow> int" where
  "delta returnTime calledAt =
     sint ((tv_sec returnTime - tv_sec calledAt) * 1000000
           + tv_usec returnTime - tv_usec calledAt)"

definition verifyBlocking :: "bool \<Rightarrow> state \<Rightarrow> state" where
  "verifyBlocking expected s =
     (let (returnTime, s1) = gettimeofday s;
          blocked = (delta returnTime (callTime s1) > BLOCK_THRESHOLD)
      in if blocked \<noteq> expected
         then fprintf Stderr ''Error - API %s block.'' [S (if blocked then ''did'' else ''did not'')] s1
         else if gVerbose s1
         then fprintf Stderr ''API %s block.'' [S (if blocked then ''did'' else ''did not'')] s1
         else s1)"

section \<open>The four models\<close>

subsection \<open>Blocking\<close>

definition blockingPreAPISetup :: "readyCondition \<Rightarrow> state \<Rightarrow> state" where
  "blockingPreAPISetup neededCondition s =
     doBlockingSetup (s\<lparr>shouldBlock := (neededCondition \<noteq> WRITE_READY)\<rparr>)"

definition blockingPostAPISetup :: "int \<Rightarrow> state \<Rightarrow> bool \<times> state" where
  "blockingPostAPISetup apiResult s =
     (True, verifyBlocking (shouldBlock s \<and> apiResult \<ge> 0) s)"

subsection \<open>Non-blocking\<close>

definition nonblockingPreAPISetup :: "state \<Rightarrow> state" where
  "nonblockingPreAPISetup s =
     (let s1 = doBlockingSetup s;
          s2 = setFctlFlag O_NONBLOCK s1
      in if gVerbose s2 then fprintf Stdout ''Tick.'' [] s2 else s2)"

definition nonblockingPostAPISetup :: "int \<Rightarrow> state \<Rightarrow> bool \<times> state" where
  "nonblockingPostAPISetup apiResult s =
     (let err = errno s;
          s1 = verifyBlocking False s;
          s2 = clearFctlFlag O_NONBLOCK s1;
          done = (apiResult \<ge> 0 \<or> (err \<noteq> EWOULDBLOCK \<and> err \<noteq> EINPROGRESS \<and> err \<noteq> EALREADY));
          s3 = (if gVerbose s2
                then (if apiResult \<noteq> 0
                      then fprintf Stdout ''API result is %d, errno is '%s'.'' [I apiResult, E err] s2
                      else fprintf Stdout ''API result is zero.'' [I apiResult, E err] s2)
                else s2);
          s4 = (if \<not> done then sleep 1 s3 else s3)
      in (done, s4))"

subsection \<open>Select\<close>

text \<open>
  The \<open>do ... while (!done && !gInterrupted)\<close> loop of \<open>selectPreAPISetup\<close>. The three bit
  sets are cleared and the descriptor is set in the one \<open>watchBits\<close> points to; after the
  call \<open>watchBits\<close> is read as \<open>select\<close> left it. An \<open>fd_set\<close> is modelled as the set of
  the descriptors whose bit is set (\<open>FD_SET\<close> itself is defined for the descriptors from 0
  below \<open>FD_SETSIZE\<close> only).
\<close>

fun selectLoop :: "nat \<Rightarrow> readyCondition \<Rightarrow> state \<Rightarrow> state outcome" where
  "selectLoop 0 neededCondition s = OutOfFuel"
| "selectLoop (Suc n) neededCondition s =
     (let fd = cur_fd s;
          readBits = (if neededCondition = READ_READY then {fd} else {});
          writeBits = (if neededCondition = WRITE_READY then {fd} else {});
          exceptBits = (if neededCondition = EXCEPT_READY then {fd} else {});
          (r, s1) = select_call (fd + 1) readBits writeBits exceptBits (1, 0) s;
          result = sel_result r;
          watchBits = (case neededCondition of
                         READ_READY \<Rightarrow> sel_read r
                       | WRITE_READY \<Rightarrow> sel_write r
                       | EXCEPT_READY \<Rightarrow> sel_except r);
          (done, s2) =
            (if result = 0
             then (False, if gVerbose s1 then fprintf Stdout ''Tick.'' [] s1 else s1)
             else if result = 1
             then (True,
                   if cur_fd s1 \<notin> watchBits
                   then fprintf Stderr ''Error - Expected fd bit not set after select() returned 1.'' [] s1
                   else if gVerbose s1 then fprintf Stdout ''select() exited as expected.'' [] s1
                   else s1)
             else (False, fprintf Stderr ''Error - select() returned %d.'' [I result] s1))
      in if \<not> done \<and> \<not> gInterrupted s2 then selectLoop n neededCondition s2 else Returns s2)"

definition selectPreAPISetup :: "nat \<Rightarrow> readyCondition \<Rightarrow> state \<Rightarrow> state outcome" where
  "selectPreAPISetup n neededCondition s =
     (case selectLoop n neededCondition s of
        Returns s1 \<Rightarrow> Returns (doBlockingSetup s1)
      | Undefined f \<Rightarrow> Undefined f
      | OutOfFuel \<Rightarrow> OutOfFuel)"

definition selectPostAPISetup :: "int \<Rightarrow> state \<Rightarrow> bool \<times> state" where
  "selectPostAPISetup apiResult s = (True, verifyBlocking False s)"

subsection \<open>Signal\<close>

text \<open>The \<open>while (!sigioReceived && !gInterrupted)\<close> loop of \<open>signalPreAPISetup\<close>.\<close>

fun signalWait :: "nat \<Rightarrow> state \<Rightarrow> state outcome" where
  "signalWait 0 s =
     (if \<not> sigioReceived s \<and> \<not> gInterrupted s then OutOfFuel else Returns s)"
| "signalWait (Suc n) s =
     (if \<not> sigioReceived s \<and> \<not> gInterrupted s
      then (let s1 = sleep 1 s;
                s2 = (if gVerbose s1 then fprintf Stdout ''Tick.'' [] s1 else s1)
            in signalWait n s2)
      else Returns s)"

definition signalPreAPISetup :: "nat \<Rightarrow> readyCondition \<Rightarrow> state \<Rightarrow> state outcome" where
  "signalPreAPISetup n neededCondition s =
     (if neededCondition = WRITE_READY then Returns (doBlockingSetup s)
      else
        (let (failed, s1) = signal_SIGIO H_activeSIGIOHandler s
         in if failed then Returns (fprintf Stderr ''Error - signal() returned SIG_ERR.'' [] s1)
            else
              (let (result, s2) = syscall (EvFcntl (cur_fd s1) F_SETOWN (w_pid (world s1))) s1
               in if result < 0
                  then Returns (fprintf Stderr ''Error on F_SETOWN - %s.'' [E (errno s2)] s2)
                  else
                    (let s3 = s2\<lparr>sigioReceived := False\<rparr>;
                         s4 = setFctlFlag O_ASYNC s3
                     in case signalWait n s4 of
                          Returns s5 \<Rightarrow> Returns (doBlockingSetup s5)
                        | Undefined f \<Rightarrow> Undefined f
                        | OutOfFuel \<Rightarrow> OutOfFuel))))"

definition signalPostAPISetup :: "int \<Rightarrow> state \<Rightarrow> (bool \<times> state) outcome" where
  "signalPostAPISetup apiResult s =
     (let s1 = verifyBlocking False s;
          (failed, s2) = signal_SIGIO H_defaultSIGIOHandler s1
      in if failed then Undefined NoReturnValue
         else Returns (True, clearFctlFlag O_ASYNC s2))"

subsection \<open>Dispatch on the model\<close>

definition preAPISetup :: "nat \<Rightarrow> readyCondition \<Rightarrow> state \<Rightarrow> state outcome" where
  "preAPISetup n neededCondition s =
     (case model s of
        BLOCKING_MODEL \<Rightarrow> Returns (blockingPreAPISetup neededCondition s)
      | NONBLOCKING_MODEL \<Rightarrow> Returns (nonblockingPreAPISetup s)
      | SELECT_MODEL \<Rightarrow> selectPreAPISetup n neededCondition s
      | SIGNAL_MODEL \<Rightarrow> signalPreAPISetup n neededCondition s)"

definition postAPISetup :: "int \<Rightarrow> state \<Rightarrow> (bool \<times> state) outcome" where
  "postAPISetup apiResult s =
     (case model s of
        BLOCKING_MODEL \<Rightarrow> Returns (blockingPostAPISetup apiResult s)
      | NONBLOCKING_MODEL \<Rightarrow> Returns (nonblockingPostAPISetup apiResult s)
      | SELECT_MODEL \<Rightarrow> Returns (selectPostAPISetup apiResult s)
      | SIGNAL_MODEL \<Rightarrow> signalPostAPISetup apiResult s)"

section \<open>The retry loop\<close>

text \<open>
  The loop every handler of a readiness-sensitive command has around its call:
  \<^verbatim>\<open>do { preAPISetup(cond); if (gInterrupted) return; result = api(...);
       done = postAPISetup(result); } while (!done);\<close>
  The result is \<open>None\<close> when the handler returned from inside the loop, and the last
  result of the call when the loop ended.
\<close>

fun apiLoop :: "nat \<Rightarrow> readyCondition \<Rightarrow> api \<Rightarrow> state \<Rightarrow> (int option \<times> state) outcome" where
  "apiLoop 0 neededCondition a s = OutOfFuel"
| "apiLoop (Suc n) neededCondition a s =
     (case preAPISetup (Suc n) neededCondition s of
        Undefined f \<Rightarrow> Undefined f
      | OutOfFuel \<Rightarrow> OutOfFuel
      | Returns s1 \<Rightarrow>
          if gInterrupted s1 then Returns (None, s1)
          else
            (let (result, s2) = call_api a s1
             in case postAPISetup result s2 of
                  Undefined f \<Rightarrow> Undefined f
                | OutOfFuel \<Rightarrow> OutOfFuel
                | Returns (done, s3) \<Rightarrow>
                    if \<not> done then apiLoop n neededCondition a s3
                    else Returns (Some result, s3)))"

section \<open>Command handlers\<close>

text \<open>
  A handler that contains the retry loop takes the number of iterations the loops may
  use. The globals \<open>gDomain\<close>, \<open>gType\<close> and \<open>gProtocol\<close>, the addresses and the data
  buffers are not part of the model; what a handler prints from them appears as
  \<open>Unmodelled\<close>.
\<close>

subsection \<open>model, use, socket, close\<close>

text \<open>\<open>doModel\<close>: the chain of \<open>strcmp\<close> tests on \<open>gTokens[1]\<close>, in the source's order.\<close>

definition doModel :: "state \<Rightarrow> state" where
  "doModel s =
     (case token 1 s of
        None \<Rightarrow> s\<lparr>model := BLOCKING_MODEL\<rparr>
      | Some t \<Rightarrow>
          if t = ''blocking'' then s\<lparr>model := BLOCKING_MODEL\<rparr>
          else if t = ''nonblocking'' then s\<lparr>model := NONBLOCKING_MODEL\<rparr>
          else if t = ''signal'' then s\<lparr>model := SIGNAL_MODEL\<rparr>
          else if t = ''select'' then s\<lparr>model := SELECT_MODEL\<rparr>
          else fprintf Stderr ''Unrecognized model %s'' [S t] s)"

text \<open>\<open>doUse\<close> reads \<open>gSockfd[newgCurrent]\<close> without a test of the index. Inside the
  array the read is the slot; outside it the behaviour of the C program is undefined.\<close>

definition doUse :: "state \<Rightarrow> state outcome" where
  "doUse s =
     (if gTokenCount s \<noteq> 2 then Returns (usage CMD_USE s)
      else
        (let (value, s1) = setIntegerArgument (gTokens s ! 1) s
         in case value of
              None \<Rightarrow> Returns (fprintf Stderr ''Invalid socket number.'' [] s1)
            | Some newgCurrent \<Rightarrow>
                if newgCurrent < 0 \<or> int MAXSOCKETS \<le> newgCurrent
                then Undefined OutOfBoundsRead
                else if gSockfd s1 ! nat newgCurrent = UNUSED_FD
                then Returns (fprintf Stderr ''Socket number %d not open.'' [I newgCurrent] s1)
                else Returns (s1\<lparr>gCurrent := newgCurrent\<rparr>)))"

text \<open>\<open>doSocket\<close>. The option loop ends in one of the outcomes of \<open>optparse\<close>; the lines
  \<open>getNamedValue\<close> prints inside the loop are not modelled.\<close>

definition doSocket :: "state \<Rightarrow> state" where
  "doSocket s =
     (case w_getopt (world s) (gTokens s) of
        OptUnknown option \<Rightarrow> fprintf Stderr ''Unknown option %c.'' [C option] s
      | OptTrailing \<Rightarrow>
          usage CMD_SOCKET (fprintf Stderr ''Unexpected argument(s) at end of command.'' [] s)
      | OptBadValue \<Rightarrow> usage CMD_SOCKET s
      | OptOk \<Rightarrow>
          (let (newgCurrent, s1) = findFreeSocketSlot s
           in if newgCurrent < 0 then s1
              else
                (let s2 = s1\<lparr>gCurrent := newgCurrent\<rparr>;
                     (fd, s3) = syscall EvSocket s2;
                     s4 = s3\<lparr>gSockfd := (gSockfd s3)[nat (gCurrent s3) := fd]\<rparr>
                 in if cur_fd s4 < 0 then api_error (cur_fd s4) s4 else s4)))"

definition doClose :: "state \<Rightarrow> state" where
  "doClose s =
     (let (result, s1) = syscall (EvClose (cur_fd s)) s
      in if result < 0 then api_error result s1
         else s1\<lparr>gSockfd := (gSockfd s1)[nat (gCurrent s1) := UNUSED_FD]\<rparr>)"

subsection \<open>The commands with a retry loop\<close>

definition doConnect :: "nat \<Rightarrow> state \<Rightarrow> state outcome" where
  "doConnect n s =
     (if gTokenCount s < 2 \<or> gTokenCount s > 3 then Returns (usage CMD_CONNECT s)
      else
        (let (port, s1) = setIntegerArgument (gTokens s ! 1) s
         in case port of
              None \<Rightarrow> Returns (fprintf Stderr ''Invalid port number.'' [] s1)
            | Some p \<Rightarrow>
                (let result = w_resolve (world s1) (token 2 s1)
                 in if result \<noteq> 0
                    then Returns (fprintf Stderr ''Error - %s is not a valid address:  %s.''
                                    [Sopt (token 2 s1), Gai result] s1)
                    else
                      (case apiLoop n READ_READY API_connect s1 of
                         Undefined f \<Rightarrow> Undefined f
                       | OutOfFuel \<Rightarrow> OutOfFuel
                       | Returns (None, s2) \<Rightarrow> Returns s2
                       | Returns (Some result, s2) \<Rightarrow>
                           Returns (if result < 0 then api_error result s2 else s2)))))"

definition doAccept :: "nat \<Rightarrow> state \<Rightarrow> state outcome" where
  "doAccept n s =
     (let (newgCurrent, s1) = findFreeSocketSlot s
      in if newgCurrent < 0 then Returns s1
         else
           (case apiLoop n READ_READY API_accept s1 of
              Undefined f \<Rightarrow> Undefined f
            | OutOfFuel \<Rightarrow> OutOfFuel
            | Returns (None, s2) \<Rightarrow> Returns s2
            | Returns (Some result, s2) \<Rightarrow>
                if result < 0 then Returns (api_error result s2)
                else Returns (s2\<lparr>gSockfd := (gSockfd s2)[nat newgCurrent := result],
                                 gCurrent := newgCurrent\<rparr>)))"

text \<open>\<open>doRecvmsg\<close>: the display of the received bytes under \<open>gVerbose\<close> is not modelled.\<close>

definition doRecvmsg :: "nat \<Rightarrow> state \<Rightarrow> state outcome" where
  "doRecvmsg n s =
     (case w_getopt (world s) (gTokens s) of
        OptUnknown option \<Rightarrow> Returns (fprintf Stderr ''Unknown option %c.'' [C option] s)
      | OptTrailing \<Rightarrow>
          Returns (usage CMD_RECVMSG
                     (fprintf Stderr ''Unexpected argument(s) at end of command.'' [] s))
      | OptBadValue \<Rightarrow> Returns (usage CMD_RECVMSG s)
      | OptOk \<Rightarrow>
          (case apiLoop n READ_READY API_recvmsg s of
             Undefined f \<Rightarrow> Undefined f
           | OutOfFuel \<Rightarrow> OutOfFuel
           | Returns (None, s2) \<Rightarrow> Returns s2
           | Returns (Some result, s2) \<Rightarrow>
               if result < 0 then Returns (api_error result s2)
               else
                 (let (result, s3) = syscall (EvCall ''ioctl(SIOCATMARK)'' (cur_fd s2)) s2;
                      atMark = shd (w_atmark (world s3));
                      s4 = s3\<lparr>world := (world s3)\<lparr>w_atmark := stl (w_atmark (world s3))\<rparr>\<rparr>
                  in if result < 0
                     then Returns (fprintf Stderr ''Error in ioctl(SIOCATMARK) call - %s.''
                                     [E (errno s3)] s3)
                     else if atMark then Returns (fprintf Stdout ''SIOCATMARK returned true.'' [] s4)
                     else Returns s4)))"

text \<open>The report \<open>doSendmsg\<close> and \<open>doWrite\<close> share after the loop.\<close>

definition report_written :: "int \<Rightarrow> state \<Rightarrow> state" where
  "report_written result s =
     (if result < 0 then api_error result s
      else if result = 0 \<and> gVerbose s then fprintf Stdout ''Zero count returned.'' [] s
      else if result > 0 \<and> gVerbose s then fprintf Stdout ''%d bytes written.'' [I result] s
      else s)"

definition doSendmsg :: "nat \<Rightarrow> state \<Rightarrow> state outcome" where
  "doSendmsg n s =
     (case w_getopt (world s) (gTokens s) of
        OptUnknown option \<Rightarrow> Returns (fprintf Stderr ''Unknown option %c.'' [C option] s)
      | OptTrailing \<Rightarrow>
          Returns (usage CMD_SENDMSG
                     (fprintf Stderr ''Unexpected argument(s) at end of command.'' [] s))
      | OptBadValue \<Rightarrow> Returns (usage CMD_SENDMSG s)
      | OptOk \<Rightarrow>
          (case apiLoop n WRITE_READY API_sendmsg s of
             Undefined f \<Rightarrow> Undefined f
           | OutOfFuel \<Rightarrow> OutOfFuel
           | Returns (None, s2) \<Rightarrow> Returns s2
           | Returns (Some result, s2) \<Rightarrow> Returns (report_written result s2)))"

definition doRead :: "nat \<Rightarrow> state \<Rightarrow> state outcome" where
  "doRead n s =
     (case apiLoop n READ_READY API_read s of
        Undefined f \<Rightarrow> Undefined f
      | OutOfFuel \<Rightarrow> OutOfFuel
      | Returns (None, s2) \<Rightarrow> Returns s2
      | Returns (Some result, s2) \<Rightarrow>
          if result < 0 then Returns (api_error result s2)
          else if gVerbose s2
          then
            (let s3 = (if result = 0 then fprintf Stdout ''End of file returned.'' [] s2
                       else if result > 0 then fprintf Stdout ''%d bytes read.'' [I result] s2
                       else s2)
             in Returns (fprintf Stdout ''First %d bytes received are: %s''
                           [I (min result 64), Unmodelled] s3))
          else Returns s2)"

definition doWrite :: "nat \<Rightarrow> state \<Rightarrow> state outcome" where
  "doWrite n s =
     (case apiLoop n WRITE_READY API_write s of
        Undefined f \<Rightarrow> Undefined f
      | OutOfFuel \<Rightarrow> OutOfFuel
      | Returns (None, s2) \<Rightarrow> Returns s2
      | Returns (Some result, s2) \<Rightarrow> Returns (report_written result s2))"

subsection \<open>The single-call commands\<close>

definition tolower :: "char \<Rightarrow> char" where
  "tolower c = (let n = (of_char c :: nat) in if 65 \<le> n \<and> n \<le> 90 then char_of (n + 32) else c)"

text \<open>\<open>getNamedValue\<close>: the token forced to lower case (in place, so it is returned too),
  the search through the names, then \<open>strtol\<close>. \<open>None\<close> stands for the return value -1.\<close>

definition getNamedValue ::
    "string \<Rightarrow> (string \<times> int) list \<Rightarrow> state \<Rightarrow> int option \<times> string \<times> state" where
  "getNamedValue tok names s =
     (let tok' = map tolower tok
      in case map_of names tok' of
           Some v \<Rightarrow> (Some v, tok', s)
         | None \<Rightarrow>
             (case w_strtol (world s) tok' of
                None \<Rightarrow> (None, tok',
                         fprintf Stderr ''%s is not a recognized option value.'' [S tok'] s)
              | Some v \<Rightarrow> (Some v, tok', s)))"

text \<open>A socket call on \<open>gSockfd[gCurrent]\<close> followed by the report of a negative result.\<close>

definition checked_call :: "string \<Rightarrow> state \<Rightarrow> int \<times> state" where
  "checked_call name s =
     (let (result, s1) = syscall (EvCall name (cur_fd s)) s
      in (result, if result < 0 then api_error result s1 else s1))"

definition address_error :: "state \<Rightarrow> state" where
  "address_error s =
     fprintf Stderr ''Error - %s is not a valid address:  %s.''
       [Sopt (token 2 s), Gai (w_resolve (world s) (token 2 s))] s"

definition doHelp :: "state \<Rightarrow> state" where
  "doHelp s =
     fold (\<lambda>i. fprintf Stdout ''  %s'' [S (gUsage i)])
       [CMD_QUIT, CMD_HELP, CMD_MODEL, CMD_USE, CMD_SOCKET, CMD_BIND, CMD_CONNECT, CMD_LISTEN,
        CMD_ACCEPT, CMD_RECVMSG, CMD_SENDMSG, CMD_READ, CMD_WRITE, CMD_SETSOCKOPT,
        CMD_GETSOCKOPT, CMD_MULTIJOIN, CMD_MULTILEAVE, CMD_SHUTDOWN, CMD_GETSOCKNAME,
        CMD_GETPEERNAME, CMD_CLOSE]
       (fprintf Stdout ''socktest understands these gCommands:'' [] s)"

definition doBind :: "state \<Rightarrow> state" where
  "doBind s =
     (if gTokenCount s < 2 \<or> gTokenCount s > 3 then usage CMD_BIND s
      else
        (let (port, s1) = setIntegerArgument (gTokens s ! 1) s
         in case port of
              None \<Rightarrow> fprintf Stderr ''Invalid port number.'' [] s1
            | Some p \<Rightarrow>
                if gTokenCount s1 = 3 \<and> w_resolve (world s1) (token 2 s1) \<noteq> 0
                then address_error s1
                else snd (checked_call ''bind'' s1)))"

definition doListen :: "state \<Rightarrow> state" where
  "doListen s =
     (if gTokenCount s > 2 then usage CMD_LISTEN s
      else if gTokenCount s = 2
      then
        (let (backlog, s1) = setIntegerArgument (gTokens s ! 1) s
         in case backlog of
              None \<Rightarrow> fprintf Stderr ''Invalid backlog count.'' [] s1
            | Some b \<Rightarrow> snd (checked_call ''listen'' s1))
      else snd (checked_call ''listen'' s))"

definition doSetsockopt :: "state \<Rightarrow> state" where
  "doSetsockopt s =
     (if gTokenCount s \<noteq> 5 then usage CMD_SETSOCKOPT s
      else
        (let (level, s1) = setIntegerArgument (gTokens s ! 1) s
         in case level of
              None \<Rightarrow> fprintf Stderr ''Invalid level value.'' [] s1
            | Some l \<Rightarrow>
                (let (opt, s2) = setIntegerArgument (gTokens s1 ! 2) s1
                 in case opt of
                      None \<Rightarrow> fprintf Stderr ''Invalid opt value.'' [] s2
                    | Some opt \<Rightarrow>
                        (let (intArg, s3) = setIntegerArgument (gTokens s2 ! 4) s2
                         in case intArg of
                              None \<Rightarrow> fprintf Stderr ''Invalid argument value.'' [] s3
                            | Some v \<Rightarrow> snd (checked_call ''setsockopt'' s3)))))"

definition doGetsockopt :: "state \<Rightarrow> state" where
  "doGetsockopt s =
     (if gTokenCount s \<noteq> 4 then usage CMD_GETSOCKOPT s
      else
        (let (level, s1) = setIntegerArgument (gTokens s ! 1) s
         in case level of
              None \<Rightarrow> fprintf Stderr ''Invalid level value.'' [] s1
            | Some l \<Rightarrow>
                (let (opt, s2) = setIntegerArgument (gTokens s1 ! 2) s1
                 in case opt of
                      None \<Rightarrow> fprintf Stderr ''Invalid opt value.'' [] s2
                    | Some opt \<Rightarrow>
                        (let (result, s3) = checked_call ''getsockopt'' s2
                         in if result < 0 then s3
                            else fprintf Stdout ''Option value = %d, option length = %d.''
                                   [Unmodelled, Unmodelled] s3))))"

text \<open>\<open>doMultijoin\<close> and \<open>doMultileave\<close> differ in the option passed to \<open>setsockopt\<close>;
  both print the usage line of \<open>CMD_MULTIJOIN\<close>.\<close>

definition doMulti :: "string \<Rightarrow> state \<Rightarrow> state" where
  "doMulti name s =
     (if gTokenCount s \<noteq> 3 then usage CMD_MULTIJOIN s
      else
        (let (interface, s1) = setIntegerArgument (gTokens s ! 1) s
         in case interface of
              None \<Rightarrow> fprintf Stderr ''Invalid interfaceIndex value.'' [] s1
            | Some i \<Rightarrow>
                if w_resolve (world s1) (token 2 s1) \<noteq> 0 then address_error s1
                else snd (checked_call name s1)))"

definition doMultijoin :: "state \<Rightarrow> state" where
  "doMultijoin s = doMulti ''setsockopt(IPV6_ADD_MEMBERSHIP)'' s"

definition doMultileave :: "state \<Rightarrow> state" where
  "doMultileave s = doMulti ''setsockopt(IPV6_DROP_MEMBERSHIP)'' s"

definition doShutdown :: "state \<Rightarrow> state" where
  "doShutdown s =
     (if gTokenCount s \<noteq> 2 then usage CMD_SHUTDOWN s
      else
        (let (option, tok', s1) =
               getNamedValue (gTokens s ! 1)
                 [(''shut_rd'', 0), (''shut_wr'', 1), (''shut_rdwr'', 2)] s;
             s2 = s1\<lparr>gTokens := (gTokens s1)[1 := tok']\<rparr>
         in case option of
              None \<Rightarrow> fprintf Stderr ''Invalid shutdown option value.'' [] s2
            | Some v \<Rightarrow> snd (checked_call ''shutdown'' s2)))"

definition doGetname :: "string \<Rightarrow> state \<Rightarrow> state" where
  "doGetname name s =
     (let (result, s1) = checked_call name s
      in if result < 0 then s1
         else fprintf Stdout ''Address = %s, port = %d, sockaddr length = %d.''
                [Unmodelled, Unmodelled, Unmodelled] s1)"

definition doGetsockname :: "state \<Rightarrow> state" where
  "doGetsockname s = doGetname ''getsockname'' s"

definition doGetpeername :: "state \<Rightarrow> state" where
  "doGetpeername s = doGetname ''getpeername'' s"

section \<open>The command loop\<close>

definition MAXTOKENS :: nat where "MAXTOKENS = 100"

definition gCommands :: "(string \<times> command_enum) list" where
  "gCommands =
     [(''quit'', CMD_QUIT), (''help'', CMD_HELP), (''model'', CMD_MODEL), (''use'', CMD_USE),
      (''socket'', CMD_SOCKET), (''bind'', CMD_BIND), (''connect'', CMD_CONNECT),
      (''listen'', CMD_LISTEN), (''accept'', CMD_ACCEPT), (''recvmsg'', CMD_RECVMSG),
      (''sendmsg'', CMD_SENDMSG), (''read'', CMD_READ), (''write'', CMD_WRITE),
      (''setsockopt'', CMD_SETSOCKOPT), (''getsockopt'', CMD_GETSOCKOPT),
      (''multijoin'', CMD_MULTIJOIN), (''multileave'', CMD_MULTILEAVE),
      (''shutdown'', CMD_SHUTDOWN), (''getsockname'', CMD_GETSOCKNAME),
      (''getpeername'', CMD_GETPEERNAME), (''close'', CMD_CLOSE)]"

text \<open>The \<open>switch\<close> of \<open>main\<close>. The flag returned is \<open>done\<close>.\<close>

fun dispatch :: "nat \<Rightarrow> command_enum \<Rightarrow> state \<Rightarrow> (bool \<times> state) outcome" where
  "dispatch n CMD_QUIT s = Returns (True, s)"
| "dispatch n CMD_HELP s = Returns (False, doHelp s)"
| "dispatch n CMD_MODEL s = Returns (False, doModel s)"
| "dispatch n CMD_USE s =
     (case doUse s of Returns s' \<Rightarrow> Returns (False, s')
      | Undefined f \<Rightarrow> Undefined f | OutOfFuel \<Rightarrow> OutOfFuel)"
| "dispatch n CMD_SOCKET s = Returns (False, doSocket s)"
| "dispatch n CMD_BIND s = Returns (False, doBind s)"
| "dispatch n CMD_CONNECT s =
     (case doConnect n s of Returns s' \<Rightarrow> Returns (False, s')
      | Undefined f \<Rightarrow> Undefined f | OutOfFuel \<Rightarrow> OutOfFuel)"
| "dispatch n CMD_LISTEN s = Returns (False, doListen s)"
| "dispatch n CMD_ACCEPT s =
     (case doAccept n s of Returns s' \<Rightarrow> Returns (False, s')
      | Undefined f \<Rightarrow> Undefined f | OutOfFuel \<Rightarrow> OutOfFuel)"
| "dispatch n CMD_RECVMSG s =
     (case doRecvmsg n s of Returns s' \<Rightarrow> Returns (False, s')
      | Undefined f \<Rightarrow> Undefined f | OutOfFuel \<Rightarrow> OutOfFuel)"
| "dispatch n CMD_SENDMSG s =
     (case doSendmsg n s of Returns s' \<Rightarrow> Returns (False, s')
      | Undefined f \<Rightarrow> Undefined f | OutOfFuel \<Rightarrow> OutOfFuel)"
| "dispatch n CMD_READ s =
     (case doRead n s of Returns s' \<Rightarrow> Returns (False, s')
      | Undefined f \<Rightarrow> Undefined f | OutOfFuel \<Rightarrow> OutOfFuel)"
| "dispatch n CMD_WRITE s =
     (case doWrite n s of Returns s' \<Rightarrow> Returns (False, s')
      | Undefined f \<Rightarrow> Undefined f | OutOfFuel \<Rightarrow> OutOfFuel)"
| "dispatch n CMD_SETSOCKOPT s = Returns (False, doSetsockopt s)"
| "dispatch n CMD_GETSOCKOPT s = Returns (False, doGetsockopt s)"
| "dispatch n CMD_MULTIJOIN s = Returns (False, doMultijoin s)"
| "dispatch n CMD_MULTILEAVE s = Returns (False, doMultileave s)"
| "dispatch n CMD_GETSOCKNAME s = Returns (False, doGetsockname s)"
| "dispatch n CMD_GETPEERNAME s = Returns (False, doGetpeername s)"
| "dispatch n CMD_SHUTDOWN s = Returns (False, doShutdown s)"
| "dispatch n CMD_CLOSE s = Returns (False, doClose s)"

text \<open>
  One turn of the command loop of \<open>main\<close>, from the tokens \<open>strsep\<close> cuts the (non-empty,
  lower-cased) line into; there is always a first token. The line is given up when it
  has \<open>MAXTOKENS\<close> tokens or more. Otherwise the command is looked up by its first
  token, \<open>gInterrupted\<close> is cleared and the handler runs.
\<close>

definition main_step :: "nat \<Rightarrow> string list \<Rightarrow> state \<Rightarrow> (bool \<times> state) outcome" where
  "main_step n tokens s =
     (if length tokens \<ge> MAXTOKENS
      then Returns (False, fprintf Stderr ''Too many tokens in input line.'' []
                             (s\<lparr>gTokens := take MAXTOKENS tokens\<rparr>))
      else
        (let s0 = s\<lparr>gTokens := tokens\<rparr>;
             i = map_of gCommands (hd (gTokens s0));
             s1 = s0\<lparr>gInterrupted := False\<rparr>
         in case i of
              Some cmd \<Rightarrow> dispatch n cmd s1
            | None \<Rightarrow> Returns (False, fprintf Stderr ''Unrecognized command.'' [] s1)))"

section \<open>Reading a run\<close>

fun is_api :: "event \<Rightarrow> bool" where
  "is_api (EvApi a fd) = True"
| "is_api ev = False"

fun is_sleep :: "event \<Rightarrow> bool" where
  "is_sleep (EvSleep secs) = True"
| "is_sleep ev = False"

text \<open>How often the operation under test has been invoked, and how often the program
  has slept.\<close>

definition api_calls :: "state \<Rightarrow> nat" where
  "api_calls s = length (filter is_api (trace s))"

definition sleeps :: "state \<Rightarrow> nat" where
  "sleeps s = length (filter is_sleep (trace s))"

text \<open>Signals that do not set \<open>gInterrupted\<close>.\<close>

definition quiet :: "signal list \<Rightarrow> bool" where
  "quiet sigs = list_all (\<lambda>sg. sg = SIGIO) sigs"

text \<open>The line \<open>verifyBlocking\<close> prints when the classification is not the expected one.\<close>

definition mismatch :: "bool \<Rightarrow> line" where
  "mismatch blocked = (Stderr, ''Error - API %s block.'', [S (if blocked then ''did'' else ''did not'')])"

text \<open>The three bit sets \<open>selectPreAPISetup\<close> passes to \<open>select\<close> for a condition.\<close>

definition select_event :: "readyCondition \<Rightarrow> int \<Rightarrow> select_ret \<Rightarrow> event" where
  "select_event neededCondition fd r =
     EvSelect (fd + 1)
       (if neededCondition = READ_READY then {fd} else {})
       (if neededCondition = WRITE_READY then {fd} else {})
       (if neededCondition = EXCEPT_READY then {fd} else {})
       (1, 0) r"

text \<open>The bit set of a condition in what \<open>select\<close> returned.\<close>

fun watched :: "readyCondition \<Rightarrow> select_ret \<Rightarrow> int set" where
  "watched READ_READY r = sel_read r"
| "watched WRITE_READY r = sel_write r"
| "watched EXCEPT_READY r = sel_except r"

text \<open>
  What \<open>select\<close> promises its caller (POSIX): when it returns a count that is not
  negative, every bit it leaves set is the bit of a descriptor from 0 below \<open>nfds\<close> that
  was set in the same set when it was called, and the count is the number of bits left set
  in the three sets together.
\<close>

definition select_contract :: "int \<Rightarrow> int set \<Rightarrow> int set \<Rightarrow> int set \<Rightarrow> select_ret \<Rightarrow> bool" where
  "select_contract nfds rd wr ex r \<longleftrightarrow>
     (0 \<le> sel_result r \<longrightarrow>
        sel_read r \<subseteq> {fd \<in> rd. 0 \<le> fd \<and> fd < nfds} \<and>
        sel_write r \<subseteq> {fd \<in> wr. 0 \<le> fd \<and> fd < nfds} \<and>
        sel_except r \<subseteq> {fd \<in> ex. 0 \<le> fd \<and> fd < nfds} \<and>
        sel_result r = int (card (sel_read r) + card (sel_write r) + card (sel_except r)))"

section \<open>Worlds and states for concrete runs\<close>

text \<open>A world in which every call succeeds at once and no signal arrives.\<close>

definition calm :: world where
  "calm =
     \<lparr>w_clock = sconst \<lparr>tv_sec = 0, tv_usec = 0\<rparr>,
      w_select = sconst \<lparr>sel_result = 0, sel_read = {}, sel_write = {}, sel_except = {},
                          sel_errno = 0, sel_signals = []\<rparr>,
      w_sleep = sconst [],
      w_api = sconst \<lparr>api_result = 0, api_errno = 0, api_signals = []\<rparr>,
      w_sys = sconst (0, 0),
      w_signal = sconst False,
      w_scan = (\<lambda>param. None),
      w_getopt = (\<lambda>tokens. OptOk),
      w_resolve = (\<lambda>host. 0),
      w_strtol = (\<lambda>tok. None),
      w_atmark = sconst False,
      w_pid = 1\<rparr>"

text \<open>The globals as the source initialises them.\<close>

definition initial :: "world \<Rightarrow> state" where
  "initial w =
     \<lparr>gVerbose = False, gCurrent = 0, gSockfd = replicate MAXSOCKETS UNUSED_FD, gTokens = [],
      model = BLOCKING_MODEL, gInterrupted = False,
      callTime = \<lparr>tv_sec = 0, tv_usec = 0\<rparr>, shouldBlock = False, sigioReceived = False,
      errno = 0, sigio_handler = SIG_DFL, world = w, trace = [], printed = []\<rparr>"

text \<open>A world whose first non-suspending system call fails, a registry with one socket, a world in
  which the token 10 reads as the number ten, and a registry with all slots in use.\<close>

definition first_call_fails :: world where
  "first_call_fails = calm\<lparr>w_sys := (- 1, 9) ## sconst (0, 0)\<rparr>"

definition one_socket :: "world \<Rightarrow> state" where
  "one_socket w = (initial w)\<lparr>gSockfd := [3, - 1, - 1, - 1, - 1, - 1, - 1, - 1, - 1, - 1]\<rparr>"

definition reads_ten :: world where
  "reads_ten = calm\<lparr>w_scan := (\<lambda>param. if param = ''10'' then Some 10 else None)\<rparr>"

definition full_house :: "world \<Rightarrow> state" where
  "full_house w = (initial w)\<lparr>gSockfd := [3, 4, 5, 6, 7, 8, 9, 10, 11, 12], gCurrent := 4\<rparr>"

text \<open>A world in which the operation under test fails three times with \<open>EWOULDBLOCK\<close>
  and then returns 42.\<close>

definition would_block3 :: world where
  "would_block3 =
     calm\<lparr>w_api :=
            \<lparr>api_result = - 1, api_errno = EWOULDBLOCK, api_signals = []\<rparr> ##
            \<lparr>api_result = - 1, api_errno = EWOULDBLOCK, api_signals = []\<rparr> ##
            \<lparr>api_result = - 1, api_errno = EWOULDBLOCK, api_signals = []\<rparr> ##
            sconst \<lparr>api_result = 42, api_errno = 0, api_signals = []\<rparr>\<rparr>"

text \<open>A world in which \<open>select\<close> times out twice and then reports descriptor 3 ready
  for reading.\<close>

definition timed_out :: select_ret where
  "timed_out = \<lparr>sel_result = 0, sel_read = {}, sel_write = {}, sel_except = {},
                 sel_errno = 0, sel_signals = []\<rparr>"

definition readable3 :: select_ret where
  "readable3 = \<lparr>sel_result = 1, sel_read = {3}, sel_write = {}, sel_except = {},
                 sel_errno = 0, sel_signals = []\<rparr>"

definition ready_third :: world where
  "ready_third = calm\<lparr>w_select := timed_out ## timed_out ## sconst readable3\<rparr>"

text \<open>A world in which \<open>select\<close> returns 1 with no bit set, against its contract.\<close>

definition select_lies :: world where
  "select_lies =
     calm\<lparr>w_select := sconst \<lparr>sel_result = 1, sel_read = {}, sel_write = {}, sel_except = {},
                                 sel_errno = 0, sel_signals = []\<rparr>\<rparr>"


text \<open>A world in which every \<open>select\<close> times out and is interrupted by \<open>SIGINT\<close>.\<close>

definition interrupt_in_select :: world where
  "interrupt_in_select =
     calm\<lparr>w_select := sconst \<lparr>sel_result = 0, sel_read = {}, sel_write = {}, sel_except = {},
                                 sel_errno = 0, sel_signals = [SIGINT]\<rparr>\<rparr>"

text \<open>A registry with two sockets, and a world in which the token 1 reads as the number
  one.\<close>

definition two_sockets :: "world \<Rightarrow> state" where
  "two_sockets w = (initial w)\<lparr>gSockfd := [3, 4, - 1, - 1, - 1, - 1, - 1, - 1, - 1, - 1]\<rparr>"

definition reads_one :: world where
  "reads_one = calm\<lparr>w_scan := (\<lambda>param. if param = ''1'' then Some 1 else None)\<rparr>"

section \<open>The model command sets the model\<close>

lemma token_Some: "i < length (gTokens s) \<Longrightarrow> token i s = Some (gTokens s ! i)"
  by (simp add: token_def)

text \<open>
  C10. The model command: with no argument the model becomes Blocking; with the argument
  blocking, nonblocking, select or signal it becomes that model; with any other argument
  one error line is printed and the model is left as it was. The command loop runs this
  handler for every line whose first token is \<open>model\<close>.
\<close>

theorem doModel_switch:
  "(token 1 s = None \<longrightarrow> doModel s = s\<lparr>model := BLOCKING_MODEL\<rparr>) \<and>
   (token 1 s = Some ''blocking'' \<longrightarrow> doModel s = s\<lparr>model := BLOCKING_MODEL\<rparr>) \<and>
   (token 1 s = Some ''nonblocking'' \<longrightarrow> doModel s = s\<lparr>model := NONBLOCKING_MODEL\<rparr>) \<and>
   (token 1 s = Some ''select'' \<longrightarrow> doModel s = s\<lparr>model := SELECT_MODEL\<rparr>) \<and>
   (token 1 s = Some ''signal'' \<longrightarrow> doModel s = s\<lparr>model := SIGNAL_MODEL\<rparr>) \<and>
   (\<forall>t. token 1 s = Some t \<and> t \<noteq> ''blocking'' \<and> t \<noteq> ''nonblocking'' \<and> t \<noteq> ''select'' \<and> t \<noteq> ''signal'' \<longrightarrow>
        doModel s = fprintf Stderr ''Unrecognized model %s'' [S t] s \<and>
        model (doModel s) = model s \<and>
        printed (doModel s) = printed s @ [(Stderr, ''Unrecognized model %s'', [S t])]) \<and>
   (length rest < MAXTOKENS - 1 \<longrightarrow> main_step n (''model'' # rest) s =
        Returns (False, doModel (s\<lparr>gTokens := ''model'' # rest, gInterrupted := False\<rparr>)))"
proof -
  have "length rest < MAXTOKENS - 1 \<longrightarrow> main_step n (''model'' # rest) s =
        Returns (False, doModel (s\<lparr>gTokens := ''model'' # rest, gInterrupted := False\<rparr>))"
    by (simp add: main_step_def gCommands_def Let_def)
  then show ?thesis
    by (simp add: doModel_def fprintf_def)
qed

theorem doModel_switch_witness:
  "doModel ((initial calm)\<lparr>gTokens := [''model''], model := SELECT_MODEL\<rparr>)
     = (initial calm)\<lparr>gTokens := [''model''], model := BLOCKING_MODEL\<rparr> \<and>
   model (doModel ((initial calm)\<lparr>gTokens := [''model'', ''signal'']\<rparr>)) = SIGNAL_MODEL \<and>
   model (doModel ((initial calm)\<lparr>gTokens := [''model'', ''select'']\<rparr>)) = SELECT_MODEL \<and>
   model (doModel ((initial calm)\<lparr>gTokens := [''model'', ''nonblocking'']\<rparr>)) = NONBLOCKING_MODEL \<and>
   model (doModel ((initial calm)\<lparr>gTokens := [''model'', ''blocking''], model := SIGNAL_MODEL\<rparr>)) = BLOCKING_MODEL \<and>
   model (doModel ((initial calm)\<lparr>gTokens := [''model'', ''poll''], model := SIGNAL_MODEL\<rparr>)) = SIGNAL_MODEL \<and>
   printed (doModel ((initial calm)\<lparr>gTokens := [''model'', ''poll''], model := SIGNAL_MODEL\<rparr>))
     = [(Stderr, ''Unrecognized model %s'', [S ''poll''])] \<and>
   main_step 0 [''model'', ''select''] (initial calm)
     = Returns (False, (initial calm)\<lparr>gTokens := [''model'', ''select''], model := SELECT_MODEL\<rparr>)"
  using doModel_switch [of "(initial calm)\<lparr>gTokens := [''model''], model := SELECT_MODEL\<rparr>" "[]" 0]
        doModel_switch [of "(initial calm)\<lparr>gTokens := [''model'', ''signal'']\<rparr>" "[]" 0]
        doModel_switch [of "(initial calm)\<lparr>gTokens := [''model'', ''select'']\<rparr>" "[]" 0]
        doModel_switch [of "(initial calm)\<lparr>gTokens := [''model'', ''nonblocking'']\<rparr>" "[]" 0]
        doModel_switch [of "(initial calm)\<lparr>gTokens := [''model'', ''blocking''], model := SIGNAL_MODEL\<rparr>" "[]" 0]
        doModel_switch [of "(initial calm)\<lparr>gTokens := [''model'', ''poll''], model := SIGNAL_MODEL\<rparr>" "[]" 0]
        doModel_switch [of "initial calm" "[''select'']" 0]
  by (simp add: token_def initial_def MAXTOKENS_def fprintf_def)

section \<open>What each step leaves unchanged\<close>

text \<open>For every primitive step and every helper: the globals it does not write, what it
  appends to the trace, and which stream of the world it consumes.\<close>

lemma sconst_stream [simp]: "stl (sconst x) = sconst x" "shd (sconst x) = x"
  by simp_all

lemma cur_fd_cong: "gCurrent s' = gCurrent s \<Longrightarrow> gSockfd s' = gSockfd s \<Longrightarrow> cur_fd s' = cur_fd s"
  by (simp add: cur_fd_def)

lemma cur_fd_update [simp]:
  "cur_fd (s\<lparr>gVerbose := v\<rparr>) = cur_fd s"
  "cur_fd (s\<lparr>gTokens := tk\<rparr>) = cur_fd s"
  "cur_fd (s\<lparr>model := m\<rparr>) = cur_fd s"
  "cur_fd (s\<lparr>gInterrupted := b\<rparr>) = cur_fd s"
  "cur_fd (s\<lparr>callTime := t\<rparr>) = cur_fd s"
  "cur_fd (s\<lparr>shouldBlock := b\<rparr>) = cur_fd s"
  "cur_fd (s\<lparr>sigioReceived := b\<rparr>) = cur_fd s"
  "cur_fd (s\<lparr>errno := e\<rparr>) = cur_fd s"
  "cur_fd (s\<lparr>sigio_handler := h\<rparr>) = cur_fd s"
  "cur_fd (s\<lparr>world := w\<rparr>) = cur_fd s"
  "cur_fd (s\<lparr>trace := tr\<rparr>) = cur_fd s"
  "cur_fd (s\<lparr>printed := p\<rparr>) = cur_fd s"
  by (simp_all add: cur_fd_def)

lemma fprintf_fields [simp]:
  "gVerbose (fprintf ch fmt args s) = gVerbose s"
  "gCurrent (fprintf ch fmt args s) = gCurrent s"
  "gSockfd (fprintf ch fmt args s) = gSockfd s"
  "gTokens (fprintf ch fmt args s) = gTokens s"
  "model (fprintf ch fmt args s) = model s"
  "gInterrupted (fprintf ch fmt args s) = gInterrupted s"
  "callTime (fprintf ch fmt args s) = callTime s"
  "shouldBlock (fprintf ch fmt args s) = shouldBlock s"
  "sigioReceived (fprintf ch fmt args s) = sigioReceived s"
  "errno (fprintf ch fmt args s) = errno s"
  "sigio_handler (fprintf ch fmt args s) = sigio_handler s"
  "world (fprintf ch fmt args s) = world s"
  "trace (fprintf ch fmt args s) = trace s"
  "printed (fprintf ch fmt args s) = printed s @ [(ch, fmt, args)]"
  "cur_fd (fprintf ch fmt args s) = cur_fd s"
  by (simp_all add: fprintf_def cur_fd_def)

lemma record_event_fields [simp]:
  "gVerbose (record_event ev s) = gVerbose s"
  "gCurrent (record_event ev s) = gCurrent s"
  "gSockfd (record_event ev s) = gSockfd s"
  "gTokens (record_event ev s) = gTokens s"
  "model (record_event ev s) = model s"
  "gInterrupted (record_event ev s) = gInterrupted s"
  "callTime (record_event ev s) = callTime s"
  "shouldBlock (record_event ev s) = shouldBlock s"
  "sigioReceived (record_event ev s) = sigioReceived s"
  "errno (record_event ev s) = errno s"
  "sigio_handler (record_event ev s) = sigio_handler s"
  "world (record_event ev s) = world s"
  "trace (record_event ev s) = trace s @ [ev]"
  "printed (record_event ev s) = printed s"
  "cur_fd (record_event ev s) = cur_fd s"
  by (simp_all add: record_event_def cur_fd_def)

lemma handle_signal_fields [simp]:
  "gVerbose (handle_signal sg s) = gVerbose s"
  "gCurrent (handle_signal sg s) = gCurrent s"
  "gSockfd (handle_signal sg s) = gSockfd s"
  "gTokens (handle_signal sg s) = gTokens s"
  "model (handle_signal sg s) = model s"
  "callTime (handle_signal sg s) = callTime s"
  "shouldBlock (handle_signal sg s) = shouldBlock s"
  "errno (handle_signal sg s) = errno s"
  "sigio_handler (handle_signal sg s) = sigio_handler s"
  "world (handle_signal sg s) = world s"
  "trace (handle_signal sg s) = trace s"
  by (cases sg; simp add: interruptSignalHandler_def pipeSignalHandler_def
        defaultSIGIOHandler_def activeSIGIOHandler_def Let_def split: sighandler.split)+

lemma handle_signal_gInterrupted:
  "gInterrupted (handle_signal sg s) = (gInterrupted s \<or> sg \<noteq> SIGIO)"
  by (cases sg; simp add: interruptSignalHandler_def pipeSignalHandler_def
        defaultSIGIOHandler_def activeSIGIOHandler_def Let_def split: sighandler.split)

lemma handle_signal_sigioReceived:
  "sigioReceived (handle_signal sg s) =
     (sigioReceived s \<or> (sg = SIGIO \<and> sigio_handler s = H_activeSIGIOHandler))"
  by (cases sg; simp add: interruptSignalHandler_def pipeSignalHandler_def
        defaultSIGIOHandler_def activeSIGIOHandler_def Let_def split: sighandler.split)

lemma deliver_Nil [simp]: "deliver [] s = s"
  by (simp add: deliver_def)

lemma deliver_Cons [simp]: "deliver (sg # sigs) s = deliver sigs (handle_signal sg s)"
  by (simp add: deliver_def)

lemma deliver_fields [simp]:
  "gVerbose (deliver sigs s) = gVerbose s"
  "gCurrent (deliver sigs s) = gCurrent s"
  "gSockfd (deliver sigs s) = gSockfd s"
  "gTokens (deliver sigs s) = gTokens s"
  "model (deliver sigs s) = model s"
  "callTime (deliver sigs s) = callTime s"
  "shouldBlock (deliver sigs s) = shouldBlock s"
  "errno (deliver sigs s) = errno s"
  "sigio_handler (deliver sigs s) = sigio_handler s"
  "world (deliver sigs s) = world s"
  "trace (deliver sigs s) = trace s"
  by (induction sigs arbitrary: s; simp)+

lemma deliver_cur_fd [simp]: "cur_fd (deliver sigs s) = cur_fd s"
  by (simp add: cur_fd_def)

lemma deliver_gInterrupted:
  "gInterrupted (deliver sigs s) = (gInterrupted s \<or> \<not> quiet sigs)"
  by (induction sigs arbitrary: s) (auto simp: quiet_def handle_signal_gInterrupted)

lemma deliver_sigioReceived:
  "sigioReceived (deliver sigs s) =
     (sigioReceived s \<or> (SIGIO \<in> set sigs \<and> sigio_handler s = H_activeSIGIOHandler))"
  by (induction sigs arbitrary: s) (auto simp: handle_signal_sigioReceived)

lemma gettimeofday_fields [simp]:
  "fst (gettimeofday s) = shd (w_clock (world s))"
  "gVerbose (snd (gettimeofday s)) = gVerbose s"
  "gCurrent (snd (gettimeofday s)) = gCurrent s"
  "gSockfd (snd (gettimeofday s)) = gSockfd s"
  "gTokens (snd (gettimeofday s)) = gTokens s"
  "model (snd (gettimeofday s)) = model s"
  "gInterrupted (snd (gettimeofday s)) = gInterrupted s"
  "callTime (snd (gettimeofday s)) = callTime s"
  "shouldBlock (snd (gettimeofday s)) = shouldBlock s"
  "sigioReceived (snd (gettimeofday s)) = sigioReceived s"
  "errno (snd (gettimeofday s)) = errno s"
  "sigio_handler (snd (gettimeofday s)) = sigio_handler s"
  "world (snd (gettimeofday s)) = (world s)\<lparr>w_clock := stl (w_clock (world s))\<rparr>"
  "trace (snd (gettimeofday s)) = trace s @ [EvGettimeofday]"
  "printed (snd (gettimeofday s)) = printed s"
  "cur_fd (snd (gettimeofday s)) = cur_fd s"
  by (simp_all add: gettimeofday_def cur_fd_def)

lemma syscall_fields [simp]:
  "fst (syscall ev s) = fst (shd (w_sys (world s)))"
  "gVerbose (snd (syscall ev s)) = gVerbose s"
  "gCurrent (snd (syscall ev s)) = gCurrent s"
  "gSockfd (snd (syscall ev s)) = gSockfd s"
  "gTokens (snd (syscall ev s)) = gTokens s"
  "model (snd (syscall ev s)) = model s"
  "gInterrupted (snd (syscall ev s)) = gInterrupted s"
  "callTime (snd (syscall ev s)) = callTime s"
  "shouldBlock (snd (syscall ev s)) = shouldBlock s"
  "sigioReceived (snd (syscall ev s)) = sigioReceived s"
  "errno (snd (syscall ev s)) =
     (if fst (shd (w_sys (world s))) < 0 then snd (shd (w_sys (world s))) else errno s)"
  "sigio_handler (snd (syscall ev s)) = sigio_handler s"
  "world (snd (syscall ev s)) = (world s)\<lparr>w_sys := stl (w_sys (world s))\<rparr>"
  "trace (snd (syscall ev s)) = trace s @ [ev]"
  "printed (snd (syscall ev s)) = printed s"
  "cur_fd (snd (syscall ev s)) = cur_fd s"
  by (simp_all add: syscall_def Let_def case_prod_beta cur_fd_def)

lemma sleep_fields [simp]:
  "gVerbose (sleep secs s) = gVerbose s"
  "gCurrent (sleep secs s) = gCurrent s"
  "gSockfd (sleep secs s) = gSockfd s"
  "gTokens (sleep secs s) = gTokens s"
  "model (sleep secs s) = model s"
  "gInterrupted (sleep secs s) = (gInterrupted s \<or> \<not> quiet (shd (w_sleep (world s))))"
  "callTime (sleep secs s) = callTime s"
  "shouldBlock (sleep secs s) = shouldBlock s"
  "sigioReceived (sleep secs s) =
     (sigioReceived s \<or>
      (SIGIO \<in> set (shd (w_sleep (world s))) \<and> sigio_handler s = H_activeSIGIOHandler))"
  "errno (sleep secs s) = errno s"
  "sigio_handler (sleep secs s) = sigio_handler s"
  "world (sleep secs s) = (world s)\<lparr>w_sleep := stl (w_sleep (world s))\<rparr>"
  "trace (sleep secs s) = trace s @ [EvSleep secs]"
  "cur_fd (sleep secs s) = cur_fd s"
  by (simp_all add: sleep_def deliver_gInterrupted deliver_sigioReceived)

lemma signal_SIGIO_fields [simp]:
  "fst (signal_SIGIO h s) = shd (w_signal (world s))"
  "gVerbose (snd (signal_SIGIO h s)) = gVerbose s"
  "gCurrent (snd (signal_SIGIO h s)) = gCurrent s"
  "gSockfd (snd (signal_SIGIO h s)) = gSockfd s"
  "gTokens (snd (signal_SIGIO h s)) = gTokens s"
  "model (snd (signal_SIGIO h s)) = model s"
  "gInterrupted (snd (signal_SIGIO h s)) = gInterrupted s"
  "callTime (snd (signal_SIGIO h s)) = callTime s"
  "shouldBlock (snd (signal_SIGIO h s)) = shouldBlock s"
  "sigioReceived (snd (signal_SIGIO h s)) = sigioReceived s"
  "errno (snd (signal_SIGIO h s)) = errno s"
  "sigio_handler (snd (signal_SIGIO h s)) =
     (if shd (w_signal (world s)) then sigio_handler s else h)"
  "world (snd (signal_SIGIO h s)) = (world s)\<lparr>w_signal := stl (w_signal (world s))\<rparr>"
  "trace (snd (signal_SIGIO h s)) = trace s @ [EvSignal h]"
  "printed (snd (signal_SIGIO h s)) = printed s"
  "cur_fd (snd (signal_SIGIO h s)) = cur_fd s"
  by (simp_all add: signal_SIGIO_def Let_def cur_fd_def)

lemma select_call_fields [simp]:
  "fst (select_call nfds rd wr ex tmo s) = shd (w_select (world s))"
  "gVerbose (snd (select_call nfds rd wr ex tmo s)) = gVerbose s"
  "gCurrent (snd (select_call nfds rd wr ex tmo s)) = gCurrent s"
  "gSockfd (snd (select_call nfds rd wr ex tmo s)) = gSockfd s"
  "gTokens (snd (select_call nfds rd wr ex tmo s)) = gTokens s"
  "model (snd (select_call nfds rd wr ex tmo s)) = model s"
  "gInterrupted (snd (select_call nfds rd wr ex tmo s)) =
     (gInterrupted s \<or> \<not> quiet (sel_signals (shd (w_select (world s)))))"
  "callTime (snd (select_call nfds rd wr ex tmo s)) = callTime s"
  "shouldBlock (snd (select_call nfds rd wr ex tmo s)) = shouldBlock s"
  "sigio_handler (snd (select_call nfds rd wr ex tmo s)) = sigio_handler s"
  "world (snd (select_call nfds rd wr ex tmo s)) = (world s)\<lparr>w_select := stl (w_select (world s))\<rparr>"
  "trace (snd (select_call nfds rd wr ex tmo s)) =
     trace s @ [EvSelect nfds rd wr ex tmo (shd (w_select (world s)))]"
  "cur_fd (snd (select_call nfds rd wr ex tmo s)) = cur_fd s"
  by (simp_all add: select_call_def Let_def deliver_gInterrupted cur_fd_def)

lemma call_api_fields [simp]:
  "fst (call_api a s) = api_result (shd (w_api (world s)))"
  "gVerbose (snd (call_api a s)) = gVerbose s"
  "gCurrent (snd (call_api a s)) = gCurrent s"
  "gSockfd (snd (call_api a s)) = gSockfd s"
  "gTokens (snd (call_api a s)) = gTokens s"
  "model (snd (call_api a s)) = model s"
  "gInterrupted (snd (call_api a s)) =
     (gInterrupted s \<or> \<not> quiet (api_signals (shd (w_api (world s)))))"
  "callTime (snd (call_api a s)) = callTime s"
  "shouldBlock (snd (call_api a s)) = shouldBlock s"
  "errno (snd (call_api a s)) =
     (if api_result (shd (w_api (world s))) < 0 then api_errno (shd (w_api (world s)))
      else errno s)"
  "sigio_handler (snd (call_api a s)) = sigio_handler s"
  "world (snd (call_api a s)) = (world s)\<lparr>w_api := stl (w_api (world s))\<rparr>"
  "trace (snd (call_api a s)) = trace s @ [EvApi a (cur_fd s)]"
  "cur_fd (snd (call_api a s)) = cur_fd s"
  by (simp_all add: call_api_def Let_def deliver_gInterrupted cur_fd_def)


lemma counts_update [simp]:
  "api_calls (s\<lparr>gVerbose := v\<rparr>) = api_calls s"
  "api_calls (s\<lparr>gCurrent := c\<rparr>) = api_calls s"
  "api_calls (s\<lparr>gSockfd := fds\<rparr>) = api_calls s"
  "api_calls (s\<lparr>gTokens := tk\<rparr>) = api_calls s"
  "api_calls (s\<lparr>model := m\<rparr>) = api_calls s"
  "api_calls (s\<lparr>gInterrupted := b\<rparr>) = api_calls s"
  "api_calls (s\<lparr>callTime := t\<rparr>) = api_calls s"
  "api_calls (s\<lparr>shouldBlock := b\<rparr>) = api_calls s"
  "api_calls (s\<lparr>sigioReceived := b\<rparr>) = api_calls s"
  "api_calls (s\<lparr>errno := e\<rparr>) = api_calls s"
  "api_calls (s\<lparr>sigio_handler := h\<rparr>) = api_calls s"
  "api_calls (s\<lparr>world := w\<rparr>) = api_calls s"
  "api_calls (s\<lparr>printed := p\<rparr>) = api_calls s"
  "sleeps (s\<lparr>gVerbose := v\<rparr>) = sleeps s"
  "sleeps (s\<lparr>gCurrent := c\<rparr>) = sleeps s"
  "sleeps (s\<lparr>gSockfd := fds\<rparr>) = sleeps s"
  "sleeps (s\<lparr>gTokens := tk\<rparr>) = sleeps s"
  "sleeps (s\<lparr>model := m\<rparr>) = sleeps s"
  "sleeps (s\<lparr>gInterrupted := b\<rparr>) = sleeps s"
  "sleeps (s\<lparr>callTime := t\<rparr>) = sleeps s"
  "sleeps (s\<lparr>shouldBlock := b\<rparr>) = sleeps s"
  "sleeps (s\<lparr>sigioReceived := b\<rparr>) = sleeps s"
  "sleeps (s\<lparr>errno := e\<rparr>) = sleeps s"
  "sleeps (s\<lparr>sigio_handler := h\<rparr>) = sleeps s"
  "sleeps (s\<lparr>world := w\<rparr>) = sleeps s"
  "sleeps (s\<lparr>printed := p\<rparr>) = sleeps s"
  by (simp_all add: api_calls_def sleeps_def)

lemma primitive_counts [simp]:
  "api_calls (fprintf ch fmt args s) = api_calls s"
  "sleeps (fprintf ch fmt args s) = sleeps s"
  "api_calls (deliver sigs s) = api_calls s"
  "sleeps (deliver sigs s) = sleeps s"
  "api_calls (snd (gettimeofday s)) = api_calls s"
  "sleeps (snd (gettimeofday s)) = sleeps s"
  "\<not> is_api ev \<Longrightarrow> api_calls (snd (syscall ev s)) = api_calls s"
  "\<not> is_sleep ev \<Longrightarrow> sleeps (snd (syscall ev s)) = sleeps s"
  "api_calls (sleep secs s) = api_calls s"
  "sleeps (sleep secs s) = Suc (sleeps s)"
  "api_calls (snd (signal_SIGIO h s)) = api_calls s"
  "sleeps (snd (signal_SIGIO h s)) = sleeps s"
  "api_calls (snd (select_call nfds rd wr ex tmo s)) = api_calls s"
  "sleeps (snd (select_call nfds rd wr ex tmo s)) = sleeps s"
  "api_calls (snd (call_api a s)) = Suc (api_calls s)"
  "sleeps (snd (call_api a s)) = sleeps s"
  by (simp_all add: api_calls_def sleeps_def)

lemma setFctlFlag_fields [simp]:
  "gVerbose (setFctlFlag flag s) = gVerbose s"
  "gCurrent (setFctlFlag flag s) = gCurrent s"
  "gSockfd (setFctlFlag flag s) = gSockfd s"
  "gTokens (setFctlFlag flag s) = gTokens s"
  "model (setFctlFlag flag s) = model s"
  "gInterrupted (setFctlFlag flag s) = gInterrupted s"
  "callTime (setFctlFlag flag s) = callTime s"
  "shouldBlock (setFctlFlag flag s) = shouldBlock s"
  "sigioReceived (setFctlFlag flag s) = sigioReceived s"
  "sigio_handler (setFctlFlag flag s) = sigio_handler s"
  "cur_fd (setFctlFlag flag s) = cur_fd s"
  "w_clock (world (setFctlFlag flag s)) = w_clock (world s)"
  "w_select (world (setFctlFlag flag s)) = w_select (world s)"
  "w_sleep (world (setFctlFlag flag s)) = w_sleep (world s)"
  "w_api (world (setFctlFlag flag s)) = w_api (world s)"
  "w_signal (world (setFctlFlag flag s)) = w_signal (world s)"
  "api_calls (setFctlFlag flag s) = api_calls s"
  "sleeps (setFctlFlag flag s) = sleeps s"
  by (simp_all add: setFctlFlag_def Let_def case_prod_beta)

lemma clearFctlFlag_fields [simp]:
  "gVerbose (clearFctlFlag flag s) = gVerbose s"
  "gCurrent (clearFctlFlag flag s) = gCurrent s"
  "gSockfd (clearFctlFlag flag s) = gSockfd s"
  "gTokens (clearFctlFlag flag s) = gTokens s"
  "model (clearFctlFlag flag s) = model s"
  "gInterrupted (clearFctlFlag flag s) = gInterrupted s"
  "callTime (clearFctlFlag flag s) = callTime s"
  "shouldBlock (clearFctlFlag flag s) = shouldBlock s"
  "sigioReceived (clearFctlFlag flag s) = sigioReceived s"
  "sigio_handler (clearFctlFlag flag s) = sigio_handler s"
  "cur_fd (clearFctlFlag flag s) = cur_fd s"
  "w_clock (world (clearFctlFlag flag s)) = w_clock (world s)"
  "w_select (world (clearFctlFlag flag s)) = w_select (world s)"
  "w_sleep (world (clearFctlFlag flag s)) = w_sleep (world s)"
  "w_api (world (clearFctlFlag flag s)) = w_api (world s)"
  "w_signal (world (clearFctlFlag flag s)) = w_signal (world s)"
  "api_calls (clearFctlFlag flag s) = api_calls s"
  "sleeps (clearFctlFlag flag s) = sleeps s"
  by (simp_all add: clearFctlFlag_def Let_def case_prod_beta)

lemma doBlockingSetup_fields [simp]:
  "gVerbose (doBlockingSetup s) = gVerbose s"
  "gCurrent (doBlockingSetup s) = gCurrent s"
  "gSockfd (doBlockingSetup s) = gSockfd s"
  "gTokens (doBlockingSetup s) = gTokens s"
  "model (doBlockingSetup s) = model s"
  "gInterrupted (doBlockingSetup s) = gInterrupted s"
  "callTime (doBlockingSetup s) = shd (w_clock (world s))"
  "shouldBlock (doBlockingSetup s) = shouldBlock s"
  "sigioReceived (doBlockingSetup s) = sigioReceived s"
  "errno (doBlockingSetup s) = errno s"
  "sigio_handler (doBlockingSetup s) = sigio_handler s"
  "cur_fd (doBlockingSetup s) = cur_fd s"
  "world (doBlockingSetup s) = (world s)\<lparr>w_clock := stl (w_clock (world s))\<rparr>"
  "trace (doBlockingSetup s) = trace s @ [EvGettimeofday]"
  "printed (doBlockingSetup s) = printed s"
  "api_calls (doBlockingSetup s) = api_calls s"
  "sleeps (doBlockingSetup s) = sleeps s"
  by (simp_all add: doBlockingSetup_def case_prod_beta)

lemma verifyBlocking_fields [simp]:
  "gVerbose (verifyBlocking expected s) = gVerbose s"
  "gCurrent (verifyBlocking expected s) = gCurrent s"
  "gSockfd (verifyBlocking expected s) = gSockfd s"
  "gTokens (verifyBlocking expected s) = gTokens s"
  "model (verifyBlocking expected s) = model s"
  "gInterrupted (verifyBlocking expected s) = gInterrupted s"
  "callTime (verifyBlocking expected s) = callTime s"
  "shouldBlock (verifyBlocking expected s) = shouldBlock s"
  "sigioReceived (verifyBlocking expected s) = sigioReceived s"
  "errno (verifyBlocking expected s) = errno s"
  "sigio_handler (verifyBlocking expected s) = sigio_handler s"
  "cur_fd (verifyBlocking expected s) = cur_fd s"
  "world (verifyBlocking expected s) = (world s)\<lparr>w_clock := stl (w_clock (world s))\<rparr>"
  "trace (verifyBlocking expected s) = trace s @ [EvGettimeofday]"
  "api_calls (verifyBlocking expected s) = api_calls s"
  "sleeps (verifyBlocking expected s) = sleeps s"
  by (simp_all add: verifyBlocking_def Let_def case_prod_beta)

lemma verifyBlocking_printed:
  "printed (verifyBlocking expected s) =
     (let blocked = (delta (shd (w_clock (world s))) (callTime s) > BLOCK_THRESHOLD)
      in if blocked \<noteq> expected then printed s @ [mismatch blocked]
         else if gVerbose s
         then printed s @ [(Stderr, ''API %s block.'', [S (if blocked then ''did'' else ''did not'')])]
         else printed s)"
  by (simp add: verifyBlocking_def Let_def case_prod_beta mismatch_def)

section \<open>The registry\<close>

lemma findSlotLoop_scan:
  "i \<le> MAXSOCKETS \<Longrightarrow>
     i \<le> findSlotLoop i fds \<and> findSlotLoop i fds \<le> MAXSOCKETS \<and>
     (\<forall>j. i \<le> j \<and> j < findSlotLoop i fds \<longrightarrow> fds ! j \<noteq> UNUSED_FD) \<and>
     (findSlotLoop i fds < MAXSOCKETS \<longrightarrow> fds ! findSlotLoop i fds = UNUSED_FD)"
proof (induction i fds rule: findSlotLoop.induct)
  case (1 i fds)
  show ?case
  proof (cases "i < MAXSOCKETS")
    case False
    with "1.prems" show ?thesis by (simp add: findSlotLoop.simps)
  next
    case True
    show ?thesis
    proof (cases "fds ! i = UNUSED_FD")
      case True
      with \<open>i < MAXSOCKETS\<close> show ?thesis by (simp add: findSlotLoop.simps)
    next
      case False
      with True have eq: "findSlotLoop i fds = findSlotLoop (Suc i) fds"
        by (subst findSlotLoop.simps) simp
      from True have "Suc i \<le> MAXSOCKETS" by simp
      from "1.IH" [OF True False this] have IH:
        "Suc i \<le> findSlotLoop (Suc i) fds" "findSlotLoop (Suc i) fds \<le> MAXSOCKETS"
        "\<forall>j. Suc i \<le> j \<and> j < findSlotLoop (Suc i) fds \<longrightarrow> fds ! j \<noteq> UNUSED_FD"
        "findSlotLoop (Suc i) fds < MAXSOCKETS \<longrightarrow> fds ! findSlotLoop (Suc i) fds = UNUSED_FD"
        by simp_all
      have "\<forall>j. i \<le> j \<and> j < findSlotLoop (Suc i) fds \<longrightarrow> fds ! j \<noteq> UNUSED_FD"
      proof (intro allI impI)
        fix j assume j: "i \<le> j \<and> j < findSlotLoop (Suc i) fds"
        show "fds ! j \<noteq> UNUSED_FD"
        proof (cases "j = i")
          case True with False show ?thesis by simp
        next
          case False with j IH(3) show ?thesis by (simp add: Suc_le_eq)
        qed
      qed
      with IH show ?thesis unfolding eq by simp
    qed
  qed
qed

lemma findSlotLoop_first:
  assumes "k < MAXSOCKETS" "fds ! k = UNUSED_FD" "\<forall>j<k. fds ! j \<noteq> UNUSED_FD"
  shows "findSlotLoop 0 fds = k"
proof -
  let ?r = "findSlotLoop 0 fds"
  from findSlotLoop_scan [of 0 fds] have
    le: "?r \<le> MAXSOCKETS" and
    before: "\<forall>j. j < ?r \<longrightarrow> fds ! j \<noteq> UNUSED_FD" and
    at: "?r < MAXSOCKETS \<longrightarrow> fds ! ?r = UNUSED_FD"
    by simp_all
  have "\<not> k < ?r" using before assms(2) by blast
  moreover have "\<not> ?r < k" using at assms(1,3) by (meson less_trans)
  ultimately show ?thesis by simp
qed

lemma findSlotLoop_full:
  assumes "\<forall>j<MAXSOCKETS. fds ! j \<noteq> UNUSED_FD"
  shows "findSlotLoop 0 fds = MAXSOCKETS"
proof -
  from findSlotLoop_scan [of 0 fds] assms show ?thesis
    by (metis le_neq_implies_less zero_le)
qed

lemma findFreeSocketSlot_first:
  assumes "k < MAXSOCKETS" "gSockfd s ! k = UNUSED_FD" "\<forall>j<k. gSockfd s ! j \<noteq> UNUSED_FD"
  shows "findFreeSocketSlot s = (int k, s)"
  using findSlotLoop_first [OF assms] assms(1) by (simp add: findFreeSocketSlot_def)

lemma findFreeSocketSlot_full:
  assumes "\<forall>j<MAXSOCKETS. gSockfd s ! j \<noteq> UNUSED_FD"
  shows "findFreeSocketSlot s = (- 1, fprintf Stderr ''All %d sockets are in use.'' [I (int MAXSOCKETS)] s)"
  using findSlotLoop_full [OF assms] by (simp add: findFreeSocketSlot_def)

lemma doSocket_full:
  assumes "\<forall>j<MAXSOCKETS. gSockfd s ! j \<noteq> UNUSED_FD"
  shows "gCurrent (doSocket s) = gCurrent s \<and> gSockfd (doSocket s) = gSockfd s \<and>
         trace (doSocket s) = trace s"
  using findFreeSocketSlot_full [OF assms]
  by (simp add: doSocket_def usage_def fprintf_def split: optparse.splits)

lemma doClose_cases:
  "doClose s =
     (if fst (shd (w_sys (world s))) < 0
      then api_error (fst (shd (w_sys (world s)))) (snd (syscall (EvClose (cur_fd s)) s))
      else (snd (syscall (EvClose (cur_fd s)) s))
             \<lparr>gSockfd := (gSockfd s)[nat (gCurrent s) := UNUSED_FD]\<rparr>)"
  by (cases "syscall (EvClose (cur_fd s)) s")
     (use syscall_fields [of "EvClose (cur_fd s)" s] in \<open>simp add: doClose_def\<close>)



lemma unused_notin_take:
  "k \<le> length fds \<Longrightarrow> UNUSED_FD \<notin> set (take k fds) \<longleftrightarrow> (\<forall>j<k. fds ! j \<noteq> UNUSED_FD)"
  by (auto simp: in_set_conv_nth)

lemma unused_notin_set:
  "UNUSED_FD \<notin> set fds \<longleftrightarrow> (\<forall>j<length fds. fds ! j \<noteq> UNUSED_FD)"
  by (auto simp: in_set_conv_nth)

lemma first_after_release:
  assumes len: "length fds = MAXSOCKETS" and full: "UNUSED_FD \<notin> set fds" and k: "k < MAXSOCKETS"
  shows "findSlotLoop 0 (fds[k := UNUSED_FD]) = k"
proof (rule findSlotLoop_first [OF k])
  show "fds[k := UNUSED_FD] ! k = UNUSED_FD" using len k by simp
  show "\<forall>j<k. fds[k := UNUSED_FD] ! j \<noteq> UNUSED_FD"
    using full len k by (simp add: unused_notin_set)
qed

lemma doClose_ok:
  assumes "0 \<le> fst (shd (w_sys (world s)))"
  shows "gSockfd (doClose s) = (gSockfd s)[nat (gCurrent s) := UNUSED_FD]"
    and "gCurrent (doClose s) = gCurrent s"
    and "trace (doClose s) = trace s @ [EvClose (cur_fd s)]"
    and "printed (doClose s) = printed s"
    and "world (doClose s) = (world s)\<lparr>w_sys := stl (w_sys (world s))\<rparr>"
    and "gTokens (doClose s) = gTokens s"
  using assms by (simp_all add: doClose_cases)

lemma doClose_failed:
  assumes "fst (shd (w_sys (world s))) < 0"
  shows "gSockfd (doClose s) = gSockfd s"
    and "gCurrent (doClose s) = gCurrent s"
    and "trace (doClose s) = trace s @ [EvClose (cur_fd s)]"
    and "printed (doClose s) = printed s @
           [(Stderr, ''API returned %d.  Error %d passed in errno - %s.'',
             [I (fst (shd (w_sys (world s)))), I (snd (shd (w_sys (world s)))),
              E (snd (shd (w_sys (world s))))])]"
  using assms
  by (simp_all add: doClose_cases api_error_def fprintf_def)

lemma doSocket_free:
  assumes "w_getopt (world s) (gTokens s) = OptOk" "findFreeSocketSlot s = (int k, s)"
  shows "trace (doSocket s) = trace s @ [EvSocket]" and "gCurrent (doSocket s) = int k"
  using assms
  by (simp_all add: doSocket_def Let_def api_error_def fprintf_def case_prod_beta)


lemma wf_full_house [simp]: "wf_state (full_house w)"
  by (simp add: wf_state_def full_house_def initial_def MAXSOCKETS_def)

text \<open>
  C7. \<open>findFreeSocketSlot\<close> returns the index of the first unused slot. When all ten
  slots are in use it returns -1 with the line "All 10 sockets are in use."; \<open>doSocket\<close>
  then leaves the current selection and the registry as they were and does not call
  \<open>socket()\<close>. Once any one slot of a full registry is unused again the scan returns
  that slot; in particular, after a \<open>close\<close> that succeeded on the current slot, the next
  \<open>doSocket\<close> finds that slot and calls \<open>socket()\<close>.
\<close>

theorem findFreeSocketSlot_allocate:
  assumes len: "length (gSockfd s) = MAXSOCKETS"
  shows
   "(\<forall>k. k < MAXSOCKETS \<and> gSockfd s ! k = UNUSED_FD \<and> UNUSED_FD \<notin> set (take k (gSockfd s)) \<longrightarrow>
         findFreeSocketSlot s = (int k, s)) \<and>
    (UNUSED_FD \<notin> set (gSockfd s) \<longrightarrow>
       findFreeSocketSlot s =
         (- 1, fprintf Stderr ''All %d sockets are in use.'' [I (int MAXSOCKETS)] s) \<and>
       gCurrent (doSocket s) = gCurrent s \<and> gSockfd (doSocket s) = gSockfd s \<and>
       trace (doSocket s) = trace s \<and>
       (\<forall>k<MAXSOCKETS. fst (findFreeSocketSlot (s\<lparr>gSockfd := (gSockfd s)[k := UNUSED_FD]\<rparr>)) = int k) \<and>
       (wf_state s \<and> 0 \<le> fst (shd (w_sys (world s))) \<longrightarrow>
          fst (findFreeSocketSlot (doClose s)) = gCurrent s \<and>
          (w_getopt (world s) (gTokens s) = OptOk \<longrightarrow>
             trace (doSocket (doClose s)) = trace s @ [EvClose (cur_fd s), EvSocket] \<and>
             gCurrent (doSocket (doClose s)) = gCurrent s)))"
proof (intro conjI allI impI)
  fix k
  assume "k < MAXSOCKETS \<and> gSockfd s ! k = UNUSED_FD \<and> UNUSED_FD \<notin> set (take k (gSockfd s))"
  then have k: "k < MAXSOCKETS" "gSockfd s ! k = UNUSED_FD"
    and "UNUSED_FD \<notin> set (take k (gSockfd s))" by simp_all
  then have "\<forall>j<k. gSockfd s ! j \<noteq> UNUSED_FD"
    using len unused_notin_take [of k "gSockfd s"] by simp
  with k show "findFreeSocketSlot s = (int k, s)"
    by (intro findFreeSocketSlot_first)
next
  assume full: "UNUSED_FD \<notin> set (gSockfd s)"
  then have all: "\<forall>j<MAXSOCKETS. gSockfd s ! j \<noteq> UNUSED_FD"
    using len by (simp add: unused_notin_set)
  show "findFreeSocketSlot s =
         (- 1, fprintf Stderr ''All %d sockets are in use.'' [I (int MAXSOCKETS)] s)"
    by (rule findFreeSocketSlot_full [OF all])
  show "gCurrent (doSocket s) = gCurrent s" "gSockfd (doSocket s) = gSockfd s"
       "trace (doSocket s) = trace s"
    using doSocket_full [OF all] by simp_all
  have released: "findSlotLoop 0 ((gSockfd s)[k := UNUSED_FD]) = k" if "k < MAXSOCKETS" for k
    by (rule first_after_release [OF len full that])
  show "fst (findFreeSocketSlot (s\<lparr>gSockfd := (gSockfd s)[k := UNUSED_FD]\<rparr>)) = int k"
    if "k < MAXSOCKETS" for k
    using released [OF that] that by (simp add: findFreeSocketSlot_def)
  assume ok: "wf_state s \<and> 0 \<le> fst (shd (w_sys (world s)))"
  then have cur: "nat (gCurrent s) < MAXSOCKETS" and nn: "0 \<le> gCurrent s"
    by (auto simp: wf_state_def)
  have slot: "findFreeSocketSlot (doClose s) = (gCurrent s, doClose s)"
    using released [OF cur] cur nn ok by (simp add: findFreeSocketSlot_def doClose_ok)
  then show "fst (findFreeSocketSlot (doClose s)) = gCurrent s" by simp
  assume "w_getopt (world s) (gTokens s) = OptOk"
  then have opt: "w_getopt (world (doClose s)) (gTokens (doClose s)) = OptOk"
    using ok by (simp add: doClose_ok)
  from slot nn have slot': "findFreeSocketSlot (doClose s) = (int (nat (gCurrent s)), doClose s)"
    by simp
  show "trace (doSocket (doClose s)) = trace s @ [EvClose (cur_fd s), EvSocket]"
    using doSocket_free(1) [OF opt slot'] ok by (simp add: doClose_ok)
  show "gCurrent (doSocket (doClose s)) = gCurrent s"
    using doSocket_free(2) [OF opt slot'] nn by simp
qed

text \<open>
  The same on a registry with one socket and on a full one.
\<close>

theorem findFreeSocketSlot_allocate_witness:
  "findFreeSocketSlot (one_socket calm) = (1, one_socket calm) \<and>
   fst (findFreeSocketSlot (full_house calm)) = - 1 \<and>
   gCurrent (doSocket (full_house calm)) = 4 \<and>
   gSockfd (doSocket (full_house calm)) = [3, 4, 5, 6, 7, 8, 9, 10, 11, 12] \<and>
   trace (doSocket (full_house calm)) = [] \<and>
   fst (findFreeSocketSlot (doClose (full_house calm))) = 4 \<and>
   trace (doSocket (doClose (full_house calm))) = [EvClose 7, EvSocket]"
proof -
  have one: "length (gSockfd (one_socket calm)) = MAXSOCKETS"
    by (simp add: one_socket_def initial_def MAXSOCKETS_def)
  have full: "length (gSockfd (full_house calm)) = MAXSOCKETS"
    by (simp add: full_house_def initial_def MAXSOCKETS_def)
  have a: "findFreeSocketSlot (one_socket calm) = (1, one_socket calm)"
    using findFreeSocketSlot_allocate [OF one, THEN conjunct1, rule_format, of 1]
    by (simp add: one_socket_def initial_def MAXSOCKETS_def UNUSED_FD_def)
  have b: "UNUSED_FD \<notin> set (gSockfd (full_house calm))"
    by (simp add: full_house_def initial_def UNUSED_FD_def)
  have c: "wf_state (full_house calm) \<and> 0 \<le> fst (shd (w_sys (world (full_house calm))))"
    by (simp add: wf_state_def MAXSOCKETS_def full_house_def initial_def calm_def)
  have d: "w_getopt (world (full_house calm)) (gTokens (full_house calm)) = OptOk"
    by (simp add: full_house_def initial_def calm_def)
  show ?thesis
    using a findFreeSocketSlot_allocate [OF full, THEN conjunct2, rule_format, OF b]
          findFreeSocketSlot_allocate [OF full, THEN conjunct2, rule_format, OF b, THEN conjunct2,
            THEN conjunct2, THEN conjunct2, THEN conjunct2, THEN conjunct2, rule_format, OF c]
          d
    by (simp add: full_house_def initial_def cur_fd_def fprintf_def)
qed


lemma main_step_close:
  "main_step n [''close''] s = Returns (False, doClose (s\<lparr>gTokens := [''close''], gInterrupted := False\<rparr>))"
  by (simp add: main_step_def gCommands_def Let_def MAXTOKENS_def)

text \<open>
  C5, as stated, does not hold: when \<open>close\<close> fails, \<open>doClose\<close> returns before it
  resets the slot. Here slot 0 holds descriptor 3, \<open>close\<close> returns -1, and the slot
  still holds 3 afterwards.
\<close>

theorem doClose_failure_keeps_slot:
  "fst (shd (w_sys (world (one_socket first_call_fails)))) = - 1 \<and>
   cur_fd (one_socket first_call_fails) = 3 \<and>
   cur_fd (doClose (one_socket first_call_fails)) = 3 \<and>
   cur_fd (doClose (one_socket first_call_fails)) \<noteq> UNUSED_FD"
  by (simp add: doClose_failed cur_fd_def one_socket_def first_call_fails_def calm_def initial_def
        UNUSED_FD_def)

text \<open>
  C5, amended. \<open>doClose\<close> calls \<open>close\<close> on the current slot and leaves the current
  selection where it is. When \<open>close\<close> succeeds the slot becomes unused; when it fails
  the error line is printed and the slot keeps its descriptor.
\<close>

theorem doClose_release:
  assumes "wf_state s"
  shows
   "gCurrent (doClose s) = gCurrent s \<and>
    trace (doClose s) = trace s @ [EvClose (cur_fd s)] \<and>
    (0 \<le> fst (shd (w_sys (world s))) \<longrightarrow>
       gSockfd (doClose s) = (gSockfd s)[nat (gCurrent s) := UNUSED_FD] \<and>
       cur_fd (doClose s) = UNUSED_FD \<and> printed (doClose s) = printed s) \<and>
    (fst (shd (w_sys (world s))) < 0 \<longrightarrow>
       gSockfd (doClose s) = gSockfd s \<and> cur_fd (doClose s) = cur_fd s \<and>
       printed (doClose s) = printed s @
         [(Stderr, ''API returned %d.  Error %d passed in errno - %s.'',
           [I (fst (shd (w_sys (world s)))), I (snd (shd (w_sys (world s)))),
            E (snd (shd (w_sys (world s))))])])"
proof -
  from assms have "nat (gCurrent s) < length (gSockfd s)"
    by (auto simp: wf_state_def)
  then show ?thesis
    by (cases "fst (shd (w_sys (world s))) < 0")
       (simp_all add: doClose_ok doClose_failed cur_fd_def)
qed

text \<open>
  Both branches on a registry with one socket.
\<close>

theorem doClose_release_witness:
  "gSockfd (doClose (one_socket calm)) = replicate 10 (- 1) \<and>
   cur_fd (doClose (one_socket calm)) = UNUSED_FD \<and>
   gSockfd (doClose (one_socket first_call_fails)) = gSockfd (one_socket first_call_fails) \<and>
   printed (doClose (one_socket first_call_fails)) =
     [(Stderr, ''API returned %d.  Error %d passed in errno - %s.'', [I (- 1), I 9, E 9])]"
proof -
  have wf: "wf_state (one_socket w)" for w
    by (simp add: wf_state_def one_socket_def initial_def MAXSOCKETS_def)
  show ?thesis
    using doClose_release [OF wf, of calm] doClose_release [OF wf, of first_call_fails]
    by (simp add: one_socket_def initial_def calm_def first_call_fails_def UNUSED_FD_def
          numeral_eq_Suc)
qed

lemma doUse_unchecked_index:
  assumes "gTokens s = [c, p]" "w_scan (world s) p = Some k" "k < 0 \<or> int MAXSOCKETS \<le> k"
  shows "doUse s = Undefined OutOfBoundsRead"
  using assms by (auto simp: doUse_def gTokenCount_def setIntegerArgument_def)

lemma doUse_in_range:
  assumes "gTokens s = [c, p]" "w_scan (world s) p = Some k" "0 \<le> k" "k < int MAXSOCKETS"
  shows "doUse s =
           (if gSockfd s ! nat k = UNUSED_FD
            then Returns (fprintf Stderr ''Socket number %d not open.'' [I k] s)
            else Returns (s\<lparr>gCurrent := k\<rparr>))"
  using assms by (auto simp: doUse_def gTokenCount_def setIntegerArgument_def)

text \<open>
  C6. \<open>doUse\<close> tests only whether the slot read at the index is unused; it does not
  test the index. The command \<open>use 10\<close> on a registry with all ten slots in use reads
  \<open>gSockfd[10]\<close>, outside the array: the program neither prints an error nor is bound
  to keep the current selection.
\<close>

theorem doUse_out_of_range:
  "main_step 0 [''use'', ''10''] (full_house reads_ten) = Undefined OutOfBoundsRead"
proof -
  have "doUse ((full_house reads_ten)\<lparr>gTokens := [''use'', ''10''], gInterrupted := False\<rparr>)
          = Undefined OutOfBoundsRead"
    by (rule doUse_unchecked_index [where k = 10])
       (simp_all add: full_house_def initial_def reads_ten_def calm_def MAXSOCKETS_def)
  then show ?thesis
    by (simp add: main_step_def gCommands_def Let_def MAXTOKENS_def)
qed

section \<open>The Blocking and the Non-blocking model\<close>

lemma blockingPreAPISetup_fields [simp]:
  "gVerbose (blockingPreAPISetup c s) = gVerbose s"
  "gCurrent (blockingPreAPISetup c s) = gCurrent s"
  "gSockfd (blockingPreAPISetup c s) = gSockfd s"
  "gTokens (blockingPreAPISetup c s) = gTokens s"
  "model (blockingPreAPISetup c s) = model s"
  "gInterrupted (blockingPreAPISetup c s) = gInterrupted s"
  "callTime (blockingPreAPISetup c s) = shd (w_clock (world s))"
  "shouldBlock (blockingPreAPISetup c s) = (c \<noteq> WRITE_READY)"
  "sigioReceived (blockingPreAPISetup c s) = sigioReceived s"
  "errno (blockingPreAPISetup c s) = errno s"
  "sigio_handler (blockingPreAPISetup c s) = sigio_handler s"
  "cur_fd (blockingPreAPISetup c s) = cur_fd s"
  "world (blockingPreAPISetup c s) = (world s)\<lparr>w_clock := stl (w_clock (world s))\<rparr>"
  "trace (blockingPreAPISetup c s) = trace s @ [EvGettimeofday]"
  "printed (blockingPreAPISetup c s) = printed s"
  "api_calls (blockingPreAPISetup c s) = api_calls s"
  "sleeps (blockingPreAPISetup c s) = sleeps s"
  by (simp_all add: blockingPreAPISetup_def)

lemma nonblockingPreAPISetup_fields [simp]:
  "gVerbose (nonblockingPreAPISetup s) = gVerbose s"
  "gCurrent (nonblockingPreAPISetup s) = gCurrent s"
  "gSockfd (nonblockingPreAPISetup s) = gSockfd s"
  "gTokens (nonblockingPreAPISetup s) = gTokens s"
  "model (nonblockingPreAPISetup s) = model s"
  "gInterrupted (nonblockingPreAPISetup s) = gInterrupted s"
  "shouldBlock (nonblockingPreAPISetup s) = shouldBlock s"
  "sigioReceived (nonblockingPreAPISetup s) = sigioReceived s"
  "sigio_handler (nonblockingPreAPISetup s) = sigio_handler s"
  "cur_fd (nonblockingPreAPISetup s) = cur_fd s"
  "w_select (world (nonblockingPreAPISetup s)) = w_select (world s)"
  "w_sleep (world (nonblockingPreAPISetup s)) = w_sleep (world s)"
  "w_api (world (nonblockingPreAPISetup s)) = w_api (world s)"
  "w_signal (world (nonblockingPreAPISetup s)) = w_signal (world s)"
  "api_calls (nonblockingPreAPISetup s) = api_calls s"
  "sleeps (nonblockingPreAPISetup s) = sleeps s"
  by (simp_all add: nonblockingPreAPISetup_def Let_def)

lemma nonblockingPostAPISetup_done:
  "fst (nonblockingPostAPISetup r s) \<longleftrightarrow>
     r \<ge> 0 \<or> (errno s \<noteq> EWOULDBLOCK \<and> errno s \<noteq> EINPROGRESS \<and> errno s \<noteq> EALREADY)"
  by (simp add: nonblockingPostAPISetup_def Let_def)

lemma nonblockingPostAPISetup_fields [simp]:
  "gVerbose (snd (nonblockingPostAPISetup r s)) = gVerbose s"
  "gCurrent (snd (nonblockingPostAPISetup r s)) = gCurrent s"
  "gSockfd (snd (nonblockingPostAPISetup r s)) = gSockfd s"
  "gTokens (snd (nonblockingPostAPISetup r s)) = gTokens s"
  "model (snd (nonblockingPostAPISetup r s)) = model s"
  "shouldBlock (snd (nonblockingPostAPISetup r s)) = shouldBlock s"
  "sigio_handler (snd (nonblockingPostAPISetup r s)) = sigio_handler s"
  "cur_fd (snd (nonblockingPostAPISetup r s)) = cur_fd s"
  "w_select (world (snd (nonblockingPostAPISetup r s))) = w_select (world s)"
  "w_api (world (snd (nonblockingPostAPISetup r s))) = w_api (world s)"
  "w_signal (world (snd (nonblockingPostAPISetup r s))) = w_signal (world s)"
  "api_calls (snd (nonblockingPostAPISetup r s)) = api_calls s"
  by (simp_all add: nonblockingPostAPISetup_def Let_def)

lemma nonblockingPostAPISetup_sleep:
  "w_sleep (world (snd (nonblockingPostAPISetup r s))) =
     (if fst (nonblockingPostAPISetup r s) then w_sleep (world s) else stl (w_sleep (world s)))"
  "gInterrupted (snd (nonblockingPostAPISetup r s)) =
     (gInterrupted s \<or>
      (\<not> fst (nonblockingPostAPISetup r s) \<and> \<not> quiet (shd (w_sleep (world s)))))"
  "sleeps (snd (nonblockingPostAPISetup r s)) =
     (if fst (nonblockingPostAPISetup r s) then sleeps s else Suc (sleeps s))"
  by (simp_all add: nonblockingPostAPISetup_def Let_def)


lemma blocking_iteration:
  assumes "model s = BLOCKING_MODEL" "\<not> gInterrupted s"
  shows "apiLoop (Suc n) c a s =
           Returns (Some (api_result (shd (w_api (world s)))),
                    snd (blockingPostAPISetup (api_result (shd (w_api (world s))))
                           (snd (call_api a (blockingPreAPISetup c s)))))"
  using assms
  by (simp add: preAPISetup_def postAPISetup_def case_prod_beta blockingPostAPISetup_def)

text \<open>
  The elapsed time is what the 64-bit arithmetic of \<open>verifyBlocking\<close> makes of it. As
  long as the true difference in microseconds fits a \<open>long\<close> it is that difference; a
  return time 9223372036855 seconds after the call time is past the range, the product
  wraps to a negative number and the call is classified as not having blocked.
\<close>

lemma delta_exact:
  assumes "d = (sint (tv_sec r) - sint (tv_sec c)) * 1000000 + sint (tv_usec r) - sint (tv_usec c)"
    and "- (2 ^ 63) \<le> d" "d < 2 ^ 63"
  shows "delta r c = d"
proof -
  have "(tv_sec r - tv_sec c) * 1000000 + tv_usec r - tv_usec c = (word_of_int d :: 64 word)"
    by (simp add: assms(1))
  then have "delta r c = sint (word_of_int d :: 64 word)" by (simp add: delta_def)
  also have "\<dots> = (d + 2 ^ 63) mod 2 ^ 64 - 2 ^ 63" by (simp add: int_word_sint)
  also have "(d + 2 ^ 63) mod 2 ^ 64 = d + 2 ^ 63"
    using assms(2,3) by (intro mod_pos_pos_trivial) simp_all
  finally show ?thesis by simp
qed

lemma delta_wraps:
  "delta \<lparr>tv_sec = 9223372036855, tv_usec = 0\<rparr> \<lparr>tv_sec = 0, tv_usec = 0\<rparr>
     = - 9223372036854551616"
  by (simp add: delta_def)

lemma verifyBlocking_wrapped:
  assumes "callTime s = \<lparr>tv_sec = 0, tv_usec = 0\<rparr>"
    and "shd (w_clock (world s)) = \<lparr>tv_sec = 9223372036855, tv_usec = 0\<rparr>"
    and "shouldBlock s" "0 \<le> r"
  shows "printed (snd (blockingPostAPISetup r s)) = printed s @ [mismatch False]"
  using assms by (simp add: blockingPostAPISetup_def verifyBlocking_printed delta_wraps
        BLOCK_THRESHOLD_def mismatch_def)

text \<open>
  C1, as stated, does not hold in its last part. In the Blocking model with the condition
  read-ready, \<open>blockingPreAPISetup\<close> records that the call is expected to block. A
  \<open>connect\<close> that returns 0 with no time elapsed is classified as not having blocked,
  and since the call was expected to block, \<open>verifyBlocking\<close> prints
  "Error - API did not block.": a mismatch is reported.
\<close>

theorem blocking_connect_mismatch:
  "model (one_socket calm) = BLOCKING_MODEL \<and>
   apiLoop 1 READ_READY API_connect (one_socket calm) =
     Returns (Some 0,
       (one_socket calm)
         \<lparr>shouldBlock := True,
          trace := [EvGettimeofday, EvApi API_connect 3, EvGettimeofday],
          printed := [(Stderr, ''Error - API %s block.'', [S ''did not''])]\<rparr>)"
  by (simp add: preAPISetup_def postAPISetup_def blockingPreAPISetup_def blockingPostAPISetup_def
        doBlockingSetup_def verifyBlocking_def gettimeofday_def call_api_def record_event_def
        fprintf_def delta_def BLOCK_THRESHOLD_def cur_fd_def
        one_socket_def initial_def calm_def)

text \<open>
  C1, amended. In the Blocking model \<open>prepare\<close> records the expectation (true exactly
  when the condition is not write-ready) and takes the call time. \<open>finish\<close> always
  returns Done; it compares the classification (\<open>delta\<close>, the elapsed microseconds in
  the program's \<open>long\<close> arithmetic, above \<open>BLOCK_THRESHOLD\<close>) with the recorded
  expectation taken together with the success of the call
  (\<open>shouldBlock && apiResult >= 0\<close>) and prints the mismatch line when they differ. So
  for the condition read-ready, a \<open>connect\<close> that succeeds within the threshold is
  classified as not having blocked and the mismatch "Error - API did not block." is
  printed.
\<close>

theorem blocking_strategy:
  "shouldBlock (blockingPreAPISetup c s) = (c \<noteq> WRITE_READY) \<and>
   callTime (blockingPreAPISetup c s) = shd (w_clock (world s)) \<and>
   fst (blockingPostAPISetup r s) \<and>
   printed (snd (blockingPostAPISetup r s)) =
     (let blocked = (delta (shd (w_clock (world s))) (callTime s) > BLOCK_THRESHOLD)
      in if blocked \<noteq> (shouldBlock s \<and> r \<ge> 0) then printed s @ [mismatch blocked]
         else if gVerbose s
         then printed s @ [(Stderr, ''API %s block.'', [S (if blocked then ''did'' else ''did not'')])]
         else printed s) \<and>
   (model s = BLOCKING_MODEL \<and> \<not> gInterrupted s \<and>
    0 \<le> api_result (shd (w_api (world s))) \<and> api_signals (shd (w_api (world s))) = [] \<and>
    delta (shd (stl (w_clock (world s)))) (shd (w_clock (world s))) \<le> BLOCK_THRESHOLD \<longrightarrow>
      (\<exists>s'. apiLoop (Suc n) READ_READY API_connect s =
               Returns (Some (api_result (shd (w_api (world s)))), s') \<and>
            printed s' = printed s @ [mismatch False]))"
proof (intro conjI impI)
  show "printed (snd (blockingPostAPISetup r s)) =
     (let blocked = (delta (shd (w_clock (world s))) (callTime s) > BLOCK_THRESHOLD)
      in if blocked \<noteq> (shouldBlock s \<and> r \<ge> 0) then printed s @ [mismatch blocked]
         else if gVerbose s
         then printed s @ [(Stderr, ''API %s block.'', [S (if blocked then ''did'' else ''did not'')])]
         else printed s)"
    by (simp add: blockingPostAPISetup_def verifyBlocking_printed)
next
  assume a: "model s = BLOCKING_MODEL \<and> \<not> gInterrupted s \<and>
    0 \<le> api_result (shd (w_api (world s))) \<and> api_signals (shd (w_api (world s))) = [] \<and>
    delta (shd (stl (w_clock (world s)))) (shd (w_clock (world s))) \<le> BLOCK_THRESHOLD"
  let ?s' = "snd (blockingPostAPISetup (api_result (shd (w_api (world s))))
                    (snd (call_api API_connect (blockingPreAPISetup READ_READY s))))"
  have "apiLoop (Suc n) READ_READY API_connect s =
          Returns (Some (api_result (shd (w_api (world s)))), ?s')"
    by (rule blocking_iteration) (use a in simp_all)
  moreover have "printed ?s' = printed s @ [mismatch False]"
    using a by (simp add: blockingPostAPISetup_def verifyBlocking_printed call_api_def Let_def)
  ultimately show "\<exists>s'. apiLoop (Suc n) READ_READY API_connect s =
               Returns (Some (api_result (shd (w_api (world s)))), s') \<and>
            printed s' = printed s @ [mismatch False]"
    by blast
qed (simp_all add: blockingPostAPISetup_def)

text \<open>
  The same on a registry with one socket, in a world where \<open>connect\<close> returns 0 at
  once.
\<close>

theorem blocking_strategy_witness:
  "shouldBlock (blockingPreAPISetup READ_READY (one_socket calm)) \<and>
   \<not> shouldBlock (blockingPreAPISetup WRITE_READY (one_socket calm)) \<and>
   (\<exists>s'. apiLoop 1 READ_READY API_connect (one_socket calm) = Returns (Some 0, s') \<and>
         printed s' = [(Stderr, ''Error - API %s block.'', [S ''did not''])])"
  using blocking_strategy [of READ_READY "one_socket calm" 0 0]
        blocking_strategy [of WRITE_READY "one_socket calm" 0 0]
  by (simp add: one_socket_def initial_def calm_def delta_def BLOCK_THRESHOLD_def mismatch_def)


lemma nonblocking_iteration:
  assumes "model s = NONBLOCKING_MODEL" "\<not> gInterrupted s"
  shows "apiLoop (Suc n) c a s =
     (let r = shd (w_api (world s));
          s2 = snd (call_api a (nonblockingPreAPISetup s));
          s3 = snd (nonblockingPostAPISetup (api_result r) s2)
      in if api_result r \<ge> 0 \<or>
            (api_errno r \<noteq> EWOULDBLOCK \<and> api_errno r \<noteq> EINPROGRESS \<and> api_errno r \<noteq> EALREADY)
         then Returns (Some (api_result r), s3)
         else apiLoop n c a s3)"
  using assms
  by (auto simp: preAPISetup_def postAPISetup_def case_prod_beta Let_def
        nonblockingPostAPISetup_done)

lemma nonblocking_run:
  assumes "model s = NONBLOCKING_MODEL" "\<not> gInterrupted s" "k < n"
    and "\<forall>i<k. api_result (w_api (world s) !! i) < 0 \<and>
               (api_errno (w_api (world s) !! i) = EWOULDBLOCK \<or>
                api_errno (w_api (world s) !! i) = EINPROGRESS \<or>
                api_errno (w_api (world s) !! i) = EALREADY) \<and>
               quiet (api_signals (w_api (world s) !! i)) \<and>
               quiet (w_sleep (world s) !! i)"
    and "0 \<le> api_result (w_api (world s) !! k)"
  shows "\<exists>s'. apiLoop n c a s = Returns (Some (api_result (w_api (world s) !! k)), s') \<and>
              api_calls s' = api_calls s + k + 1 \<and> sleeps s' = sleeps s + k"
  using assms
proof (induction k arbitrary: s n)
  case 0
  then obtain m where n: "n = Suc m" by (cases n) auto
  let ?s3 = "snd (nonblockingPostAPISetup (api_result (shd (w_api (world s))))
                    (snd (call_api a (nonblockingPreAPISetup s))))"
  from 0 have ok: "0 \<le> api_result (shd (w_api (world s)))" by simp
  then have "apiLoop n c a s = Returns (Some (api_result (shd (w_api (world s)))), ?s3)"
    unfolding n using 0(1,2) by (simp add: nonblocking_iteration Let_def del: apiLoop.simps)
  moreover have "api_calls ?s3 = api_calls s + 0 + 1" by simp
  moreover have "sleeps ?s3 = sleeps s + 0"
    using ok by (simp add: nonblockingPostAPISetup_sleep nonblockingPostAPISetup_done)
  ultimately show ?case by auto
next
  case (Suc k)
  then obtain m where n: "n = Suc m" and km: "k < m" by (cases n) auto
  let ?r = "shd (w_api (world s))"
  let ?s2 = "snd (call_api a (nonblockingPreAPISetup s))"
  let ?s3 = "snd (nonblockingPostAPISetup (api_result ?r) ?s2)"
  from Suc.prems(4) have first:
    "api_result ?r < 0"
    "api_errno ?r = EWOULDBLOCK \<or> api_errno ?r = EINPROGRESS \<or> api_errno ?r = EALREADY"
    "quiet (api_signals ?r)" "quiet (shd (w_sleep (world s)))"
    by (auto dest: spec [of _ 0])
  have step: "apiLoop n c a s = apiLoop m c a ?s3"
    unfolding n using Suc.prems(1,2) first
    by (auto simp: nonblocking_iteration Let_def simp del: apiLoop.simps)
  have notdone: "\<not> fst (nonblockingPostAPISetup (api_result ?r) ?s2)"
    using first by (auto simp: nonblockingPostAPISetup_done)
  have m3: "model ?s3 = NONBLOCKING_MODEL" using Suc.prems(1) by simp
  have i3: "\<not> gInterrupted ?s3"
    using Suc.prems(2) first by (simp add: nonblockingPostAPISetup_sleep)
  have api3: "w_api (world ?s3) = stl (w_api (world s))" by simp
  have sl3: "w_sleep (world ?s3) = stl (w_sleep (world s))"
    using notdone by (simp add: nonblockingPostAPISetup_sleep)
  have rest: "\<forall>i<k. api_result (w_api (world ?s3) !! i) < 0 \<and>
               (api_errno (w_api (world ?s3) !! i) = EWOULDBLOCK \<or>
                api_errno (w_api (world ?s3) !! i) = EINPROGRESS \<or>
                api_errno (w_api (world ?s3) !! i) = EALREADY) \<and>
               quiet (api_signals (w_api (world ?s3) !! i)) \<and>
               quiet (w_sleep (world ?s3) !! i)"
    unfolding api3 sl3 using Suc.prems(4) by (auto dest: spec [of _ "Suc i" for i])
  have last: "0 \<le> api_result (w_api (world ?s3) !! k)"
    unfolding api3 using Suc.prems(5) by simp
  from Suc.IH [OF m3 i3 km rest last] obtain s' where
    s': "apiLoop m c a ?s3 = Returns (Some (api_result (w_api (world ?s3) !! k)), s')"
        "api_calls s' = api_calls ?s3 + k + 1" "sleeps s' = sleeps ?s3 + k"
    by blast
  have "api_calls ?s3 = Suc (api_calls s)" by simp
  moreover have "sleeps ?s3 = Suc (sleeps s)"
    using notdone by (simp add: nonblockingPostAPISetup_sleep)
  ultimately show ?case
    using s' step unfolding api3 by auto
qed


text \<open>
  C2. In the Non-blocking model \<open>finish\<close> returns Done exactly when the result is not
  negative or \<open>errno\<close> is none of \<open>EWOULDBLOCK\<close>, \<open>EINPROGRESS\<close>, \<open>EALREADY\<close>;
  otherwise it sleeps once and the loop calls again. \<open>errno\<close> is the error code of the
  call that just failed. So when the operation fails \<open>k\<close> times with one of the three
  codes and then succeeds, and no interrupting signal arrives meanwhile, the retry loop
  returns the result of call \<open>k + 1\<close> after exactly \<open>k + 1\<close> invocations and \<open>k\<close>
  sleeps, given room for that many iterations. For \<open>k = 3\<close> these are four
  invocations.
\<close>

theorem nonblocking_retry:
  "(fst (nonblockingPostAPISetup r s) \<longleftrightarrow>
      r \<ge> 0 \<or> (errno s \<noteq> EWOULDBLOCK \<and> errno s \<noteq> EINPROGRESS \<and> errno s \<noteq> EALREADY)) \<and>
   sleeps (snd (nonblockingPostAPISetup r s)) =
     (if fst (nonblockingPostAPISetup r s) then sleeps s else Suc (sleeps s)) \<and>
   (api_result (shd (w_api (world s))) < 0 \<longrightarrow>
      errno (snd (call_api a s)) = api_errno (shd (w_api (world s)))) \<and>
   (model s = NONBLOCKING_MODEL \<and> \<not> gInterrupted s \<and> k < n \<and>
    (\<forall>i<k. api_result (w_api (world s) !! i) < 0 \<and>
           (api_errno (w_api (world s) !! i) = EWOULDBLOCK \<or>
            api_errno (w_api (world s) !! i) = EINPROGRESS \<or>
            api_errno (w_api (world s) !! i) = EALREADY) \<and>
           quiet (api_signals (w_api (world s) !! i)) \<and>
           quiet (w_sleep (world s) !! i)) \<and>
    0 \<le> api_result (w_api (world s) !! k) \<longrightarrow>
    (\<exists>s'. apiLoop n c a s = Returns (Some (api_result (w_api (world s) !! k)), s') \<and>
          api_calls s' = api_calls s + k + 1 \<and> sleeps s' = sleeps s + k))"
proof (intro conjI impI)
  assume "model s = NONBLOCKING_MODEL \<and> \<not> gInterrupted s \<and> k < n \<and>
    (\<forall>i<k. api_result (w_api (world s) !! i) < 0 \<and>
           (api_errno (w_api (world s) !! i) = EWOULDBLOCK \<or>
            api_errno (w_api (world s) !! i) = EINPROGRESS \<or>
            api_errno (w_api (world s) !! i) = EALREADY) \<and>
           quiet (api_signals (w_api (world s) !! i)) \<and>
           quiet (w_sleep (world s) !! i)) \<and>
    0 \<le> api_result (w_api (world s) !! k)"
  then show "\<exists>s'. apiLoop n c a s = Returns (Some (api_result (w_api (world s) !! k)), s') \<and>
          api_calls s' = api_calls s + k + 1 \<and> sleeps s' = sleeps s + k"
    by (intro nonblocking_run) simp_all
qed (simp_all add: nonblockingPostAPISetup_done nonblockingPostAPISetup_sleep)

text \<open>
  Three times "would block", then 42 bytes: four invocations.
\<close>

theorem nonblocking_retry_witness:
  "\<exists>s'. apiLoop 4 READ_READY API_recvmsg ((one_socket would_block3)\<lparr>model := NONBLOCKING_MODEL\<rparr>)
          = Returns (Some 42, s') \<and>
        api_calls s' = 4 \<and> sleeps s' = 3"
proof -
  let ?s = "(one_socket would_block3)\<lparr>model := NONBLOCKING_MODEL\<rparr>"
  have w: "w_api (world ?s) =
            \<lparr>api_result = - 1, api_errno = EWOULDBLOCK, api_signals = []\<rparr> ##
            \<lparr>api_result = - 1, api_errno = EWOULDBLOCK, api_signals = []\<rparr> ##
            \<lparr>api_result = - 1, api_errno = EWOULDBLOCK, api_signals = []\<rparr> ##
            sconst \<lparr>api_result = 42, api_errno = 0, api_signals = []\<rparr>"
       "w_sleep (world ?s) = sconst []"
    by (simp_all add: one_socket_def initial_def would_block3_def calm_def)
  have hyp: "model ?s = NONBLOCKING_MODEL \<and> \<not> gInterrupted ?s \<and> 3 < (4::nat) \<and>
    (\<forall>i<3. api_result (w_api (world ?s) !! i) < 0 \<and>
           (api_errno (w_api (world ?s) !! i) = EWOULDBLOCK \<or>
            api_errno (w_api (world ?s) !! i) = EINPROGRESS \<or>
            api_errno (w_api (world ?s) !! i) = EALREADY) \<and>
           quiet (api_signals (w_api (world ?s) !! i)) \<and>
           quiet (w_sleep (world ?s) !! i)) \<and>
    0 \<le> api_result (w_api (world ?s) !! 3)"
    unfolding w
    by (auto simp: one_socket_def initial_def quiet_def less_Suc_eq numeral_3_eq_3)
  have "api_calls ?s = 0" "sleeps ?s = 0" "api_result (w_api (world ?s) !! 3) = 42"
    unfolding w by (simp_all add: api_calls_def sleeps_def one_socket_def initial_def numeral_3_eq_3)
  with nonblocking_retry [of 0 ?s API_recvmsg 3 4 READ_READY, THEN conjunct2, THEN conjunct2,
         THEN conjunct2, rule_format, OF hyp]
  show ?thesis by simp
qed

section \<open>The Select model\<close>

lemma select_call_more [simp]:
  "sigioReceived (snd (select_call nfds rd wr ex tmo s)) =
     (sigioReceived s \<or>
      (SIGIO \<in> set (sel_signals (shd (w_select (world s)))) \<and> sigio_handler s = H_activeSIGIOHandler))"
  by (simp add: select_call_def Let_def deliver_sigioReceived)

text \<open>The state after one turn of the select loop.\<close>

lemma selectLoop_Suc:
  "selectLoop (Suc n) c s =
     (let fd = cur_fd s; r = shd (w_select (world s));
          s1 = snd (select_call (fd + 1)
                 (if c = READ_READY then {fd} else {})
                 (if c = WRITE_READY then {fd} else {})
                 (if c = EXCEPT_READY then {fd} else {}) (1, 0) s);
          s2 = (if sel_result r = 0
                then (if gVerbose s then fprintf Stdout ''Tick.'' [] s1 else s1)
                else if sel_result r = 1
                then (if fd \<notin> watched c r
                      then fprintf Stderr ''Error - Expected fd bit not set after select() returned 1.'' [] s1
                      else if gVerbose s then fprintf Stdout ''select() exited as expected.'' [] s1
                      else s1)
                else fprintf Stderr ''Error - select() returned %d.'' [I (sel_result r)] s1)
      in if sel_result r \<noteq> 1 \<and> \<not> gInterrupted s2 then selectLoop n c s2 else Returns s2)"
proof -
  have w: "(case c of READ_READY \<Rightarrow> sel_read r | WRITE_READY \<Rightarrow> sel_write r
            | EXCEPT_READY \<Rightarrow> sel_except r) = watched c r" for r
    by (cases c) simp_all
  show ?thesis
    by (cases "sel_result (shd (w_select (world s))) = 0";
        cases "sel_result (shd (w_select (world s))) = 1")
       (simp_all add: Let_def case_prod_beta w)
qed


lemma selectLoop_turn:
  obtains s2 where
    "selectLoop (Suc n) c s =
       (if sel_result (shd (w_select (world s))) \<noteq> 1 \<and> \<not> gInterrupted s2
        then selectLoop n c s2 else Returns s2)"
    "trace s2 = trace s @ [select_event c (cur_fd s) (shd (w_select (world s)))]"
    "gInterrupted s2 = (gInterrupted s \<or> \<not> quiet (sel_signals (shd (w_select (world s)))))"
    "sel_result (shd (w_select (world s))) = 1 \<and> cur_fd s \<notin> watched c (shd (w_select (world s)))
       \<longrightarrow> last (printed s2) =
             (Stderr, ''Error - Expected fd bit not set after select() returned 1.'', [])"
    "model s2 = model s" "gVerbose s2 = gVerbose s" "gCurrent s2 = gCurrent s"
    "gSockfd s2 = gSockfd s" "gTokens s2 = gTokens s" "cur_fd s2 = cur_fd s"
    "sigio_handler s2 = sigio_handler s"
    "w_select (world s2) = stl (w_select (world s))"
    "w_api (world s2) = w_api (world s)" "w_sleep (world s2) = w_sleep (world s)"
    "w_clock (world s2) = w_clock (world s)" "w_sys (world s2) = w_sys (world s)"
    "w_signal (world s2) = w_signal (world s)"
    "api_calls s2 = api_calls s" "sleeps s2 = sleeps s"
proof -
  define fd where "fd = cur_fd s"
  define r where "r = shd (w_select (world s))"
  define s1 where "s1 = snd (select_call (fd + 1)
                 (if c = READ_READY then {fd} else {})
                 (if c = WRITE_READY then {fd} else {})
                 (if c = EXCEPT_READY then {fd} else {}) (1, 0) s)"
  define s2 where "s2 = (if sel_result r = 0
                then (if gVerbose s then fprintf Stdout ''Tick.'' [] s1 else s1)
                else if sel_result r = 1
                then (if fd \<notin> watched c r
                      then fprintf Stderr ''Error - Expected fd bit not set after select() returned 1.'' [] s1
                      else if gVerbose s then fprintf Stdout ''select() exited as expected.'' [] s1
                      else s1)
                else fprintf Stderr ''Error - select() returned %d.'' [I (sel_result r)] s1)"
  have loop: "selectLoop (Suc n) c s =
       (if sel_result r \<noteq> 1 \<and> \<not> gInterrupted s2 then selectLoop n c s2 else Returns s2)"
    unfolding selectLoop_Suc s2_def s1_def r_def fd_def Let_def ..
  have other: "f s2 = f s1" if "\<And>ch fmt args t. f (fprintf ch fmt args t) = f t" for f :: "state \<Rightarrow> 'a"
    unfolding s2_def by (simp add: that)
  show thesis
  proof (rule that [of s2])
    show "selectLoop (Suc n) c s =
       (if sel_result (shd (w_select (world s))) \<noteq> 1 \<and> \<not> gInterrupted s2
        then selectLoop n c s2 else Returns s2)"
      using loop by (simp add: r_def)
    show "trace s2 = trace s @ [select_event c (cur_fd s) (shd (w_select (world s)))]"
      by (simp add: other s1_def select_event_def fd_def)
    show "gInterrupted s2 = (gInterrupted s \<or> \<not> quiet (sel_signals (shd (w_select (world s)))))"
      by (simp add: other s1_def)
    show "sel_result (shd (w_select (world s))) = 1 \<and> cur_fd s \<notin> watched c (shd (w_select (world s)))
       \<longrightarrow> last (printed s2) =
             (Stderr, ''Error - Expected fd bit not set after select() returned 1.'', [])"
      by (simp add: s2_def r_def fd_def)
    show "model s2 = model s" "gVerbose s2 = gVerbose s" "gCurrent s2 = gCurrent s"
      "gSockfd s2 = gSockfd s" "gTokens s2 = gTokens s" "cur_fd s2 = cur_fd s"
      "sigio_handler s2 = sigio_handler s"
      by (simp_all add: other s1_def)
    show "w_select (world s2) = stl (w_select (world s))"
      "w_api (world s2) = w_api (world s)" "w_sleep (world s2) = w_sleep (world s)"
      "w_clock (world s2) = w_clock (world s)" "w_sys (world s2) = w_sys (world s)"
      "w_signal (world s2) = w_signal (world s)"
      by (simp_all add: other [of "\<lambda>t. w_select (world t)"] other [of "\<lambda>t. w_api (world t)"]
            other [of "\<lambda>t. w_sleep (world t)"] other [of "\<lambda>t. w_clock (world t)"]
            other [of "\<lambda>t. w_sys (world t)"] other [of "\<lambda>t. w_signal (world t)"] s1_def)
    show "api_calls s2 = api_calls s" "sleeps s2 = sleeps s"
      by (simp_all add: other s1_def)
  qed
qed


lemma selectLoop_frame:
  "selectLoop n c s = Returns s1 \<Longrightarrow>
     model s1 = model s \<and> gVerbose s1 = gVerbose s \<and> gCurrent s1 = gCurrent s \<and>
     gSockfd s1 = gSockfd s \<and> gTokens s1 = gTokens s \<and> cur_fd s1 = cur_fd s \<and>
     sigio_handler s1 = sigio_handler s \<and>
     w_api (world s1) = w_api (world s) \<and> w_sleep (world s1) = w_sleep (world s) \<and>
     w_clock (world s1) = w_clock (world s) \<and> w_sys (world s1) = w_sys (world s) \<and>
     w_signal (world s1) = w_signal (world s) \<and>
     api_calls s1 = api_calls s \<and> sleeps s1 = sleeps s \<and>
     (gInterrupted s \<longrightarrow> gInterrupted s1)"
proof (induction n arbitrary: s)
  case 0
  then show ?case by simp
next
  case (Suc n)
  obtain s2 where s2:
    "selectLoop (Suc n) c s =
       (if sel_result (shd (w_select (world s))) \<noteq> 1 \<and> \<not> gInterrupted s2
        then selectLoop n c s2 else Returns s2)"
    "gInterrupted s2 = (gInterrupted s \<or> \<not> quiet (sel_signals (shd (w_select (world s)))))"
    "model s2 = model s" "gVerbose s2 = gVerbose s" "gCurrent s2 = gCurrent s"
    "gSockfd s2 = gSockfd s" "gTokens s2 = gTokens s" "cur_fd s2 = cur_fd s"
    "sigio_handler s2 = sigio_handler s"
    "w_api (world s2) = w_api (world s)" "w_sleep (world s2) = w_sleep (world s)"
    "w_clock (world s2) = w_clock (world s)" "w_sys (world s2) = w_sys (world s)"
    "w_signal (world s2) = w_signal (world s)"
    "api_calls s2 = api_calls s" "sleeps s2 = sleeps s"
    by (rule selectLoop_turn [of n c s]) blast
  show ?case
  proof (cases "sel_result (shd (w_select (world s))) \<noteq> 1 \<and> \<not> gInterrupted s2")
    case True
    with Suc.prems s2(1) have "selectLoop n c s2 = Returns s1" by simp
    from Suc.IH [OF this] s2(2-) show ?thesis by simp
  next
    case False
    with Suc.prems s2(1) have "s1 = s2" by (simp split: if_splits)
    with s2(2-) show ?thesis by simp
  qed
qed

lemma selectLoop_returns:
  "selectLoop n c s = Returns s1 \<Longrightarrow>
     \<exists>rs. rs \<noteq> [] \<and> rs = stake (length rs) (w_select (world s)) \<and> length rs \<le> n \<and>
          trace s1 = trace s @ map (select_event c (cur_fd s)) rs \<and>
          (\<forall>r \<in> set (butlast rs). sel_result r \<noteq> 1) \<and>
          (sel_result (last rs) = 1 \<or> gInterrupted s1) \<and>
          (sel_result (last rs) = 1 \<and> cur_fd s \<notin> watched c (last rs) \<longrightarrow>
             last (printed s1) =
               (Stderr, ''Error - Expected fd bit not set after select() returned 1.'', []))"
proof (induction n arbitrary: s)
  case 0
  then show ?case by simp
next
  case (Suc n)
  let ?r = "shd (w_select (world s))"
  obtain s2 where s2:
    "selectLoop (Suc n) c s =
       (if sel_result ?r \<noteq> 1 \<and> \<not> gInterrupted s2 then selectLoop n c s2 else Returns s2)"
    "trace s2 = trace s @ [select_event c (cur_fd s) ?r]"
    "sel_result ?r = 1 \<and> cur_fd s \<notin> watched c ?r
       \<longrightarrow> last (printed s2) =
             (Stderr, ''Error - Expected fd bit not set after select() returned 1.'', [])"
    "cur_fd s2 = cur_fd s"
    "w_select (world s2) = stl (w_select (world s))"
    by (rule selectLoop_turn [of n c s]) blast
  show ?case
  proof (cases "sel_result ?r \<noteq> 1 \<and> \<not> gInterrupted s2")
    case True
    with Suc.prems s2(1) have "selectLoop n c s2 = Returns s1" by simp
    from Suc.IH [OF this] obtain rs where rs:
      "rs \<noteq> []" "rs = stake (length rs) (w_select (world s2))" "length rs \<le> n"
      "trace s1 = trace s2 @ map (select_event c (cur_fd s2)) rs"
      "\<forall>r \<in> set (butlast rs). sel_result r \<noteq> 1"
      "sel_result (last rs) = 1 \<or> gInterrupted s1"
      "sel_result (last rs) = 1 \<and> cur_fd s2 \<notin> watched c (last rs) \<longrightarrow>
             last (printed s1) =
               (Stderr, ''Error - Expected fd bit not set after select() returned 1.'', [])"
      by blast
    have "?r # rs = stake (length (?r # rs)) (w_select (world s))"
      using rs(2) s2(5) by simp
    moreover have "trace s1 = trace s @ map (select_event c (cur_fd s)) (?r # rs)"
      using rs(4) s2(2,4) by simp
    moreover have "\<forall>r \<in> set (butlast (?r # rs)). sel_result r \<noteq> 1"
      using rs(1,5) True by simp
    moreover have "last (?r # rs) = last rs" using rs(1) by simp
    ultimately show ?thesis
      using rs(1,3,6,7) s2(4) by (intro exI [of _ "?r # rs"]) simp
  next
    case False
    with Suc.prems s2(1) have eq: "s1 = s2" by (simp split: if_splits)
    show ?thesis
      using False s2(2,3) unfolding eq by (intro exI [of _ "[?r]"]) auto
  qed
qed


lemma selectLoop_ends:
  "k < n \<Longrightarrow>
   sel_result (w_select (world s) !! k) = 1 \<or> \<not> quiet (sel_signals (w_select (world s) !! k)) \<Longrightarrow>
   \<exists>s1. selectLoop n c s = Returns s1"
proof (induction k arbitrary: s n)
  case 0
  then obtain m where n: "n = Suc m" by (cases n) auto
  obtain s2 where
    "selectLoop (Suc m) c s =
       (if sel_result (shd (w_select (world s))) \<noteq> 1 \<and> \<not> gInterrupted s2
        then selectLoop m c s2 else Returns s2)"
    "gInterrupted s2 = (gInterrupted s \<or> \<not> quiet (sel_signals (shd (w_select (world s)))))"
    by (rule selectLoop_turn [of m c s]) blast
  with 0 show ?case unfolding n by auto
next
  case (Suc k)
  then obtain m where n: "n = Suc m" and km: "k < m" by (cases n) auto
  obtain s2 where s2:
    "selectLoop (Suc m) c s =
       (if sel_result (shd (w_select (world s))) \<noteq> 1 \<and> \<not> gInterrupted s2
        then selectLoop m c s2 else Returns s2)"
    "w_select (world s2) = stl (w_select (world s))"
    by (rule selectLoop_turn [of m c s]) blast
  from Suc.prems(2)
  have "sel_result (w_select (world s2) !! k) = 1 \<or>
        \<not> quiet (sel_signals (w_select (world s2) !! k))"
    by (simp add: s2(2))
  from Suc.IH [OF km this] obtain s1 where "selectLoop m c s2 = Returns s1" by blast
  then show ?case unfolding n s2(1) by simp
qed

text \<open>
  Outside the contract of \<open>select\<close>. The branch \<open>result == 1\<close> of \<open>selectPreAPISetup\<close>
  tests the bit only to choose the line it prints and sets \<open>done\<close> in both cases: were
  \<open>select\<close> to return 1 with the bit of the current socket clear, the error line would be
  printed and the operation invoked.
\<close>

lemma select_count_without_bit:
  "apiLoop 1 READ_READY API_read ((one_socket select_lies)\<lparr>model := SELECT_MODEL\<rparr>) =
     Returns (Some 0,
       (one_socket select_lies)
         \<lparr>model := SELECT_MODEL,
          trace := [EvSelect 4 {3} {} {} (1, 0) (shd (w_select select_lies)),
                    EvGettimeofday, EvApi API_read 3, EvGettimeofday],
          printed := [(Stderr, ''Error - Expected fd bit not set after select() returned 1.'', [])]\<rparr>)"
  by (simp add: preAPISetup_def postAPISetup_def selectPreAPISetup_def selectPostAPISetup_def
        select_call_def doBlockingSetup_def verifyBlocking_def gettimeofday_def call_api_def
        record_event_def fprintf_def delta_def BLOCK_THRESHOLD_def cur_fd_def Let_def
        one_socket_def initial_def select_lies_def calm_def)

lemma select_lies_breaks_contract:
  "\<not> select_contract 4 {3} {} {} (shd (w_select select_lies))"
  by (simp add: select_contract_def select_lies_def calm_def)


lemma select_event_unfold:
  "map (select_event c fd) rs =
     map (EvSelect (fd + 1) (if c = READ_READY then {fd} else {})
            (if c = WRITE_READY then {fd} else {})
            (if c = EXCEPT_READY then {fd} else {}) (1, 0)) rs"
  by (simp add: select_event_def)

text \<open>One pass of the retry loop in the Select model, whatever \<open>select\<close> answers.\<close>

lemma select_iteration:
  assumes "model s = SELECT_MODEL" and "apiLoop n c a s = Returns (res, s')"
  shows "\<exists>rs s1.
     preAPISetup n c s = Returns s1 \<and>
     rs \<noteq> [] \<and> rs = stake (length rs) (w_select (world s)) \<and>
     trace s1 = trace s @
       map (EvSelect (cur_fd s + 1) (if c = READ_READY then {cur_fd s} else {})
              (if c = WRITE_READY then {cur_fd s} else {})
              (if c = EXCEPT_READY then {cur_fd s} else {}) (1, 0)) rs @ [EvGettimeofday] \<and>
     (\<forall>r \<in> set (butlast rs). sel_result r \<noteq> 1) \<and>
     (sel_result (last rs) = 1 \<or> gInterrupted s1) \<and>
     (sel_result (last rs) = 1 \<and> cur_fd s \<notin> watched c (last rs) \<longrightarrow>
        last (printed s1) =
          (Stderr, ''Error - Expected fd bit not set after select() returned 1.'', [])) \<and>
     (gInterrupted s1 \<longrightarrow> res = None \<and> s' = s1 \<and> api_calls s' = api_calls s) \<and>
     (\<not> gInterrupted s1 \<longrightarrow>
        sel_result (last rs) = 1 \<and> res = Some (api_result (shd (w_api (world s)))) \<and>
        trace s' = trace s1 @ [EvApi a (cur_fd s), EvGettimeofday] \<and>
        api_calls s' = api_calls s + 1)"
proof -
  from assms(2) obtain m where n: "n = Suc m" by (cases n) auto
  from assms obtain s0 where s0: "selectLoop n c s = Returns s0"
    unfolding n by (auto simp: preAPISetup_def selectPreAPISetup_def split: outcome.splits)
  define s1 where "s1 = doBlockingSetup s0"
  have pre: "preAPISetup n c s = Returns s1"
    using assms(1) s0 by (simp add: preAPISetup_def selectPreAPISetup_def s1_def)
  from selectLoop_returns [OF s0] obtain rs where rs:
    "rs \<noteq> []" "rs = stake (length rs) (w_select (world s))"
    "trace s0 = trace s @ map (select_event c (cur_fd s)) rs"
    "\<forall>r \<in> set (butlast rs). sel_result r \<noteq> 1"
    "sel_result (last rs) = 1 \<or> gInterrupted s0"
    "sel_result (last rs) = 1 \<and> cur_fd s \<notin> watched c (last rs) \<longrightarrow>
       last (printed s0) =
         (Stderr, ''Error - Expected fd bit not set after select() returned 1.'', [])"
    by blast
  from selectLoop_frame [OF s0] have fr:
    "model s0 = model s" "cur_fd s0 = cur_fd s" "w_api (world s0) = w_api (world s)"
    "api_calls s0 = api_calls s"
    by simp_all
  have loop: "apiLoop n c a s =
     (if gInterrupted s1 then Returns (None, s1)
      else Returns (Some (api_result (shd (w_api (world s1)))),
                    snd (selectPostAPISetup (api_result (shd (w_api (world s1))))
                           (snd (call_api a s1)))))"
    unfolding n using pre [unfolded n] assms(1) fr(1)
    by (simp add: postAPISetup_def case_prod_beta s1_def selectPostAPISetup_def)
  show ?thesis
  proof (intro exI [of _ rs] exI [of _ s1] conjI impI)
    show "preAPISetup n c s = Returns s1" by (rule pre)
    show "rs \<noteq> []" "rs = stake (length rs) (w_select (world s))"
      "\<forall>r \<in> set (butlast rs). sel_result r \<noteq> 1"
      using rs by simp_all
    show "trace s1 = trace s @
       map (EvSelect (cur_fd s + 1) (if c = READ_READY then {cur_fd s} else {})
              (if c = WRITE_READY then {cur_fd s} else {})
              (if c = EXCEPT_READY then {cur_fd s} else {}) (1, 0)) rs @ [EvGettimeofday]"
      using rs(3) by (simp add: s1_def select_event_unfold)
    show "sel_result (last rs) = 1 \<or> gInterrupted s1"
      using rs(5) by (simp add: s1_def)
    show "last (printed s1) =
          (Stderr, ''Error - Expected fd bit not set after select() returned 1.'', [])"
      if "sel_result (last rs) = 1 \<and> cur_fd s \<notin> watched c (last rs)"
      using rs(6) that by (simp add: s1_def)
    show "res = None" "s' = s1" "api_calls s' = api_calls s" if "gInterrupted s1"
    proof -
      from that assms(2) loop show "res = None" "s' = s1" by simp_all
      then show "api_calls s' = api_calls s" using fr(4) by (simp add: s1_def)
    qed
    show "sel_result (last rs) = 1" if "\<not> gInterrupted s1"
      using that rs(5) by (simp add: s1_def)
    show "res = Some (api_result (shd (w_api (world s))))"
         "trace s' = trace s1 @ [EvApi a (cur_fd s), EvGettimeofday]"
         "api_calls s' = api_calls s + 1"
      if "\<not> gInterrupted s1"
      using that assms(2) loop fr by (auto simp: s1_def selectPostAPISetup_def)
  qed
qed

text \<open>With one descriptor passed in one set, a \<open>select\<close> that keeps its contract and
  returns 1 has left exactly the bit of that descriptor set in that set.\<close>

lemma select_contract_one:
  assumes "select_contract (fd + 1) (if c = READ_READY then {fd} else {})
             (if c = WRITE_READY then {fd} else {})
             (if c = EXCEPT_READY then {fd} else {}) r"
    and "sel_result r = 1"
  shows "watched c r = {fd}"
proof -
  from assms have sub:
      "sel_read r \<subseteq> (if c = READ_READY then {fd} else {})"
      "sel_write r \<subseteq> (if c = WRITE_READY then {fd} else {})"
      "sel_except r \<subseteq> (if c = EXCEPT_READY then {fd} else {})"
    and cnt: "card (sel_read r) + card (sel_write r) + card (sel_except r) = 1"
    by (auto simp: select_contract_def split: if_splits)
  have one: "A = {fd}" if "A \<subseteq> {fd}" "card A = 1" for A :: "int set"
    using that by (auto simp: card_1_singleton_iff)
  show ?thesis
  proof (cases c)
    case READ_READY
    with sub have "sel_write r = {}" "sel_except r = {}" "sel_read r \<subseteq> {fd}" by auto
    with cnt READ_READY show ?thesis by (simp add: one)
  next
    case WRITE_READY
    with sub have "sel_read r = {}" "sel_except r = {}" "sel_write r \<subseteq> {fd}" by auto
    with cnt WRITE_READY show ?thesis by (simp add: one)
  next
    case EXCEPT_READY
    with sub have "sel_read r = {}" "sel_write r = {}" "sel_except r \<subseteq> {fd}" by auto
    with cnt EXCEPT_READY show ?thesis by (simp add: one)
  qed
qed

lemma last_stake_sset: "rs \<noteq> [] \<Longrightarrow> rs = stake (length rs) w \<Longrightarrow> last rs \<in> sset w"
proof -
  assume a: "rs \<noteq> []" "rs = stake (length rs) w"
  then have "last rs = rs ! (length rs - 1)" by (simp add: last_conv_nth)
  also have "\<dots> = stake (length rs) w ! (length rs - 1)" using a(2) by simp
  also have "\<dots> = w !! (length rs - 1)" using a(1) by simp
  finally show ?thesis by (simp add: snth_sset)
qed

text \<open>
  C3. In the Select model, with a \<open>select\<close> that keeps its contract, a pass of the retry
  loop that returns has made one or more waits, each a \<open>select\<close> on the current socket
  alone, set in the one bit set of the requested condition, with a timeout of one second
  (the answers are consumed in order), and none of the waits before the last returned 1.
  If the interrupt flag is set after \<open>prepare\<close> the loop returns that state and the
  operation has not been invoked. Otherwise the last wait returned 1 and left exactly the
  bit of the current socket set in the set of the requested condition, and the one
  invocation of the operation comes after it in the trace. The pass does return once a
  wait returns 1 or is interrupted.
\<close>

theorem select_strategy:
  assumes "model s = SELECT_MODEL"
    and "\<forall>r \<in> sset (w_select (world s)).
           select_contract (cur_fd s + 1) (if c = READ_READY then {cur_fd s} else {})
             (if c = WRITE_READY then {cur_fd s} else {})
             (if c = EXCEPT_READY then {cur_fd s} else {}) r"
  shows "(apiLoop n c a s = Returns (res, s') \<longrightarrow>
          (\<exists>rs s1.
             preAPISetup n c s = Returns s1 \<and>
             rs \<noteq> [] \<and> rs = stake (length rs) (w_select (world s)) \<and>
             trace s1 = trace s @
               map (EvSelect (cur_fd s + 1) (if c = READ_READY then {cur_fd s} else {})
                      (if c = WRITE_READY then {cur_fd s} else {})
                      (if c = EXCEPT_READY then {cur_fd s} else {}) (1, 0)) rs @
               [EvGettimeofday] \<and>
             (\<forall>r \<in> set (butlast rs). sel_result r \<noteq> 1) \<and>
             (gInterrupted s1 \<longrightarrow> res = None \<and> s' = s1 \<and> api_calls s' = api_calls s) \<and>
             (\<not> gInterrupted s1 \<longrightarrow>
                sel_result (last rs) = 1 \<and> watched c (last rs) = {cur_fd s} \<and>
                res = Some (api_result (shd (w_api (world s)))) \<and>
                trace s' = trace s1 @ [EvApi a (cur_fd s), EvGettimeofday] \<and>
                api_calls s' = api_calls s + 1))) \<and>
         (k < n \<and> (sel_result (w_select (world s) !! k) = 1 \<or>
                    \<not> quiet (sel_signals (w_select (world s) !! k))) \<longrightarrow>
          (\<exists>res s'. apiLoop n c a s = Returns (res, s')))"
proof (intro conjI impI)
  assume run: "apiLoop n c a s = Returns (res, s')"
  from select_iteration [OF assms(1) run] obtain rs s1 where *:
    "preAPISetup n c s = Returns s1"
    "rs \<noteq> []" "rs = stake (length rs) (w_select (world s))"
    "trace s1 = trace s @
       map (EvSelect (cur_fd s + 1) (if c = READ_READY then {cur_fd s} else {})
              (if c = WRITE_READY then {cur_fd s} else {})
              (if c = EXCEPT_READY then {cur_fd s} else {}) (1, 0)) rs @ [EvGettimeofday]"
    "\<forall>r \<in> set (butlast rs). sel_result r \<noteq> 1"
    "gInterrupted s1 \<longrightarrow> res = None \<and> s' = s1 \<and> api_calls s' = api_calls s"
    "\<not> gInterrupted s1 \<longrightarrow>
        sel_result (last rs) = 1 \<and> res = Some (api_result (shd (w_api (world s)))) \<and>
        trace s' = trace s1 @ [EvApi a (cur_fd s), EvGettimeofday] \<and>
        api_calls s' = api_calls s + 1"
    by blast
  from last_stake_sset [OF *(2,3)] assms(2)
  have "select_contract (cur_fd s + 1) (if c = READ_READY then {cur_fd s} else {})
             (if c = WRITE_READY then {cur_fd s} else {})
             (if c = EXCEPT_READY then {cur_fd s} else {}) (last rs)"
    by blast
  then have "sel_result (last rs) = 1 \<longrightarrow> watched c (last rs) = {cur_fd s}"
    using select_contract_one by blast
  with * show "\<exists>rs s1.
             preAPISetup n c s = Returns s1 \<and>
             rs \<noteq> [] \<and> rs = stake (length rs) (w_select (world s)) \<and>
             trace s1 = trace s @
               map (EvSelect (cur_fd s + 1) (if c = READ_READY then {cur_fd s} else {})
                      (if c = WRITE_READY then {cur_fd s} else {})
                      (if c = EXCEPT_READY then {cur_fd s} else {}) (1, 0)) rs @
               [EvGettimeofday] \<and>
             (\<forall>r \<in> set (butlast rs). sel_result r \<noteq> 1) \<and>
             (gInterrupted s1 \<longrightarrow> res = None \<and> s' = s1 \<and> api_calls s' = api_calls s) \<and>
             (\<not> gInterrupted s1 \<longrightarrow>
                sel_result (last rs) = 1 \<and> watched c (last rs) = {cur_fd s} \<and>
                res = Some (api_result (shd (w_api (world s)))) \<and>
                trace s' = trace s1 @ [EvApi a (cur_fd s), EvGettimeofday] \<and>
                api_calls s' = api_calls s + 1)"
    by (intro exI [of _ rs] exI [of _ s1]) blast
next
  assume k: "k < n \<and> (sel_result (w_select (world s) !! k) = 1 \<or>
                    \<not> quiet (sel_signals (w_select (world s) !! k)))"
  then obtain m where n: "n = Suc m" by (cases n) auto
  from selectLoop_ends [of k n s c] k obtain s0 where s0: "selectLoop n c s = Returns s0"
    by blast
  from selectLoop_frame [OF s0] have "model s0 = model s" by simp
  with assms(1) s0 [unfolded n] show "\<exists>res s'. apiLoop n c a s = Returns (res, s')"
    unfolding n
    by (simp add: preAPISetup_def selectPreAPISetup_def postAPISetup_def case_prod_beta
          selectPostAPISetup_def)
qed

text \<open>
  The same on a \<open>read\<close> from the socket in slot 0, descriptor 3, when \<open>select\<close> times out
  twice and then reports the descriptor readable: three waits, then the one call.
\<close>

theorem select_strategy_witness:
  "\<exists>rs s1 s'.
     apiLoop 3 READ_READY API_read ((one_socket ready_third)\<lparr>model := SELECT_MODEL\<rparr>) =
       Returns (Some 0, s') \<and>
     preAPISetup 3 READ_READY ((one_socket ready_third)\<lparr>model := SELECT_MODEL\<rparr>) = Returns s1 \<and>
     rs = [timed_out, timed_out, readable3] \<and>
     trace s1 = map (EvSelect 4 {3} {} {} (1, 0)) rs @ [EvGettimeofday] \<and>
     \<not> gInterrupted s1 \<and> sel_result (last rs) = 1 \<and> sel_read (last rs) = {3} \<and>
     trace s' = trace s1 @ [EvApi API_read 3, EvGettimeofday]"
proof -
  let ?s = "(one_socket ready_third)\<lparr>model := SELECT_MODEL\<rparr>"
  have m: "model ?s = SELECT_MODEL" by simp
  have fd: "cur_fd ?s = 3" by (simp add: cur_fd_def one_socket_def initial_def)
  have w: "w_select (world ?s) = timed_out ## timed_out ## sconst readable3"
    by (simp add: one_socket_def initial_def ready_third_def)
  have contract: "\<forall>r \<in> sset (w_select (world ?s)).
           select_contract (cur_fd ?s + 1) (if READ_READY = READ_READY then {cur_fd ?s} else {})
             (if READ_READY = WRITE_READY then {cur_fd ?s} else {})
             (if READ_READY = EXCEPT_READY then {cur_fd ?s} else {}) r"
    unfolding w fd by (simp add: select_contract_def timed_out_def readable3_def)
  let ?s' = "(one_socket ready_third)
         \<lparr>model := SELECT_MODEL,
          world := ready_third\<lparr>w_select := sconst readable3\<rparr>,
          trace := [EvSelect 4 {3} {} {} (1, 0) timed_out, EvSelect 4 {3} {} {} (1, 0) timed_out,
                    EvSelect 4 {3} {} {} (1, 0) readable3,
                    EvGettimeofday, EvApi API_read 3, EvGettimeofday]\<rparr>"
  have run: "apiLoop 3 READ_READY API_read ?s = Returns (Some 0, ?s')"
    by (simp add: preAPISetup_def postAPISetup_def selectPreAPISetup_def selectPostAPISetup_def
        select_call_def doBlockingSetup_def verifyBlocking_def gettimeofday_def call_api_def
        record_event_def fprintf_def delta_def BLOCK_THRESHOLD_def cur_fd_def Let_def
        one_socket_def initial_def ready_third_def calm_def timed_out_def readable3_def
        deliver_def numeral_3_eq_3)
  from select_strategy [OF m contract, of 3 API_read "Some 0" ?s'] run obtain rs s1 where *:
    "preAPISetup 3 READ_READY ?s = Returns s1"
    "rs \<noteq> []" "rs = stake (length rs) (w_select (world ?s))"
    "trace s1 = trace ?s @
       map (EvSelect (cur_fd ?s + 1) (if READ_READY = READ_READY then {cur_fd ?s} else {})
              (if READ_READY = WRITE_READY then {cur_fd ?s} else {})
              (if READ_READY = EXCEPT_READY then {cur_fd ?s} else {}) (1, 0)) rs @ [EvGettimeofday]"
    "\<forall>r \<in> set (butlast rs). sel_result r \<noteq> 1"
    "gInterrupted s1 \<longrightarrow> Some (0::int) = None \<and> ?s' = s1 \<and> api_calls ?s' = api_calls ?s"
    "\<not> gInterrupted s1 \<longrightarrow>
        sel_result (last rs) = 1 \<and> watched READ_READY (last rs) = {cur_fd ?s} \<and>
        Some (0::int) = Some (api_result (shd (w_api (world ?s)))) \<and>
        trace ?s' = trace s1 @ [EvApi API_read (cur_fd ?s), EvGettimeofday] \<and>
        api_calls ?s' = api_calls ?s + 1"
    by blast
  from *(6) have ni: "\<not> gInterrupted s1" by auto
  with *(7) have t: "trace ?s' = trace s1 @ [EvApi API_read (cur_fd ?s), EvGettimeofday]"
    and one: "sel_result (last rs) = 1" and bit: "watched READ_READY (last rs) = {cur_fd ?s}"
    by simp_all
  from t have ts1: "trace s1 = [EvSelect 4 {3} {} {} (1, 0) timed_out,
      EvSelect 4 {3} {} {} (1, 0) timed_out, EvSelect 4 {3} {} {} (1, 0) readable3, EvGettimeofday]"
    by simp
  from *(4) ts1 have mp: "map (EvSelect (cur_fd ?s + 1) {cur_fd ?s} {} {} (1, 0)) rs =
      [EvSelect 4 {3} {} {} (1, 0) timed_out, EvSelect 4 {3} {} {} (1, 0) timed_out,
       EvSelect 4 {3} {} {} (1, 0) readable3]"
    by (simp add: one_socket_def initial_def)
  have "length rs = length (map (EvSelect (cur_fd ?s + 1) {cur_fd ?s} {} {} (1, 0)) rs)"
    by simp
  also have "\<dots> = 3" unfolding mp by simp
  finally have "length rs = 3" .
  with *(3) have rs: "rs = [timed_out, timed_out, readable3]"
    unfolding w by (simp add: numeral_3_eq_3)
  have tr: "trace s1 = map (EvSelect 4 {3} {} {} (1, 0)) rs @ [EvGettimeofday]"
    unfolding rs ts1 by simp
  from bit fd have rd: "sel_read (last rs) = {3}" by simp
  from t fd have t': "trace ?s' = trace s1 @ [EvApi API_read 3, EvGettimeofday]"
    by simp
  from run *(1) rs tr ni one rd t' show ?thesis by blast
qed


section \<open>The Signal model\<close>


lemma signalWait_turn:
  obtains s2 where
    "signalWait (Suc n) s =
       (if \<not> sigioReceived s \<and> \<not> gInterrupted s then signalWait n s2 else Returns s)"
    "trace s2 = trace s @ [EvSleep 1]"
    "sigioReceived s2 =
       (sigioReceived s \<or>
        (SIGIO \<in> set (shd (w_sleep (world s))) \<and> sigio_handler s = H_activeSIGIOHandler))"
    "gInterrupted s2 = (gInterrupted s \<or> \<not> quiet (shd (w_sleep (world s))))"
    "model s2 = model s" "gVerbose s2 = gVerbose s" "gCurrent s2 = gCurrent s"
    "gSockfd s2 = gSockfd s" "gTokens s2 = gTokens s" "cur_fd s2 = cur_fd s"
    "sigio_handler s2 = sigio_handler s"
    "w_sleep (world s2) = stl (w_sleep (world s))"
    "w_api (world s2) = w_api (world s)" "w_select (world s2) = w_select (world s)"
    "w_clock (world s2) = w_clock (world s)" "w_sys (world s2) = w_sys (world s)"
    "w_signal (world s2) = w_signal (world s)"
    "api_calls s2 = api_calls s" "sleeps s2 = Suc (sleeps s)"
proof -
  define s2 where
    "s2 = (if gVerbose s then fprintf Stdout ''Tick.'' [] (sleep 1 s) else sleep 1 s)"
  show thesis
    by (rule that [of s2]) (simp_all add: s2_def Let_def)
qed

lemma signalWait_done [simp]:
  "sigioReceived s \<or> gInterrupted s \<Longrightarrow> signalWait n s = Returns s"
  by (cases n) auto


lemma signalWait_frame:
  "signalWait n s = Returns s' \<Longrightarrow>
     model s' = model s \<and> gVerbose s' = gVerbose s \<and> gCurrent s' = gCurrent s \<and>
     gSockfd s' = gSockfd s \<and> gTokens s' = gTokens s \<and> cur_fd s' = cur_fd s \<and>
     sigio_handler s' = sigio_handler s \<and>
     w_api (world s') = w_api (world s) \<and> w_select (world s') = w_select (world s) \<and>
     w_clock (world s') = w_clock (world s) \<and> w_sys (world s') = w_sys (world s) \<and>
     w_signal (world s') = w_signal (world s) \<and>
     api_calls s' = api_calls s \<and> (gInterrupted s \<longrightarrow> gInterrupted s')"
proof (induction n arbitrary: s)
  case 0
  then show ?case by (auto split: if_splits)
next
  case (Suc n)
  obtain s2 where s2:
    "signalWait (Suc n) s =
       (if \<not> sigioReceived s \<and> \<not> gInterrupted s then signalWait n s2 else Returns s)"
    "model s2 = model s" "gVerbose s2 = gVerbose s" "gCurrent s2 = gCurrent s"
    "gSockfd s2 = gSockfd s" "gTokens s2 = gTokens s" "cur_fd s2 = cur_fd s"
    "sigio_handler s2 = sigio_handler s"
    "w_api (world s2) = w_api (world s)" "w_select (world s2) = w_select (world s)"
    "w_clock (world s2) = w_clock (world s)" "w_sys (world s2) = w_sys (world s)"
    "w_signal (world s2) = w_signal (world s)"
    "api_calls s2 = api_calls s"
    by (rule signalWait_turn [of n s]) blast
  show ?case
  proof (cases "\<not> sigioReceived s \<and> \<not> gInterrupted s")
    case False
    with Suc.prems have "s' = s" by auto
    then show ?thesis by simp
  next
    case True
    with Suc.prems s2(1) have "signalWait n s2 = Returns s'" by simp
    from Suc.IH [OF this] s2(2-) True show ?thesis by simp
  qed
qed



lemma signalPreAPISetup_read:
  assumes "c \<noteq> WRITE_READY"
  shows "signalPreAPISetup n c s =
     (let s1 = snd (signal_SIGIO H_activeSIGIOHandler s);
          s2 = snd (syscall (EvFcntl (cur_fd s) F_SETOWN (w_pid (world s))) s1);
          s4 = setFctlFlag O_ASYNC (s2\<lparr>sigioReceived := False\<rparr>)
      in if shd (w_signal (world s))
         then Returns (fprintf Stderr ''Error - signal() returned SIG_ERR.'' [] s1)
         else if fst (shd (w_sys (world s))) < 0
         then Returns (fprintf Stderr ''Error on F_SETOWN - %s.'' [E (errno s2)] s2)
         else (case signalWait n s4 of
                 Returns s5 \<Rightarrow> Returns (doBlockingSetup s5)
               | Undefined f \<Rightarrow> Undefined f
               | OutOfFuel \<Rightarrow> OutOfFuel))"
  using assms by (simp add: signalPreAPISetup_def Let_def case_prod_beta)





section \<open>The interrupt flag and the retry loop\<close>

lemma signalPreAPISetup_frame:
  assumes "signalPreAPISetup n c s = Returns s1"
  shows "model s1 = model s \<and> gVerbose s1 = gVerbose s \<and> gCurrent s1 = gCurrent s \<and>
     gSockfd s1 = gSockfd s \<and> gTokens s1 = gTokens s \<and> cur_fd s1 = cur_fd s \<and>
     w_api (world s1) = w_api (world s) \<and>
     api_calls s1 = api_calls s \<and> (gInterrupted s \<longrightarrow> gInterrupted s1)"
proof (cases "c = WRITE_READY")
  case True
  with assms show ?thesis by (auto simp: signalPreAPISetup_def)
next
  case False
  define s4 where "s4 = setFctlFlag O_ASYNC
      ((snd (syscall (EvFcntl (cur_fd s) F_SETOWN (w_pid (world s)))
              (snd (signal_SIGIO H_activeSIGIOHandler s))))\<lparr>sigioReceived := False\<rparr>)"
  have s4: "model s4 = model s" "gVerbose s4 = gVerbose s" "gCurrent s4 = gCurrent s"
     "gSockfd s4 = gSockfd s" "gTokens s4 = gTokens s" "cur_fd s4 = cur_fd s"
     "w_api (world s4) = w_api (world s)"
     "api_calls s4 = api_calls s" "gInterrupted s4 = gInterrupted s"
    by (simp_all add: s4_def)
  consider (sig) "shd (w_signal (world s))"
    | (own) "\<not> shd (w_signal (world s))" "fst (shd (w_sys (world s))) < 0"
    | (wait) "\<not> shd (w_signal (world s))" "\<not> fst (shd (w_sys (world s))) < 0"
    by blast
  then show ?thesis
  proof cases
    case sig
    with assms False show ?thesis by (auto simp: signalPreAPISetup_read Let_def)
  next
    case own
    with assms False show ?thesis by (auto simp: signalPreAPISetup_read Let_def)
  next
    case wait
    with assms False obtain s5 where s5: "signalWait n s4 = Returns s5"
      and s1: "s1 = doBlockingSetup s5"
      by (auto simp: signalPreAPISetup_read Let_def s4_def split: outcome.splits)
    from signalWait_frame [OF s5] s4 show ?thesis by (simp add: s1)
  qed
qed

lemma preAPISetup_frame:
  assumes "preAPISetup n c s = Returns s1"
  shows "model s1 = model s \<and> gVerbose s1 = gVerbose s \<and> gCurrent s1 = gCurrent s \<and>
     gSockfd s1 = gSockfd s \<and> gTokens s1 = gTokens s \<and> cur_fd s1 = cur_fd s \<and>
     w_api (world s1) = w_api (world s) \<and>
     api_calls s1 = api_calls s \<and> (gInterrupted s \<longrightarrow> gInterrupted s1)"
proof (cases "model s")
  case BLOCKING_MODEL
  with assms show ?thesis by (auto simp: preAPISetup_def)
next
  case NONBLOCKING_MODEL
  with assms show ?thesis by (auto simp: preAPISetup_def)
next
  case SELECT_MODEL
  with assms obtain s0 where s0: "selectLoop n c s = Returns s0" and s1: "s1 = doBlockingSetup s0"
    by (auto simp: preAPISetup_def selectPreAPISetup_def split: outcome.splits)
  from selectLoop_frame [OF s0] show ?thesis by (simp add: s1)
next
  case SIGNAL_MODEL
  with assms have "signalPreAPISetup n c s = Returns s1" by (simp add: preAPISetup_def)
  then show ?thesis by (rule signalPreAPISetup_frame)
qed

lemma preAPISetup_interrupted:
  assumes "gInterrupted s"
  shows "\<exists>s1. preAPISetup (Suc n) c s = Returns s1"
proof (cases "model s")
  case BLOCKING_MODEL
  then show ?thesis by (simp add: preAPISetup_def)
next
  case NONBLOCKING_MODEL
  then show ?thesis by (simp add: preAPISetup_def)
next
  case SELECT_MODEL
  obtain s2 where
    "selectLoop (Suc n) c s =
       (if sel_result (shd (w_select (world s))) \<noteq> 1 \<and> \<not> gInterrupted s2
        then selectLoop n c s2 else Returns s2)"
    "gInterrupted s2 = (gInterrupted s \<or> \<not> quiet (sel_signals (shd (w_select (world s)))))"
    by (rule selectLoop_turn [of n c s]) blast
  with assms have "selectLoop (Suc n) c s = Returns s2" by simp
  with SELECT_MODEL show ?thesis by (simp add: preAPISetup_def selectPreAPISetup_def)
next
  case SIGNAL_MODEL
  show ?thesis
  proof (cases "c = WRITE_READY")
    case True
    with SIGNAL_MODEL show ?thesis by (simp add: preAPISetup_def signalPreAPISetup_def)
  next
    case False
    with SIGNAL_MODEL assms show ?thesis
      by (simp add: preAPISetup_def signalPreAPISetup_read Let_def)
  qed
qed

lemma postAPISetup_frame:
  assumes "postAPISetup r s = Returns (d, s3)"
  shows "model s3 = model s \<and> gVerbose s3 = gVerbose s \<and> gCurrent s3 = gCurrent s \<and>
     gSockfd s3 = gSockfd s \<and> gTokens s3 = gTokens s \<and> cur_fd s3 = cur_fd s \<and>
     api_calls s3 = api_calls s"
proof (cases "model s")
  case BLOCKING_MODEL
  with assms have "s3 = snd (blockingPostAPISetup r s)" by (simp add: postAPISetup_def)
  then show ?thesis by (simp add: blockingPostAPISetup_def)
next
  case NONBLOCKING_MODEL
  with assms have "s3 = snd (nonblockingPostAPISetup r s)" by (simp add: postAPISetup_def)
  then show ?thesis by simp
next
  case SELECT_MODEL
  with assms have "s3 = snd (selectPostAPISetup r s)" by (simp add: postAPISetup_def)
  then show ?thesis by (simp add: selectPostAPISetup_def)
next
  case SIGNAL_MODEL
  with assms have "s3 = clearFctlFlag O_ASYNC
                          (snd (signal_SIGIO H_defaultSIGIOHandler (verifyBlocking False s)))"
    by (simp add: postAPISetup_def signalPostAPISetup_def Let_def case_prod_beta split: if_splits)
  then show ?thesis by simp
qed

lemma apiLoop_Suc:
  "apiLoop (Suc n) c a s =
     (case preAPISetup (Suc n) c s of
        Undefined f \<Rightarrow> Undefined f
      | OutOfFuel \<Rightarrow> OutOfFuel
      | Returns s1 \<Rightarrow>
          if gInterrupted s1 then Returns (None, s1)
          else
            (case postAPISetup (api_result (shd (w_api (world s1)))) (snd (call_api a s1)) of
               Undefined f \<Rightarrow> Undefined f
             | OutOfFuel \<Rightarrow> OutOfFuel
             | Returns (done, s3) \<Rightarrow>
                 if \<not> done then apiLoop n c a s3
                 else Returns (Some (api_result (shd (w_api (world s1)))), s3)))"
  by (simp add: case_prod_beta split: outcome.splits)

lemma apiLoop_frame:
  "apiLoop n c a s = Returns (res, s') \<Longrightarrow>
     model s' = model s \<and> gVerbose s' = gVerbose s \<and> gCurrent s' = gCurrent s \<and>
     gSockfd s' = gSockfd s \<and> gTokens s' = gTokens s \<and> cur_fd s' = cur_fd s"
proof (induction n arbitrary: s)
  case 0
  then show ?case by simp
next
  case (Suc n)
  from Suc.prems obtain s1 where pre: "preAPISetup (Suc n) c s = Returns s1"
    by (auto simp: apiLoop_Suc simp del: apiLoop.simps split: outcome.splits)
  note f1 = preAPISetup_frame [OF pre]
  show ?case
  proof (cases "gInterrupted s1")
    case True
    with Suc.prems pre have "s' = s1" by (simp add: apiLoop_Suc del: apiLoop.simps)
    with f1 show ?thesis by simp
  next
    case False
    let ?s2 = "snd (call_api a s1)"
    from Suc.prems pre False obtain d s3 where
      post: "postAPISetup (api_result (shd (w_api (world s1)))) ?s2 = Returns (d, s3)"
      by (auto simp: apiLoop_Suc simp del: apiLoop.simps split: outcome.splits)
    note f3 = postAPISetup_frame [OF post]
    show ?thesis
    proof (cases d)
      case True
      with Suc.prems pre False post have "s' = s3"
        by (simp add: apiLoop_Suc del: apiLoop.simps)
      with f1 f3 show ?thesis by simp
    next
      case False
      with Suc.prems pre \<open>\<not> gInterrupted s1\<close> post have "apiLoop n c a s3 = Returns (res, s')"
        by (simp add: apiLoop_Suc del: apiLoop.simps)
      from Suc.IH [OF this] f1 f3 show ?thesis by simp
    qed
  qed
qed

lemma apiLoop_interrupted:
  assumes "preAPISetup (Suc n) c s = Returns s1" "gInterrupted s1"
  shows "apiLoop (Suc n) c a s = Returns (None, s1)" "api_calls s1 = api_calls s"
  using assms preAPISetup_frame [OF assms(1)]
  by (simp_all add: apiLoop_Suc del: apiLoop.simps)

lemma apiLoop_entered_interrupted:
  assumes "gInterrupted s"
  shows "\<exists>s'. apiLoop (Suc n) c a s = Returns (None, s') \<and> gInterrupted s' \<and>
              api_calls s' = api_calls s"
proof -
  from preAPISetup_interrupted [OF assms] obtain s1 where
    pre: "preAPISetup (Suc n) c s = Returns s1" by blast
  from preAPISetup_frame [OF pre] assms have i: "gInterrupted s1" by simp
  from apiLoop_interrupted [OF pre i] i show ?thesis by blast
qed


lemma setIntegerArgument_fields [simp]:
  "gInterrupted (snd (setIntegerArgument p s)) = gInterrupted s"
  "api_calls (snd (setIntegerArgument p s)) = api_calls s"
  "gCurrent (snd (setIntegerArgument p s)) = gCurrent s"
  "gSockfd (snd (setIntegerArgument p s)) = gSockfd s"
  "gTokens (snd (setIntegerArgument p s)) = gTokens s"
  "world (snd (setIntegerArgument p s)) = world s"
  "trace (snd (setIntegerArgument p s)) = trace s"
  "cur_fd (snd (setIntegerArgument p s)) = cur_fd s"
  "fst (setIntegerArgument p s) = w_scan (world s) p"
  by (simp_all add: setIntegerArgument_def split: option.splits)

lemma findFreeSocketSlot_fields [simp]:
  "gInterrupted (snd (findFreeSocketSlot s)) = gInterrupted s"
  "api_calls (snd (findFreeSocketSlot s)) = api_calls s"
  "gCurrent (snd (findFreeSocketSlot s)) = gCurrent s"
  "gSockfd (snd (findFreeSocketSlot s)) = gSockfd s"
  "gTokens (snd (findFreeSocketSlot s)) = gTokens s"
  "world (snd (findFreeSocketSlot s)) = world s"
  "trace (snd (findFreeSocketSlot s)) = trace s"
  "cur_fd (snd (findFreeSocketSlot s)) = cur_fd s"
  by (simp_all add: findFreeSocketSlot_def Let_def)

lemma usage_fields [simp]:
  "gInterrupted (usage cmd s) = gInterrupted s"
  "api_calls (usage cmd s) = api_calls s"
  "gCurrent (usage cmd s) = gCurrent s"
  "gSockfd (usage cmd s) = gSockfd s"
  "world (usage cmd s) = world s"
  "trace (usage cmd s) = trace s"
  "cur_fd (usage cmd s) = cur_fd s"
  by (simp_all add: usage_def)

lemma loop_handlers_interrupted:
  assumes "gInterrupted s"
  shows "\<exists>s'. doConnect (Suc n) s = Returns s' \<and> api_calls s' = api_calls s"
    and "\<exists>s'. doAccept (Suc n) s = Returns s' \<and> api_calls s' = api_calls s"
    and "\<exists>s'. doRecvmsg (Suc n) s = Returns s' \<and> api_calls s' = api_calls s"
    and "\<exists>s'. doSendmsg (Suc n) s = Returns s' \<and> api_calls s' = api_calls s"
    and "\<exists>s'. doRead (Suc n) s = Returns s' \<and> api_calls s' = api_calls s"
    and "\<exists>s'. doWrite (Suc n) s = Returns s' \<and> api_calls s' = api_calls s"
proof -
  have loop: "\<exists>s'. apiLoop (Suc n) c a t = Returns (None, s') \<and> api_calls s' = api_calls t"
    if "gInterrupted t" for c a t
    using apiLoop_entered_interrupted [OF that] by blast
  from loop [OF assms, of READ_READY API_read] obtain s' where
    "apiLoop (Suc n) READ_READY API_read s = Returns (None, s')" "api_calls s' = api_calls s"
    by blast
  then show "\<exists>s'. doRead (Suc n) s = Returns s' \<and> api_calls s' = api_calls s"
    by (simp add: doRead_def del: apiLoop.simps)
  from loop [OF assms, of WRITE_READY API_write] obtain s' where
    "apiLoop (Suc n) WRITE_READY API_write s = Returns (None, s')" "api_calls s' = api_calls s"
    by blast
  then show "\<exists>s'. doWrite (Suc n) s = Returns s' \<and> api_calls s' = api_calls s"
    by (simp add: doWrite_def del: apiLoop.simps)
  from loop [OF assms, of READ_READY API_recvmsg] obtain s' where
    "apiLoop (Suc n) READ_READY API_recvmsg s = Returns (None, s')" "api_calls s' = api_calls s"
    by blast
  then show "\<exists>s'. doRecvmsg (Suc n) s = Returns s' \<and> api_calls s' = api_calls s"
    by (simp add: doRecvmsg_def del: apiLoop.simps split: optparse.splits)
  from loop [OF assms, of WRITE_READY API_sendmsg] obtain s' where
    "apiLoop (Suc n) WRITE_READY API_sendmsg s = Returns (None, s')" "api_calls s' = api_calls s"
    by blast
  then show "\<exists>s'. doSendmsg (Suc n) s = Returns s' \<and> api_calls s' = api_calls s"
    by (simp add: doSendmsg_def del: apiLoop.simps split: optparse.splits)
  let ?t = "snd (findFreeSocketSlot s)"
  have "gInterrupted ?t" using assms by simp
  from loop [OF this, of READ_READY API_accept] obtain s' where
    "apiLoop (Suc n) READ_READY API_accept ?t = Returns (None, s')" "api_calls s' = api_calls s"
    by auto
  then show "\<exists>s'. doAccept (Suc n) s = Returns s' \<and> api_calls s' = api_calls s"
    by (simp add: doAccept_def case_prod_beta del: apiLoop.simps)
  let ?u = "snd (setIntegerArgument (gTokens s ! 1) s)"
  have "gInterrupted ?u" using assms by simp
  from loop [OF this, of READ_READY API_connect] obtain s' where
    "apiLoop (Suc n) READ_READY API_connect ?u = Returns (None, s')" "api_calls s' = api_calls s"
    by auto
  then show "\<exists>s'. doConnect (Suc n) s = Returns s' \<and> api_calls s' = api_calls s"
    by (simp add: doConnect_def case_prod_beta Let_def del: apiLoop.simps split: option.splits)
qed


lemma main_step_dispatch:
  assumes "length tokens < MAXTOKENS" "map_of gCommands (hd tokens) = Some cmd"
  shows "main_step n tokens s = dispatch n cmd (s\<lparr>gTokens := tokens, gInterrupted := False\<rparr>)"
  using assms by (simp add: main_step_def Let_def)

text \<open>
  C8. When the interrupt flag is set as the retry loop is entered or entered again, and
  when it is set after \<open>prepare\<close> (it can only have been set during a wait inside
  \<open>prepare\<close>), the loop returns without a further invocation of the operation, in every
  model and for every condition and operation. So it is for each of the six handlers
  that contain the loop. The command loop clears the flag before it runs a handler: the
  handler starts from the state with the flag clear, whatever the flag was.
\<close>

theorem interrupt_stops_retry:
  "(gInterrupted s \<longrightarrow>
      (\<exists>s'. apiLoop (Suc n) c a s = Returns (None, s') \<and> gInterrupted s' \<and>
            api_calls s' = api_calls s)) \<and>
   (\<forall>s1. preAPISetup (Suc n) c s = Returns s1 \<and> gInterrupted s1 \<longrightarrow>
      apiLoop (Suc n) c a s = Returns (None, s1) \<and> api_calls s1 = api_calls s) \<and>
   (gInterrupted s \<longrightarrow>
      (\<exists>s'. doConnect (Suc n) s = Returns s' \<and> api_calls s' = api_calls s) \<and>
      (\<exists>s'. doAccept (Suc n) s = Returns s' \<and> api_calls s' = api_calls s) \<and>
      (\<exists>s'. doRecvmsg (Suc n) s = Returns s' \<and> api_calls s' = api_calls s) \<and>
      (\<exists>s'. doSendmsg (Suc n) s = Returns s' \<and> api_calls s' = api_calls s) \<and>
      (\<exists>s'. doRead (Suc n) s = Returns s' \<and> api_calls s' = api_calls s) \<and>
      (\<exists>s'. doWrite (Suc n) s = Returns s' \<and> api_calls s' = api_calls s)) \<and>
   (\<forall>cmd. length tokens < MAXTOKENS \<and> map_of gCommands (hd tokens) = Some cmd \<longrightarrow>
      main_step n tokens s = dispatch n cmd (s\<lparr>gTokens := tokens, gInterrupted := False\<rparr>) \<and>
      main_step n tokens (s\<lparr>gInterrupted := True\<rparr>) = main_step n tokens s)"
proof (intro conjI impI allI)
  assume "gInterrupted s"
  then show "\<exists>s'. apiLoop (Suc n) c a s = Returns (None, s') \<and> gInterrupted s' \<and>
            api_calls s' = api_calls s"
    by (rule apiLoop_entered_interrupted)
next
  fix s1 assume "preAPISetup (Suc n) c s = Returns s1 \<and> gInterrupted s1"
  then show "apiLoop (Suc n) c a s = Returns (None, s1)" "api_calls s1 = api_calls s"
    using apiLoop_interrupted by blast+
next
  fix cmd assume "length tokens < MAXTOKENS \<and> map_of gCommands (hd tokens) = Some cmd"
  then show "main_step n tokens s = dispatch n cmd (s\<lparr>gTokens := tokens, gInterrupted := False\<rparr>)"
    "main_step n tokens (s\<lparr>gInterrupted := True\<rparr>) = main_step n tokens s"
    by (simp_all add: main_step_dispatch)
qed (simp_all add: loop_handlers_interrupted)

text \<open>
  A loop entered with the flag set; an interrupt that arrives during \<open>select\<close>; a
  handler; the command loop.
\<close>

theorem interrupt_stops_retry_witness:
  "(\<exists>s'. apiLoop 1 READ_READY API_connect ((one_socket calm)\<lparr>gInterrupted := True\<rparr>)
           = Returns (None, s') \<and> api_calls s' = 0) \<and>
   (\<exists>s1. apiLoop 1 READ_READY API_read ((one_socket interrupt_in_select)\<lparr>model := SELECT_MODEL\<rparr>)
           = Returns (None, s1) \<and> gInterrupted s1 \<and> api_calls s1 = 0) \<and>
   (\<exists>s'. doRead 1 ((one_socket calm)\<lparr>gInterrupted := True\<rparr>) = Returns s' \<and> api_calls s' = 0) \<and>
   main_step 0 [''read''] ((one_socket calm)\<lparr>gInterrupted := True\<rparr>)
     = main_step 0 [''read''] (one_socket calm)"
proof -
  let ?i = "(one_socket calm)\<lparr>gInterrupted := True\<rparr>"
  let ?s = "(one_socket interrupt_in_select)\<lparr>model := SELECT_MODEL\<rparr>"
  let ?s1 = "(one_socket interrupt_in_select)
       \<lparr>model := SELECT_MODEL, gInterrupted := True,
        trace := [EvSelect 4 {3} {} {} (1, 0) (shd (w_select interrupt_in_select)), EvGettimeofday],
        printed := [(Stdout, ''User interrupt received.'', [])]\<rparr>"
  have i: "gInterrupted ?i" "api_calls ?i = 0" "api_calls ?s = 0"
    by (simp_all add: api_calls_def one_socket_def initial_def)
  have pre: "preAPISetup (Suc 0) READ_READY ?s = Returns ?s1 \<and> gInterrupted ?s1"
    by (simp add: preAPISetup_def selectPreAPISetup_def select_call_def doBlockingSetup_def
          gettimeofday_def record_event_def fprintf_def interruptSignalHandler_def cur_fd_def
          Let_def one_socket_def initial_def interrupt_in_select_def calm_def)
  have cmd: "length [''read''] < MAXTOKENS \<and> map_of gCommands (hd [''read'']) = Some CMD_READ"
    by (simp add: MAXTOKENS_def gCommands_def)
  note thm_i = interrupt_stops_retry [of ?i 0 READ_READY API_connect "[''read'']"]
  note thm_s = interrupt_stops_retry [of ?s 0 READ_READY API_read "[''read'']"]
  note thm_c = interrupt_stops_retry [of "one_socket calm" 0 READ_READY API_read "[''read'']"]
  from thm_i [THEN conjunct1, rule_format, OF i(1)] i(2)
  have a: "\<exists>s'. apiLoop 1 READ_READY API_connect ?i = Returns (None, s') \<and> api_calls s' = 0"
    by auto
  from thm_s [THEN conjunct2, THEN conjunct1, rule_format, OF pre] pre i(3)
  have b: "\<exists>s1. apiLoop 1 READ_READY API_read ?s = Returns (None, s1) \<and> gInterrupted s1 \<and>
                api_calls s1 = 0"
    by (intro exI [of _ ?s1]) simp
  from thm_i [THEN conjunct2, THEN conjunct2, THEN conjunct1, rule_format, OF i(1)] i(2)
  have c: "\<exists>s'. doRead 1 ?i = Returns s' \<and> api_calls s' = 0"
    by auto
  from thm_c [THEN conjunct2, THEN conjunct2, THEN conjunct2, rule_format, OF cmd]
  have d: "main_step 0 [''read''] ?i = main_step 0 [''read''] (one_socket calm)"
    by simp
  from a b c d show ?thesis by blast
qed

section \<open>The current selection\<close>

lemma api_error_fields [simp]:
  "gCurrent (api_error r s) = gCurrent s"
  "gSockfd (api_error r s) = gSockfd s"
  "trace (api_error r s) = trace s"
  "world (api_error r s) = world s"
  "cur_fd (api_error r s) = cur_fd s"
  by (simp_all add: api_error_def)

lemma checked_call_fields [simp]:
  "gCurrent (snd (checked_call name s)) = gCurrent s"
  "gSockfd (snd (checked_call name s)) = gSockfd s"
  by (simp_all add: checked_call_def case_prod_beta)

lemma address_error_fields [simp]:
  "gCurrent (address_error s) = gCurrent s"
  "gSockfd (address_error s) = gSockfd s"
  by (simp_all add: address_error_def)

lemma getNamedValue_fields [simp]:
  "gCurrent (snd (snd (getNamedValue tok names s))) = gCurrent s"
  "gSockfd (snd (snd (getNamedValue tok names s))) = gSockfd s"
  by (simp_all add: getNamedValue_def Let_def split: option.splits)

lemma report_written_fields [simp]:
  "gCurrent (report_written r s) = gCurrent s"
  "gSockfd (report_written r s) = gSockfd s"
  by (simp_all add: report_written_def)

lemma passive_handlers:
  "gCurrent (doHelp s) = gCurrent s \<and> gSockfd (doHelp s) = gSockfd s"
  "gCurrent (doModel s) = gCurrent s \<and> gSockfd (doModel s) = gSockfd s"
  "gCurrent (doBind s) = gCurrent s \<and> gSockfd (doBind s) = gSockfd s"
  "gCurrent (doListen s) = gCurrent s \<and> gSockfd (doListen s) = gSockfd s"
  "gCurrent (doSetsockopt s) = gCurrent s \<and> gSockfd (doSetsockopt s) = gSockfd s"
  "gCurrent (doGetsockopt s) = gCurrent s \<and> gSockfd (doGetsockopt s) = gSockfd s"
  "gCurrent (doMultijoin s) = gCurrent s \<and> gSockfd (doMultijoin s) = gSockfd s"
  "gCurrent (doMultileave s) = gCurrent s \<and> gSockfd (doMultileave s) = gSockfd s"
  "gCurrent (doShutdown s) = gCurrent s \<and> gSockfd (doShutdown s) = gSockfd s"
  "gCurrent (doGetsockname s) = gCurrent s \<and> gSockfd (doGetsockname s) = gSockfd s"
  "gCurrent (doGetpeername s) = gCurrent s \<and> gSockfd (doGetpeername s) = gSockfd s"
  by (simp_all add: doHelp_def doModel_def doBind_def doListen_def doSetsockopt_def
        doGetsockopt_def doMultijoin_def doMultileave_def doMulti_def doShutdown_def
        doGetsockname_def doGetpeername_def doGetname_def Let_def case_prod_beta
        split: option.splits)


lemma loop_handlers_registry:
  "doConnect n s = Returns s' \<Longrightarrow> gCurrent s' = gCurrent s \<and> gSockfd s' = gSockfd s"
  "doRecvmsg n s = Returns s' \<Longrightarrow> gCurrent s' = gCurrent s \<and> gSockfd s' = gSockfd s"
  "doSendmsg n s = Returns s' \<Longrightarrow> gCurrent s' = gCurrent s \<and> gSockfd s' = gSockfd s"
  "doRead n s = Returns s' \<Longrightarrow> gCurrent s' = gCurrent s \<and> gSockfd s' = gSockfd s"
  "doWrite n s = Returns s' \<Longrightarrow> gCurrent s' = gCurrent s \<and> gSockfd s' = gSockfd s"
proof -
  have loop: "gCurrent t' = gCurrent t \<and> gSockfd t' = gSockfd t"
    if "apiLoop n c a t = Returns (res, t')" for c a t res t'
    using apiLoop_frame [OF that] by simp
  show "gCurrent s' = gCurrent s \<and> gSockfd s' = gSockfd s" if "doRead n s = Returns s'"
    using that
    by (auto simp: doRead_def Let_def split: outcome.splits option.splits if_splits dest!: loop)
  show "gCurrent s' = gCurrent s \<and> gSockfd s' = gSockfd s" if "doWrite n s = Returns s'"
    using that
    by (auto simp: doWrite_def split: outcome.splits option.splits dest!: loop)
  show "gCurrent s' = gCurrent s \<and> gSockfd s' = gSockfd s" if "doSendmsg n s = Returns s'"
    using that
    by (auto simp: doSendmsg_def usage_def split: outcome.splits option.splits optparse.splits
          dest!: loop)
  show "gCurrent s' = gCurrent s \<and> gSockfd s' = gSockfd s" if "doRecvmsg n s = Returns s'"
    using that
    by (auto simp: doRecvmsg_def usage_def Let_def case_prod_beta
          split: outcome.splits option.splits optparse.splits if_splits dest!: loop)
  show "gCurrent s' = gCurrent s \<and> gSockfd s' = gSockfd s" if "doConnect n s = Returns s'"
  proof -
    let ?u = "snd (setIntegerArgument (gTokens s ! 1) s)"
    have u: "gCurrent ?u = gCurrent s" "gSockfd ?u = gSockfd s" by simp_all
    from that show ?thesis
      by (auto simp: doConnect_def usage_def Let_def case_prod_beta u
            split: outcome.splits option.splits if_splits dest!: loop)
  qed
qed

lemma findFreeSocketSlot_range:
  "fst (findFreeSocketSlot s) = - 1 \<or>
   (0 \<le> fst (findFreeSocketSlot s) \<and> fst (findFreeSocketSlot s) < int MAXSOCKETS)"
  by (simp add: findFreeSocketSlot_def Let_def)

lemma doAccept_registry:
  assumes "wf_state s" "doAccept n s = Returns s'"
  shows "wf_state s' \<and>
         (gCurrent s' \<noteq> gCurrent s \<or> gSockfd s' \<noteq> gSockfd s \<longrightarrow>
            0 \<le> cur_fd s' \<and> cur_fd s' \<noteq> UNUSED_FD)"
proof -
  let ?k = "fst (findFreeSocketSlot s)"
  let ?t = "snd (findFreeSocketSlot s)"
  show ?thesis
  proof (cases "?k < 0")
    case True
    with assms show ?thesis by (auto simp: doAccept_def case_prod_beta wf_state_def)
  next
    case False
    with findFreeSocketSlot_range [of s] have k: "0 \<le> ?k" "?k < int MAXSOCKETS" by auto
    from assms(2) False obtain res t' where
      loop: "apiLoop n READ_READY API_accept ?t = Returns (res, t')"
      by (auto simp: doAccept_def case_prod_beta split: outcome.splits)
    from apiLoop_frame [OF loop] have fr: "gCurrent t' = gCurrent s" "gSockfd t' = gSockfd s"
      by simp_all
    show ?thesis
    proof (cases res)
      case None
      with assms loop False fr show ?thesis
        by (auto simp: doAccept_def case_prod_beta wf_state_def)
    next
      case (Some r)
      show ?thesis
      proof (cases "r < 0")
        case True
        with assms loop False fr Some show ?thesis
          by (auto simp: doAccept_def case_prod_beta wf_state_def)
      next
        case nonneg: False
        with assms(2) loop \<open>\<not> ?k < 0\<close> Some
        have s': "s' = t'\<lparr>gSockfd := (gSockfd t')[nat ?k := r], gCurrent := ?k\<rparr>"
          by (simp add: doAccept_def case_prod_beta)
        have "nat ?k < length (gSockfd s)" using k assms(1) by (auto simp: wf_state_def)
        then have "cur_fd s' = r" by (simp add: s' cur_fd_def fr)
        moreover have "wf_state s'" using assms(1) k by (simp add: s' wf_state_def fr)
        ultimately show ?thesis using nonneg by (simp add: UNUSED_FD_def)
      qed
    qed
  qed
qed

lemma doSocket_registry:
  assumes "wf_state s"
  shows "wf_state (doSocket s) \<and>
         (trace (doSocket s) \<noteq> trace s \<longrightarrow> cur_fd (doSocket s) = fst (shd (w_sys (world s))))"
proof -
  let ?k = "fst (findFreeSocketSlot s)"
  let ?t = "snd (findFreeSocketSlot s)"
  show ?thesis
  proof (cases "w_getopt (world s) (gTokens s) = OptOk \<and> \<not> ?k < 0")
    case False
    with assms show ?thesis
      by (auto simp: doSocket_def usage_def case_prod_beta wf_state_def split: optparse.splits)
  next
    case True
    with findFreeSocketSlot_range [of s] have k: "0 \<le> ?k" "?k < int MAXSOCKETS" by auto
    then have "nat ?k < length (gSockfd s)" using assms by (auto simp: wf_state_def)
    with True k assms show ?thesis
      by (simp add: doSocket_def case_prod_beta Let_def wf_state_def cur_fd_def)
  qed
qed

lemma doUse_registry:
  assumes "wf_state s" "doUse s = Returns s'"
  shows "wf_state s' \<and> gSockfd s' = gSockfd s \<and>
         (gCurrent s' \<noteq> gCurrent s \<longrightarrow> cur_fd s' \<noteq> UNUSED_FD)"
  using assms
  by (auto simp: doUse_def usage_def wf_state_def cur_fd_def case_prod_beta Let_def
        split: if_splits option.splits)

lemma doClose_registry:
  assumes "wf_state s"
  shows "wf_state (doClose s) \<and> gCurrent (doClose s) = gCurrent s"
  using assms by (simp add: doClose_cases wf_state_def)


lemma wf_state_cong:
  "gCurrent s' = gCurrent s \<Longrightarrow> gSockfd s' = gSockfd s \<Longrightarrow> wf_state s' = wf_state s"
  by (simp add: wf_state_def)

lemma dispatch_registry:
  assumes wf: "wf_state s" and run: "dispatch n cmd s = Returns (d, s')"
  shows "wf_state s' \<and>
     (cmd \<noteq> CMD_SOCKET \<and> cmd \<noteq> CMD_ACCEPT \<and> cmd \<noteq> CMD_USE \<longrightarrow> gCurrent s' = gCurrent s) \<and>
     (cmd \<noteq> CMD_SOCKET \<and> gCurrent s' \<noteq> gCurrent s \<longrightarrow> cur_fd s' \<noteq> UNUSED_FD) \<and>
     (cmd = CMD_SOCKET \<and> trace s' \<noteq> trace s \<longrightarrow> cur_fd s' = fst (shd (w_sys (world s))))"
proof -
  have unchanged: ?thesis
    if "gCurrent s' = gCurrent s" "gSockfd s' = gSockfd s" "cmd \<noteq> CMD_SOCKET"
    using that wf wf_state_cong [of s' s] by simp
  show ?thesis
  proof (cases cmd)
    case CMD_QUIT
    with run show ?thesis by (intro unchanged) auto
  next
    case CMD_HELP
    with run show ?thesis by (intro unchanged) (auto simp: passive_handlers)
  next
    case CMD_MODEL
    with run show ?thesis by (intro unchanged) (auto simp: passive_handlers)
  next
    case CMD_USE
    with run have "doUse s = Returns s'" by (simp split: outcome.splits)
    from doUse_registry [OF wf this] CMD_USE show ?thesis by simp
  next
    case CMD_SOCKET
    with run have "s' = doSocket s" by simp
    with doSocket_registry [OF wf] CMD_SOCKET show ?thesis by simp
  next
    case CMD_BIND
    with run show ?thesis by (intro unchanged) (auto simp: passive_handlers)
  next
    case CMD_CONNECT
    with run have "doConnect n s = Returns s'" by (simp split: outcome.splits)
    from loop_handlers_registry(1) [OF this] CMD_CONNECT show ?thesis by (intro unchanged) auto
  next
    case CMD_LISTEN
    with run show ?thesis by (intro unchanged) (auto simp: passive_handlers)
  next
    case CMD_ACCEPT
    with run have "doAccept n s = Returns s'" by (simp split: outcome.splits)
    from doAccept_registry [OF wf this] CMD_ACCEPT show ?thesis by auto
  next
    case CMD_RECVMSG
    with run have "doRecvmsg n s = Returns s'" by (simp split: outcome.splits)
    from loop_handlers_registry(2) [OF this] CMD_RECVMSG show ?thesis by (intro unchanged) auto
  next
    case CMD_SENDMSG
    with run have "doSendmsg n s = Returns s'" by (simp split: outcome.splits)
    from loop_handlers_registry(3) [OF this] CMD_SENDMSG show ?thesis by (intro unchanged) auto
  next
    case CMD_READ
    with run have "doRead n s = Returns s'" by (simp split: outcome.splits)
    from loop_handlers_registry(4) [OF this] CMD_READ show ?thesis by (intro unchanged) auto
  next
    case CMD_WRITE
    with run have "doWrite n s = Returns s'" by (simp split: outcome.splits)
    from loop_handlers_registry(5) [OF this] CMD_WRITE show ?thesis by (intro unchanged) auto
  next
    case CMD_SETSOCKOPT
    with run show ?thesis by (intro unchanged) (auto simp: passive_handlers)
  next
    case CMD_GETSOCKOPT
    with run show ?thesis by (intro unchanged) (auto simp: passive_handlers)
  next
    case CMD_MULTIJOIN
    with run show ?thesis by (intro unchanged) (auto simp: passive_handlers)
  next
    case CMD_MULTILEAVE
    with run show ?thesis by (intro unchanged) (auto simp: passive_handlers)
  next
    case CMD_SHUTDOWN
    with run show ?thesis by (intro unchanged) (auto simp: passive_handlers)
  next
    case CMD_GETSOCKNAME
    with run show ?thesis by (intro unchanged) (auto simp: passive_handlers)
  next
    case CMD_GETPEERNAME
    with run show ?thesis by (intro unchanged) (auto simp: passive_handlers)
  next
    case CMD_CLOSE
    with run have "s' = doClose s" by simp
    with doClose_registry [OF wf] CMD_CLOSE show ?thesis by simp
  qed
qed

text \<open>Where a command has no defined result: the out-of-bounds read of \<open>doUse\<close>, and
  the return without a value of \<open>signalPostAPISetup\<close>, reached only in the Signal
  model.\<close>

lemma selectLoop_defined: "selectLoop n c s \<noteq> Undefined f"
proof (induction n arbitrary: s)
  case 0
  show ?case by simp
next
  case (Suc n)
  obtain s2 where
    "selectLoop (Suc n) c s =
       (if sel_result (shd (w_select (world s))) \<noteq> 1 \<and> \<not> gInterrupted s2
        then selectLoop n c s2 else Returns s2)"
    by (rule selectLoop_turn [of n c s]) blast
  with Suc.IH [of s2] show ?case by simp
qed

lemma signalWait_defined: "signalWait n s \<noteq> Undefined f"
  by (induction n arbitrary: s) (simp_all add: Let_def)

lemma preAPISetup_defined: "preAPISetup n c s \<noteq> Undefined f"
proof (cases "model s")
  case SELECT_MODEL
  then show ?thesis
    using selectLoop_defined [of n c s]
    by (simp add: preAPISetup_def selectPreAPISetup_def split: outcome.splits)
next
  case SIGNAL_MODEL
  then show ?thesis
    using signalWait_defined
    by (simp add: preAPISetup_def signalPreAPISetup_def Let_def case_prod_beta
          split: outcome.splits)
qed (simp_all add: preAPISetup_def)

lemma postAPISetup_undefined:
  "postAPISetup r s = Undefined f \<Longrightarrow> f = NoReturnValue \<and> model s = SIGNAL_MODEL"
  by (cases "model s")
     (simp_all add: postAPISetup_def signalPostAPISetup_def Let_def case_prod_beta
        split: if_splits)

lemma apiLoop_undefined:
  "apiLoop n c a s = Undefined f \<Longrightarrow> f = NoReturnValue \<and> model s = SIGNAL_MODEL"
proof (induction n arbitrary: s)
  case 0
  then show ?case by simp
next
  case (Suc n)
  from Suc.prems preAPISetup_defined [of "Suc n" c s] obtain s1 where
    pre: "preAPISetup (Suc n) c s = Returns s1"
    by (auto simp: apiLoop_Suc simp del: apiLoop.simps split: outcome.splits)
  note f1 = preAPISetup_frame [OF pre]
  let ?s2 = "snd (call_api a s1)"
  let ?r = "api_result (shd (w_api (world s1)))"
  from Suc.prems pre have ni: "\<not> gInterrupted s1"
    by (auto simp: apiLoop_Suc simp del: apiLoop.simps split: if_splits)
  show ?case
  proof (cases "postAPISetup ?r ?s2")
    case (Undefined g)
    with Suc.prems pre ni have "g = f" by (simp add: apiLoop_Suc del: apiLoop.simps)
    with postAPISetup_undefined [OF Undefined] f1 show ?thesis by simp
  next
    case OutOfFuel
    with Suc.prems pre ni show ?thesis by (simp add: apiLoop_Suc del: apiLoop.simps)
  next
    case (Returns p)
    obtain d s3 where p: "p = (d, s3)" by (cases p)
    note f3 = postAPISetup_frame [OF Returns [unfolded p]]
    from Suc.prems pre ni Returns p have "apiLoop n c a s3 = Undefined f"
      by (simp add: apiLoop_Suc del: apiLoop.simps split: if_splits)
    from Suc.IH [OF this] f1 f3 show ?thesis by simp
  qed
qed

lemma argument_model [simp]:
  "model (snd (setIntegerArgument p s)) = model s"
  "model (snd (findFreeSocketSlot s)) = model s"
  by (simp_all add: setIntegerArgument_def findFreeSocketSlot_def Let_def fprintf_def
        split: option.splits)

lemma loop_handlers_undefined:
  "doConnect n s = Undefined f \<Longrightarrow> f = NoReturnValue \<and> model s = SIGNAL_MODEL"
  "doAccept n s = Undefined f \<Longrightarrow> f = NoReturnValue \<and> model s = SIGNAL_MODEL"
  "doRecvmsg n s = Undefined f \<Longrightarrow> f = NoReturnValue \<and> model s = SIGNAL_MODEL"
  "doSendmsg n s = Undefined f \<Longrightarrow> f = NoReturnValue \<and> model s = SIGNAL_MODEL"
  "doRead n s = Undefined f \<Longrightarrow> f = NoReturnValue \<and> model s = SIGNAL_MODEL"
  "doWrite n s = Undefined f \<Longrightarrow> f = NoReturnValue \<and> model s = SIGNAL_MODEL"
proof -
  have loop: "f = NoReturnValue \<and> model t = SIGNAL_MODEL"
    if "apiLoop n c a t = Undefined f" for c a t
    using that by (rule apiLoop_undefined)
  show "f = NoReturnValue \<and> model s = SIGNAL_MODEL" if "doRead n s = Undefined f"
    using that
    by (auto simp: doRead_def Let_def split: outcome.splits option.splits if_splits dest!: loop)
  show "f = NoReturnValue \<and> model s = SIGNAL_MODEL" if "doWrite n s = Undefined f"
    using that
    by (auto simp: doWrite_def split: outcome.splits option.splits dest!: loop)
  show "f = NoReturnValue \<and> model s = SIGNAL_MODEL" if "doSendmsg n s = Undefined f"
    using that
    by (auto simp: doSendmsg_def split: outcome.splits option.splits optparse.splits
          dest!: loop)
  show "f = NoReturnValue \<and> model s = SIGNAL_MODEL" if "doRecvmsg n s = Undefined f"
    using that
    by (auto simp: doRecvmsg_def Let_def case_prod_beta
          split: outcome.splits option.splits optparse.splits if_splits dest!: loop)
  show "f = NoReturnValue \<and> model s = SIGNAL_MODEL" if "doAccept n s = Undefined f"
    using that
    by (auto simp: doAccept_def case_prod_beta
          split: outcome.splits option.splits if_splits dest!: loop)
  show "f = NoReturnValue \<and> model s = SIGNAL_MODEL" if "doConnect n s = Undefined f"
    using that
    by (auto simp: doConnect_def Let_def case_prod_beta
          split: outcome.splits option.splits if_splits dest!: loop)
qed

lemma doUse_undefined:
  assumes "doUse s = Undefined f"
  shows "f = OutOfBoundsRead \<and> length (gTokens s) = 2 \<and>
         (\<exists>i. w_scan (world s) (gTokens s ! 1) = Some i \<and> (i < 0 \<or> int MAXSOCKETS \<le> i))"
  using assms
  by (auto simp: doUse_def gTokenCount_def setIntegerArgument_def case_prod_beta Let_def
        split: if_splits option.splits)

lemma dispatch_undefined:
  assumes "dispatch n cmd s = Undefined f"
  shows "(f = OutOfBoundsRead \<and> cmd = CMD_USE \<and> length (gTokens s) = 2 \<and>
          (\<exists>i. w_scan (world s) (gTokens s ! 1) = Some i \<and> (i < 0 \<or> int MAXSOCKETS \<le> i))) \<or>
         (f = NoReturnValue \<and> model s = SIGNAL_MODEL \<and>
          cmd \<in> {CMD_CONNECT, CMD_ACCEPT, CMD_RECVMSG, CMD_SENDMSG, CMD_READ, CMD_WRITE})"
proof (cases cmd)
  case CMD_USE
  with assms have "doUse s = Undefined f" by (simp split: outcome.splits)
  from doUse_undefined [OF this] CMD_USE show ?thesis by simp
next
  case CMD_CONNECT
  with assms have "doConnect n s = Undefined f" by (simp split: outcome.splits)
  from loop_handlers_undefined(1) [OF this] CMD_CONNECT show ?thesis by simp
next
  case CMD_ACCEPT
  with assms have "doAccept n s = Undefined f" by (simp split: outcome.splits)
  from loop_handlers_undefined(2) [OF this] CMD_ACCEPT show ?thesis by simp
next
  case CMD_RECVMSG
  with assms have "doRecvmsg n s = Undefined f" by (simp split: outcome.splits)
  from loop_handlers_undefined(3) [OF this] CMD_RECVMSG show ?thesis by simp
next
  case CMD_SENDMSG
  with assms have "doSendmsg n s = Undefined f" by (simp split: outcome.splits)
  from loop_handlers_undefined(4) [OF this] CMD_SENDMSG show ?thesis by simp
next
  case CMD_READ
  with assms have "doRead n s = Undefined f" by (simp split: outcome.splits)
  from loop_handlers_undefined(5) [OF this] CMD_READ show ?thesis by simp
next
  case CMD_WRITE
  with assms have "doWrite n s = Undefined f" by (simp split: outcome.splits)
  from loop_handlers_undefined(6) [OF this] CMD_WRITE show ?thesis by simp
qed (use assms in simp_all)

text \<open>
  C9, as stated, does not hold. With sockets in slots 0 and 1 and slot 0 selected, a
  \<open>close\<close> that succeeds marks slot 0 unused and leaves the selection on it: a socket
  exists (slot 1), and the current selection refers to an unused slot.
\<close>

theorem close_leaves_selection_on_unused_slot:
  "main_step 0 [''close''] (two_sockets calm) =
     Returns (False,
       (two_sockets calm)
         \<lparr>gTokens := [''close''],
          gSockfd := [- 1, 4, - 1, - 1, - 1, - 1, - 1, - 1, - 1, - 1],
          trace := [EvClose 3]\<rparr>) \<and>
   cur_fd ((two_sockets calm)
         \<lparr>gTokens := [''close''],
          gSockfd := [- 1, 4, - 1, - 1, - 1, - 1, - 1, - 1, - 1, - 1],
          trace := [EvClose 3]\<rparr>) = UNUSED_FD \<and>
   gSockfd ((two_sockets calm)
         \<lparr>gTokens := [''close''],
          gSockfd := [- 1, 4, - 1, - 1, - 1, - 1, - 1, - 1, - 1, - 1],
          trace := [EvClose 3]\<rparr>) ! 1 = 4"
  by (simp add: main_step_def gCommands_def MAXTOKENS_def Let_def doClose_def syscall_def
        record_event_def cur_fd_def two_sockets_def initial_def calm_def UNUSED_FD_def)

text \<open>
  C9, amended. A command line is run by \<open>main_step\<close> from a well-formed registry.

  \<^item> If the command returns, the registry is well formed again, and the selection has
    changed only if the command was \<open>socket\<close>, \<open>accept\<close> or \<open>use\<close>. When \<open>accept\<close> or
    \<open>use\<close> has changed it, it refers to a slot in use; when \<open>socket\<close> has called
    \<open>socket()\<close> and the call succeeded, it refers to the slot that holds the new
    descriptor.
  \<^item> A \<open>use\<close> with an index from 0 to 9 always returns and leaves the registry as it
    was: the selection is that index, a slot in use, if the slot at the index is in use,
    and is unchanged otherwise.
  \<^item> A \<open>close\<close> always returns and does not move the selection; when the call succeeded the
    selection refers to the slot just marked unused.
  \<^item> A command has no defined result in two cases only: a \<open>use\<close> whose index is outside
    0 to 9, which reads \<open>gSockfd\<close> outside the array (C6), and a command with a
    retry loop in the Signal model, where \<open>signalPostAPISetup\<close> can return without a
    value. Of these the statement says nothing.
\<close>

theorem selection_changes:
  assumes "wf_state s"
  shows
    "(main_step n tokens s = Returns (d, s') \<longrightarrow>
        wf_state s' \<and>
        (gCurrent s' \<noteq> gCurrent s \<longrightarrow>
           map_of gCommands (hd tokens) = Some CMD_SOCKET \<or>
           map_of gCommands (hd tokens) = Some CMD_ACCEPT \<or>
           map_of gCommands (hd tokens) = Some CMD_USE) \<and>
        (gCurrent s' \<noteq> gCurrent s \<and> map_of gCommands (hd tokens) \<noteq> Some CMD_SOCKET \<longrightarrow>
           cur_fd s' \<noteq> UNUSED_FD) \<and>
        (map_of gCommands (hd tokens) = Some CMD_SOCKET \<and> trace s' \<noteq> trace s \<and>
         0 \<le> fst (shd (w_sys (world s))) \<longrightarrow>
           cur_fd s' = fst (shd (w_sys (world s))) \<and> cur_fd s' \<noteq> UNUSED_FD)) \<and>
     (map_of gCommands u = Some CMD_USE \<and> w_scan (world s) p = Some i \<and>
      0 \<le> i \<and> i < int MAXSOCKETS \<longrightarrow>
        (\<exists>t. main_step n [u, p] s = Returns (False, t) \<and> gSockfd t = gSockfd s \<and>
              gCurrent t = (if gSockfd s ! nat i = UNUSED_FD then gCurrent s else i) \<and>
              (gSockfd s ! nat i \<noteq> UNUSED_FD \<longrightarrow> cur_fd t \<noteq> UNUSED_FD))) \<and>
     (map_of gCommands (hd tokens) = Some CMD_CLOSE \<and> length tokens < MAXTOKENS \<longrightarrow>
        (\<exists>t. main_step n tokens s = Returns (False, t) \<and> gCurrent t = gCurrent s \<and>
              (0 \<le> fst (shd (w_sys (world s))) \<longrightarrow> cur_fd t = UNUSED_FD))) \<and>
     (main_step n tokens s = Undefined f \<longrightarrow>
        (f = OutOfBoundsRead \<and> map_of gCommands (hd tokens) = Some CMD_USE \<and>
         length tokens = 2 \<and>
         (\<exists>j. w_scan (world s) (tokens ! 1) = Some j \<and> (j < 0 \<or> int MAXSOCKETS \<le> j))) \<or>
        (f = NoReturnValue \<and> model s = SIGNAL_MODEL \<and>
         map_of gCommands (hd tokens) \<in>
           Some ` {CMD_CONNECT, CMD_ACCEPT, CMD_RECVMSG, CMD_SENDMSG, CMD_READ, CMD_WRITE}))"
proof -
  have returned: "wf_state s' \<and>
        (gCurrent s' \<noteq> gCurrent s \<longrightarrow>
           map_of gCommands (hd tokens) = Some CMD_SOCKET \<or>
           map_of gCommands (hd tokens) = Some CMD_ACCEPT \<or>
           map_of gCommands (hd tokens) = Some CMD_USE) \<and>
        (gCurrent s' \<noteq> gCurrent s \<and> map_of gCommands (hd tokens) \<noteq> Some CMD_SOCKET \<longrightarrow>
           cur_fd s' \<noteq> UNUSED_FD) \<and>
        (map_of gCommands (hd tokens) = Some CMD_SOCKET \<and> trace s' \<noteq> trace s \<and>
         0 \<le> fst (shd (w_sys (world s))) \<longrightarrow>
           cur_fd s' = fst (shd (w_sys (world s))) \<and> cur_fd s' \<noteq> UNUSED_FD)"
    if run: "main_step n tokens s = Returns (d, s')"
  proof (cases "length tokens \<ge> MAXTOKENS")
    case True
    with run have "s' = fprintf Stderr ''Too many tokens in input line.'' []
                               (s\<lparr>gTokens := take MAXTOKENS tokens\<rparr>)"
      by (simp add: main_step_def)
    with assms show ?thesis by (simp add: wf_state_def)
  next
    case False
    define s1 where "s1 = s\<lparr>gTokens := tokens, gInterrupted := False\<rparr>"
    have s1: "wf_state s1" "gCurrent s1 = gCurrent s" "trace s1 = trace s" "world s1 = world s"
      using assms by (simp_all add: s1_def wf_state_def)
    show ?thesis
    proof (cases "map_of gCommands (hd tokens)")
      case None
      with run False have "s' = fprintf Stderr ''Unrecognized command.'' [] s1"
        by (simp add: main_step_def Let_def s1_def)
      with s1 None show ?thesis by (simp add: wf_state_def)
    next
      case (Some cmd)
      with run False have "dispatch n cmd s1 = Returns (d, s')"
        by (simp add: main_step_def Let_def s1_def)
      from dispatch_registry [OF s1(1) this] Some s1(2-) show ?thesis
        by (auto simp: UNUSED_FD_def)
    qed
  qed
  have used: "\<exists>t. main_step n [u, p] s = Returns (False, t) \<and> gSockfd t = gSockfd s \<and>
              gCurrent t = (if gSockfd s ! nat i = UNUSED_FD then gCurrent s else i) \<and>
              (gSockfd s ! nat i \<noteq> UNUSED_FD \<longrightarrow> cur_fd t \<noteq> UNUSED_FD)"
    if a: "map_of gCommands u = Some CMD_USE \<and> w_scan (world s) p = Some i \<and>
      0 \<le> i \<and> i < int MAXSOCKETS"
  proof -
    define s1 where "s1 = s\<lparr>gTokens := [u, p], gInterrupted := False\<rparr>"
    have "main_step n [u, p] s = dispatch n CMD_USE s1"
      using a by (simp add: main_step_def Let_def s1_def MAXTOKENS_def)
    moreover have "doUse s1 =
           (if gSockfd s1 ! nat i = UNUSED_FD
            then Returns (fprintf Stderr ''Socket number %d not open.'' [I i] s1)
            else Returns (s1\<lparr>gCurrent := i\<rparr>))"
      by (rule doUse_in_range [of s1 u p i]) (use a in \<open>simp_all add: s1_def\<close>)
    ultimately show ?thesis by (simp add: s1_def fprintf_def cur_fd_def)
  qed
  have closed: "\<exists>t. main_step n tokens s = Returns (False, t) \<and> gCurrent t = gCurrent s \<and>
              (0 \<le> fst (shd (w_sys (world s))) \<longrightarrow> cur_fd t = UNUSED_FD)"
    if a: "map_of gCommands (hd tokens) = Some CMD_CLOSE \<and> length tokens < MAXTOKENS"
  proof -
  define s1 where "s1 = s\<lparr>gTokens := tokens, gInterrupted := False\<rparr>"
  have s1: "gCurrent s1 = gCurrent s" "gSockfd s1 = gSockfd s" "world s1 = world s"
    by (simp_all add: s1_def)
  have run: "main_step n tokens s = Returns (False, doClose s1)"
    using a by (simp add: main_step_def Let_def s1_def)
  have "nat (gCurrent s) < length (gSockfd s)"
    using assms by (auto simp: wf_state_def)
  then have "cur_fd (doClose s1) = UNUSED_FD" if "0 \<le> fst (shd (w_sys (world s)))"
    using that s1 by (simp add: doClose_cases cur_fd_def)
  moreover have "gCurrent (doClose s1) = gCurrent s"
    using s1 by (simp add: doClose_cases)
  ultimately show ?thesis
    using run by blast
  qed
  have faulted: "(f = OutOfBoundsRead \<and> map_of gCommands (hd tokens) = Some CMD_USE \<and>
         length tokens = 2 \<and>
         (\<exists>j. w_scan (world s) (tokens ! 1) = Some j \<and> (j < 0 \<or> int MAXSOCKETS \<le> j))) \<or>
        (f = NoReturnValue \<and> model s = SIGNAL_MODEL \<and>
         map_of gCommands (hd tokens) \<in>
           Some ` {CMD_CONNECT, CMD_ACCEPT, CMD_RECVMSG, CMD_SENDMSG, CMD_READ, CMD_WRITE})"
    if u: "main_step n tokens s = Undefined f"
  proof -
  from u have len: "length tokens < MAXTOKENS"
    by (auto simp: main_step_def split: if_splits)
  define s1 where "s1 = s\<lparr>gTokens := tokens, gInterrupted := False\<rparr>"
  from u len obtain cmd where cmd: "map_of gCommands (hd tokens) = Some cmd"
    and d: "dispatch n cmd s1 = Undefined f"
    by (auto simp: main_step_def Let_def s1_def split: option.splits)
  from dispatch_undefined [OF d] cmd
  show ?thesis
    by (auto simp: s1_def)
  qed
  show ?thesis
    by (rule conjI [OF impI [OF returned] conjI [OF impI [OF used]
          conjI [OF impI [OF closed] impI [OF faulted]]]])
qed


text \<open>
  The same on a \<open>socket\<close> command in the initial state and on \<open>use 1\<close> with two
  sockets and slot 0 selected.
\<close>

theorem selection_changes_witness:
  "main_step 0 [''socket''] (initial calm) =
     Returns (False, (initial calm)\<lparr>gTokens := [''socket''], gSockfd := 0 # replicate 9 (- 1),
                                    trace := [EvSocket]\<rparr>) \<and>
   wf_state ((initial calm)\<lparr>gTokens := [''socket''], gSockfd := 0 # replicate 9 (- 1),
                            trace := [EvSocket]\<rparr>) \<and>
   cur_fd ((initial calm)\<lparr>gTokens := [''socket''], gSockfd := 0 # replicate 9 (- 1),
                           trace := [EvSocket]\<rparr>) \<noteq> UNUSED_FD \<and>
   (\<exists>t. main_step 0 [''use'', ''1''] (two_sockets reads_one) = Returns (False, t) \<and>
        gCurrent t = 1 \<and> wf_state t \<and> cur_fd t \<noteq> UNUSED_FD)"
proof -
  let ?a = "(initial calm)\<lparr>gTokens := [''socket''], gSockfd := 0 # replicate 9 (- 1),
                            trace := [EvSocket]\<rparr>"
  have wa: "wf_state (initial calm)" and wb: "wf_state (two_sockets reads_one)"
    by (simp_all add: wf_state_def initial_def two_sockets_def MAXSOCKETS_def)
  have "findSlotLoop 0 (replicate MAXSOCKETS UNUSED_FD) = 0"
    by (rule findSlotLoop_first) (simp_all add: MAXSOCKETS_def)
  then have ra: "main_step 0 [''socket''] (initial calm) = Returns (False, ?a)"
    by (simp add: main_step_def gCommands_def MAXTOKENS_def Let_def doSocket_def
          findFreeSocketSlot_def syscall_def record_event_def cur_fd_def initial_def calm_def
          MAXSOCKETS_def UNUSED_FD_def numeral_eq_Suc)
  have ca: "map_of gCommands (hd [''socket'']) = Some CMD_SOCKET \<and> trace ?a \<noteq> trace (initial calm) \<and>
      0 \<le> fst (shd (w_sys (world (initial calm))))"
    by (simp add: gCommands_def initial_def calm_def)
  have cb: "map_of gCommands ''use'' = Some CMD_USE \<and>
      w_scan (world (two_sockets reads_one)) ''1'' = Some 1 \<and> (0::int) \<le> 1 \<and> 1 < int MAXSOCKETS"
    by (simp add: gCommands_def two_sockets_def initial_def reads_one_def MAXSOCKETS_def)
  have slot: "gSockfd (two_sockets reads_one) ! nat 1 \<noteq> UNUSED_FD"
    "gCurrent (two_sockets reads_one) \<noteq> 1"
    "map_of gCommands (hd [''use'', ''1'']) \<noteq> Some CMD_SOCKET"
    by (simp_all add: two_sockets_def initial_def UNUSED_FD_def gCommands_def)
  from selection_changes [OF wa, of 0 "[''socket'']" False ?a "''use''" "''1''" 1
         OutOfBoundsRead, THEN conjunct1] ra ca
  have a: "wf_state ?a \<and> cur_fd ?a \<noteq> UNUSED_FD" by blast
  from selection_changes [OF wb, of 0 "[]" False "initial calm" "''use''" "''1''" 1
         OutOfBoundsRead, THEN conjunct2, THEN conjunct1] cb slot(1)
  obtain t where t: "main_step 0 [''use'', ''1''] (two_sockets reads_one) = Returns (False, t)"
      "gCurrent t = 1"
    by auto
  from selection_changes [OF wb, of 0 "[''use'', ''1'']" False t "''use''" "''1''" 1
         OutOfBoundsRead, THEN conjunct1] t slot(2,3)
  have "wf_state t \<and> cur_fd t \<noteq> UNUSED_FD" by auto
  with ra a t show ?thesis by blast
qed

end
